theory Spec2Isabelle
  imports Main "HOL-Library.Word"
begin

unbundle bit_operations_syntax

section \<open>Types, diagnostics and the intermediate representation\<close>

text \<open>
  The lowering engine of \<^verbatim>\<open>src/compiler.ts\<close> builds Binaryen expressions through a
  module builder. An expression reference is modelled by the tree the builder calls
  describe: one constructor per \<^verbatim>\<open>module.createX\<close> call, with the arguments of the call.
\<close>

datatype TypeKind =
  I8 | I16 | I32 | I64 | ISIZE | U8 | U16 | U32 | U64 | USIZE | BOOL | F32 | F64 | VOID

datatype TypeFlags = SIGNED | UNSIGNED | INTEGER | FLOAT | SMALL | LONG | VALUE | REFERENCE

record Type =
  kind :: TypeKind
  flags :: "TypeFlags set"
  size :: nat

text \<open>\<^verbatim>\<open>type.is(flags)\<close>: all the given flags are set.\<close>

definition is_type :: "Type \<Rightarrow> TypeFlags set \<Rightarrow> bool" where
  "is_type t fs = (fs \<subseteq> flags t)"

text \<open>
  Modelled from the spec: \<^verbatim>\<open>types.ts\<close> is not among the sources. The static instances
  \<^verbatim>\<open>Type.i8\<close> ... \<^verbatim>\<open>Type.void\<close> carry the kind, the size in bits and the
  signed/float/small/long/integer flags the specification's data model lists; the small
  integers are i8, i16, u8, u16 and bool, and \<^verbatim>\<open>void\<close> has no flag.
\<close>

definition Type_i8 :: Type where
  "Type_i8 = \<lparr>kind = I8, flags = {SIGNED, SMALL, INTEGER, VALUE}, size = 8\<rparr>"
definition Type_i16 :: Type where
  "Type_i16 = \<lparr>kind = I16, flags = {SIGNED, SMALL, INTEGER, VALUE}, size = 16\<rparr>"
definition Type_i32 :: Type where
  "Type_i32 = \<lparr>kind = I32, flags = {SIGNED, INTEGER, VALUE}, size = 32\<rparr>"
definition Type_i64 :: Type where
  "Type_i64 = \<lparr>kind = I64, flags = {SIGNED, LONG, INTEGER, VALUE}, size = 64\<rparr>"
definition Type_isize32 :: Type where
  "Type_isize32 = \<lparr>kind = ISIZE, flags = {SIGNED, INTEGER, VALUE}, size = 32\<rparr>"
definition Type_isize64 :: Type where
  "Type_isize64 = \<lparr>kind = ISIZE, flags = {SIGNED, LONG, INTEGER, VALUE}, size = 64\<rparr>"
definition Type_u8 :: Type where
  "Type_u8 = \<lparr>kind = U8, flags = {UNSIGNED, SMALL, INTEGER, VALUE}, size = 8\<rparr>"
definition Type_u16 :: Type where
  "Type_u16 = \<lparr>kind = U16, flags = {UNSIGNED, SMALL, INTEGER, VALUE}, size = 16\<rparr>"
definition Type_u32 :: Type where
  "Type_u32 = \<lparr>kind = U32, flags = {UNSIGNED, INTEGER, VALUE}, size = 32\<rparr>"
definition Type_u64 :: Type where
  "Type_u64 = \<lparr>kind = U64, flags = {UNSIGNED, LONG, INTEGER, VALUE}, size = 64\<rparr>"
definition Type_usize32 :: Type where
  "Type_usize32 = \<lparr>kind = USIZE, flags = {UNSIGNED, INTEGER, VALUE}, size = 32\<rparr>"
definition Type_usize64 :: Type where
  "Type_usize64 = \<lparr>kind = USIZE, flags = {UNSIGNED, LONG, INTEGER, VALUE}, size = 64\<rparr>"
definition Type_bool :: Type where
  "Type_bool = \<lparr>kind = BOOL, flags = {UNSIGNED, SMALL, INTEGER, VALUE}, size = 1\<rparr>"
definition Type_f32 :: Type where
  "Type_f32 = \<lparr>kind = F32, flags = {SIGNED, FLOAT, VALUE}, size = 32\<rparr>"
definition Type_f64 :: Type where
  "Type_f64 = \<lparr>kind = F64, flags = {SIGNED, LONG, FLOAT, VALUE}, size = 64\<rparr>"
definition Type_void :: Type where
  "Type_void = \<lparr>kind = VOID, flags = {}, size = 0\<rparr>"

definition smallIntegerTypes :: "Type list" where
  "smallIntegerTypes = [Type_i8, Type_i16, Type_u8, Type_u16, Type_bool]"

datatype NativeType = NativeNone | NativeI32 | NativeI64 | NativeF32 | NativeF64

text \<open>
  Modelled from the spec: \<^verbatim>\<open>Type.toNativeType\<close> (in \<^verbatim>\<open>types.ts\<close>). Small integers
  project to i32, the size types to i32 or i64 by their width.
\<close>

definition toNativeType :: "Type \<Rightarrow> NativeType" where
  "toNativeType t =
     (case kind t of
        I64 \<Rightarrow> NativeI64 | U64 \<Rightarrow> NativeI64
      | ISIZE \<Rightarrow> (if size t = 64 then NativeI64 else NativeI32)
      | USIZE \<Rightarrow> (if size t = 64 then NativeI64 else NativeI32)
      | F32 \<Rightarrow> NativeF32
      | F64 \<Rightarrow> NativeF64
      | VOID \<Rightarrow> NativeNone
      | _ \<Rightarrow> NativeI32)"

datatype UnaryOp =
    EqzI32 | EqzI64
  | PromoteF32 | DemoteF64
  | TruncF32ToI32 | TruncF32ToI64 | TruncF32ToU32 | TruncF32ToU64
  | TruncF64ToI32 | TruncF64ToI64 | TruncF64ToU32 | TruncF64ToU64
  | ConvertI32ToF32 | ConvertU32ToF32 | ConvertI64ToF32 | ConvertU64ToF32
  | ConvertI32ToF64 | ConvertU32ToF64 | ConvertI64ToF64 | ConvertU64ToF64
  | WrapI64 | ExtendI32 | ExtendU32
  | NegF32 | NegF64

datatype BinaryOp =
    AddI32 | SubI32 | MulI32 | DivI32 | DivU32 | RemI32 | RemU32
  | AndI32 | OrI32 | XorI32 | ShlI32 | ShrI32 | ShrU32 | EqI32 | NeI32
  | AddI64 | SubI64 | MulI64 | DivI64 | DivU64 | RemI64 | RemU64
  | AndI64 | OrI64 | XorI64 | ShlI64 | ShrI64 | ShrU64 | EqI64 | NeI64
  | AddF32 | SubF32 | MulF32 | DivF32 | EqF32 | NeF32
  | AddF64 | SubF64 | MulF64 | DivF64 | EqF64 | NeF64
  | LtI32 | LtU32 | LtI64 | LtU64 | LtF32 | LtF64
  | GtI32 | GtU32 | GtI64 | GtU64 | GtF32 | GtF64
  | LeI32 | LeU32 | LeI64 | LeU64 | LeF32 | LeF64
  | GeI32 | GeU32 | GeI64 | GeU64 | GeF32 | GeF64

text \<open>
  A source expression is opaque here: its lowering is the business of
  \<^verbatim>\<open>compileExpression\<close>, which the statement and call machinery below only calls.
  A 32-bit constant is a \<open>32 word\<close>, a 64-bit constant its low and high halves, a float
  constant the bit pattern of the number handed to the builder.
\<close>

datatype Expression = Expression nat

datatype ExpressionRef =
    createI32 "32 word"
  | createI64 "32 word" "32 word"
  | createF32 "64 word"
  | createF64 "64 word"
  | createUnary UnaryOp ExpressionRef
  | createBinary BinaryOp ExpressionRef ExpressionRef
  | createDrop ExpressionRef
  | createNop
  | createUnreachable
  | createBlock "string option" "ExpressionRef list" "NativeType option"
  | createLoop string ExpressionRef
  | createIf ExpressionRef ExpressionRef "ExpressionRef option"
  | createBreak string "ExpressionRef option"
  | createSwitch "string list" string ExpressionRef
  | createReturn "ExpressionRef option"
  | createGetLocal int NativeType
  | createSetLocal int ExpressionRef
  | createTeeLocal int ExpressionRef
  | createGetGlobal string NativeType
  | createSetGlobal string ExpressionRef
  | createCall string "ExpressionRef list" NativeType
  | createCallImport string "ExpressionRef list" NativeType
  | lowered Expression Type

datatype DiagnosticCode =
    Operation_not_supported
  | The_0_operator_cannot_be_applied_to_type_1
  | Operator_0_cannot_be_applied_to_types_1_and_2
  | Type_0_is_not_assignable_to_type_1
  | Conversion_from_type_0_to_1_requires_an_explicit_cast
  | Type_expected
  | Cannot_assign_to_0_because_it_is_a_constant_or_a_read_only_property
  | Compiling_constant_with_non_constant_initializer_as_mutable
  | A_function_whose_declared_type_is_not_void_must_return_a_value
  | An_implementation_cannot_be_declared_in_ambient_contexts
  | Function_implementation_is_missing_or_not_immediately_following_the_declaration
  | A_break_statement_can_only_be_used_within_an_enclosing_iteration_or_switch_statement
  | A_continue_statement_can_only_be_used_within_an_enclosing_iteration_statement
  | A_member_initializer_in_a_enum_declaration_cannot_reference_members_declared_after_it_including_members_defined_in_other_enums

text \<open>
  A diagnostic is its code and the place it is reported at (the name of the range, for
  instance the internal name of the element concerned). A thrown \<^verbatim>\<open>Error\<close> or a failed
  \<^verbatim>\<open>assert\<close> ends the compilation: it is the left summand of every result.
\<close>

datatype Severity = ERROR | WARNING

record Diagnostic =
  severity :: Severity
  code :: DiagnosticCode
  range :: string

datatype Thrown = Error string | AssertionError string

section \<open>Small-integer wrap\<close>

text \<open>\<^verbatim>\<open>makeSmallIntegerWrap\<close> (compiler.ts, the helpers at the end).\<close>

definition makeSmallIntegerWrap :: "ExpressionRef \<Rightarrow> Type \<Rightarrow> Thrown + ExpressionRef" where
  "makeSmallIntegerWrap expr type' =
     (case kind type' of
        I8 \<Rightarrow> Inr (createBinary ShrI32 (createBinary ShlI32 expr (createI32 24)) (createI32 24))
      | I16 \<Rightarrow> Inr (createBinary ShrI32 (createBinary ShlI32 expr (createI32 16)) (createI32 16))
      | U8 \<Rightarrow> Inr (createBinary AndI32 expr (createI32 0xff))
      | U16 \<Rightarrow> Inr (createBinary AndI32 expr (createI32 0xffff))
      | BOOL \<Rightarrow> Inr (createBinary AndI32 expr (createI32 0x1))
      | _ \<Rightarrow> Inl (Error ''small integer type expected''))"

text \<open>
  The operator tokens of binary and unary expressions (\<^verbatim>\<open>tokenizer.ts\<close>), with a few
  tokens that are no operator. A compound assignment token falls into the case of its
  operator after setting \<^verbatim>\<open>compound\<close>; the strict comparisons \<open>===\<close> and \<open>!==\<close> share
  the case of \<open>==\<close> and \<open>!=\<close>.
\<close>

datatype Token =
    LESSTHAN | GREATERTHAN | LESSTHAN_EQUALS | GREATERTHAN_EQUALS
  | EQUALS_EQUALS | EQUALS_EQUALS_EQUALS | EXCLAMATION_EQUALS | EXCLAMATION_EQUALS_EQUALS
  | EQUALS
  | PLUS | MINUS | ASTERISK | SLASH | PERCENT
  | LESSTHAN_LESSTHAN | GREATERTHAN_GREATERTHAN | GREATERTHAN_GREATERTHAN_GREATERTHAN
  | AMPERSAND | BAR | CARET
  | PLUS_EQUALS | MINUS_EQUALS | ASTERISK_EQUALS | SLASH_EQUALS | PERCENT_EQUALS
  | LESSTHAN_LESSTHAN_EQUALS | GREATERTHAN_GREATERTHAN_EQUALS
  | GREATERTHAN_GREATERTHAN_GREATERTHAN_EQUALS
  | AMPERSAND_EQUALS | BAR_EQUALS | CARET_EQUALS
  | AMPERSAND_AMPERSAND | BAR_BAR
  | PLUS_PLUS | MINUS_MINUS | EXCLAMATION | TILDE | TYPEOF
  | DOT | QUESTION | COMMA

text \<open>
  What the switch over the operator of an expression leaves behind: the expression and
  \<^verbatim>\<open>possiblyOverflows\<close>, or an early \<^verbatim>\<open>return\<close> out of the method.
\<close>

datatype KindSwitch = Selected bool ExpressionRef | Returned ExpressionRef

definition report :: "Severity \<Rightarrow> DiagnosticCode \<Rightarrow> string \<Rightarrow> Diagnostic" where
  "report s c r = \<lparr>severity = s, code = c, range = r\<rparr>"

text \<open>
  The inner switches of \<^verbatim>\<open>compileBinaryExpression\<close>: for each operator, the switch over
  the kind of the operands' type (the common type for a comparison, \<^verbatim>\<open>this.currentType\<close>
  otherwise), which selects the opcode and sets \<^verbatim>\<open>possiblyOverflows\<close>. The operators that
  hold no such switch (\<open>=\<close>, \<open>&&\<close>, \<open>||\<close>) are dealt with by \<^verbatim>\<open>compileBinaryExpression\<close>
  below; the last equation is the \<^verbatim>\<open>default\<close> case of the outer switch.
\<close>

fun kindSwitch ::
  "Token \<Rightarrow> bool \<Rightarrow> TypeKind \<Rightarrow> ExpressionRef \<Rightarrow> ExpressionRef \<Rightarrow> string
     \<Rightarrow> Diagnostic list \<times> (Thrown + KindSwitch)" where
  "kindSwitch PLUS isWasm64 k left right rg =
     (if k \<in> {I8, I16, U8, U16, BOOL} then ([], Inr (Selected True (createBinary AddI32 left right)))
      else if k \<in> {I32, U32} then ([], Inr (Selected False (createBinary AddI32 left right)))
      else if k \<in> {USIZE, ISIZE} then
        ([], Inr (Selected False (createBinary (if isWasm64 then AddI64 else AddI32) left right)))
      else if k \<in> {I64, U64} then ([], Inr (Selected False (createBinary AddI64 left right)))
      else if k = F32 then ([], Inr (Selected False (createBinary AddF32 left right)))
      else if k = F64 then ([], Inr (Selected False (createBinary AddF64 left right)))
      else ([], Inl (Error ''concrete type expected'')))"
| "kindSwitch MINUS isWasm64 k left right rg =
     (if k \<in> {I8, I16, U8, U16, BOOL} then ([], Inr (Selected True (createBinary SubI32 left right)))
      else if k \<in> {I32, U32} then ([], Inr (Selected False (createBinary SubI32 left right)))
      else if k \<in> {USIZE, ISIZE} then
        ([], Inr (Selected False (createBinary (if isWasm64 then SubI64 else SubI32) left right)))
      else if k \<in> {I64, U64} then ([], Inr (Selected False (createBinary SubI64 left right)))
      else if k = F32 then ([], Inr (Selected False (createBinary SubF32 left right)))
      else if k = F64 then ([], Inr (Selected False (createBinary SubF64 left right)))
      else ([report ERROR Operation_not_supported rg], Inl (Error ''concrete type expected'')))"
| "kindSwitch ASTERISK isWasm64 k left right rg =
     (if k \<in> {I8, I16, U8, U16, BOOL} then ([], Inr (Selected True (createBinary MulI32 left right)))
      else if k \<in> {I32, U32} then ([], Inr (Selected False (createBinary MulI32 left right)))
      else if k \<in> {USIZE, ISIZE} then
        ([], Inr (Selected False (createBinary (if isWasm64 then MulI64 else MulI32) left right)))
      else if k \<in> {I64, U64} then ([], Inr (Selected False (createBinary MulI64 left right)))
      else if k = F32 then ([], Inr (Selected False (createBinary MulF32 left right)))
      else if k = F64 then ([], Inr (Selected False (createBinary MulF64 left right)))
      else ([report ERROR Operation_not_supported rg], Inl (Error ''concrete type expected'')))"
| "kindSwitch SLASH isWasm64 k left right rg =
     (if k \<in> {I8, I16} then ([], Inr (Selected True (createBinary DivI32 left right)))
      else if k = I32 then ([], Inr (Selected False (createBinary DivI32 left right)))
      else if k = ISIZE then
        ([], Inr (Selected False (createBinary (if isWasm64 then DivI64 else DivI32) left right)))
      else if k = I64 then ([], Inr (Selected False (createBinary DivI64 left right)))
      else if k \<in> {U8, U16, BOOL} then ([], Inr (Selected True (createBinary DivU32 left right)))
      else if k = U32 then ([], Inr (Selected False (createBinary DivU32 left right)))
      else if k = USIZE then
        ([], Inr (Selected False (createBinary (if isWasm64 then DivU64 else DivU32) left right)))
      else if k = U64 then ([], Inr (Selected False (createBinary DivU64 left right)))
      else if k = F32 then ([], Inr (Selected False (createBinary DivF32 left right)))
      else if k = F64 then ([], Inr (Selected False (createBinary DivF64 left right)))
      else ([report ERROR Operation_not_supported rg], Inl (Error ''concrete type expected'')))"
| "kindSwitch PERCENT isWasm64 k left right rg =
     (if k \<in> {I8, I16, I32} then ([], Inr (Selected False (createBinary RemI32 left right)))
      else if k = ISIZE then
        ([], Inr (Selected False (createBinary (if isWasm64 then RemI64 else RemI32) left right)))
      else if k = I64 then ([], Inr (Selected False (createBinary RemI64 left right)))
      else if k \<in> {U8, U16, U32, BOOL} then ([], Inr (Selected False (createBinary RemU32 left right)))
      else if k = USIZE then
        ([], Inr (Selected False (createBinary (if isWasm64 then RemU64 else RemU32) left right)))
      else if k = U64 then ([], Inr (Selected False (createBinary RemU64 left right)))
      else if k \<in> {F32, F64} then
        ([report ERROR Operation_not_supported rg], Inr (Selected False createUnreachable))
      else ([report ERROR Operation_not_supported rg], Inl (Error ''concrete type expected'')))"
| "kindSwitch LESSTHAN_LESSTHAN isWasm64 k left right rg =
     (if k \<in> {I8, I16, U8, U16, BOOL} then ([], Inr (Selected True (createBinary ShlI32 left right)))
      else if k \<in> {I64, U64} then ([], Inr (Selected False (createBinary ShlI64 left right)))
      else if k \<in> {USIZE, ISIZE} then
        ([], Inr (Selected False (createBinary (if isWasm64 then ShlI64 else ShlI32) left right)))
      else if k \<in> {F32, F64} then
        ([report ERROR The_0_operator_cannot_be_applied_to_type_1 rg], Inr (Returned createUnreachable))
      else if k = VOID then
        ([report ERROR Operation_not_supported rg], Inl (Error ''concrete type expected''))
      else ([], Inr (Selected False (createBinary ShlI32 left right))))"
| "kindSwitch GREATERTHAN_GREATERTHAN isWasm64 k left right rg =
     (if k = I64 then ([], Inr (Selected False (createBinary ShrI64 left right)))
      else if k = ISIZE then
        ([], Inr (Selected False (createBinary (if isWasm64 then ShrI64 else ShrI32) left right)))
      else if k \<in> {U8, U16, BOOL, U32} then ([], Inr (Selected False (createBinary ShrU32 left right)))
      else if k = U64 then ([], Inr (Selected False (createBinary ShrU64 left right)))
      else if k = USIZE then
        ([], Inr (Selected False (createBinary (if isWasm64 then ShrU64 else ShrU32) left right)))
      else if k \<in> {F32, F64} then
        ([report ERROR The_0_operator_cannot_be_applied_to_type_1 rg], Inr (Returned createUnreachable))
      else if k = VOID then
        ([report ERROR Operation_not_supported rg], Inl (Error ''concrete type expected''))
      else ([], Inr (Selected False (createBinary ShrI32 left right))))"
| "kindSwitch GREATERTHAN_GREATERTHAN_GREATERTHAN isWasm64 k left right rg =
     (if k \<in> {I8, I16} then ([], Inr (Selected True (createBinary ShrU32 left right)))
      else if k \<in> {I64, U64} then ([], Inr (Selected False (createBinary ShrU64 left right)))
      else if k \<in> {USIZE, ISIZE} then
        ([], Inr (Selected False (createBinary (if isWasm64 then ShrU64 else ShrU32) left right)))
      else if k = VOID then
        ([report ERROR Operation_not_supported rg], Inl (Error ''concrete type expected''))
      else ([], Inr (Selected False (createBinary ShrU32 left right))))"
| "kindSwitch AMPERSAND isWasm64 k left right rg =
     (if k \<in> {I8, I16, U8, U16, BOOL} then ([], Inr (Selected True (createBinary AndI32 left right)))
      else if k \<in> {I64, U64} then ([], Inr (Selected False (createBinary AndI64 left right)))
      else if k \<in> {USIZE, ISIZE} then
        ([], Inr (Selected False (createBinary (if isWasm64 then AndI64 else AndI32) left right)))
      else if k = VOID then
        ([report ERROR Operation_not_supported rg], Inl (Error ''concrete type expected''))
      else ([], Inr (Selected False (createBinary AndI32 left right))))"
| "kindSwitch BAR isWasm64 k left right rg =
     (if k \<in> {I8, I16, U8, U16, BOOL} then ([], Inr (Selected True (createBinary OrI32 left right)))
      else if k \<in> {I64, U64} then ([], Inr (Selected False (createBinary OrI64 left right)))
      else if k \<in> {USIZE, ISIZE} then
        ([], Inr (Selected False (createBinary (if isWasm64 then OrI64 else OrI32) left right)))
      else if k = VOID then
        ([report ERROR Operation_not_supported rg], Inl (Error ''concrete type expected''))
      else ([], Inr (Selected False (createBinary OrI32 left right))))"
| "kindSwitch CARET isWasm64 k left right rg =
     (if k \<in> {I8, I16, U8, U16, BOOL} then ([], Inr (Selected True (createBinary XorI32 left right)))
      else if k \<in> {I64, U64} then ([], Inr (Selected False (createBinary XorI64 left right)))
      else if k \<in> {USIZE, ISIZE} then
        ([], Inr (Selected False (createBinary (if isWasm64 then XorI64 else XorI32) left right)))
      else if k = VOID then
        ([report ERROR Operation_not_supported rg], Inl (Error ''concrete type expected''))
      else ([], Inr (Selected False (createBinary XorI32 left right))))"
| "kindSwitch LESSTHAN isWasm64 k left right rg =
     (if k \<in> {I8, I16, I32} then ([], Inr (Selected False (createBinary LtI32 left right)))
      else if k = I64 then ([], Inr (Selected False (createBinary LtI64 left right)))
      else if k = ISIZE then
        ([], Inr (Selected False (createBinary (if isWasm64 then LtI64 else LtI32) left right)))
      else if k \<in> {U8, U16, U32, BOOL} then ([], Inr (Selected False (createBinary LtU32 left right)))
      else if k = USIZE then
        ([], Inr (Selected False (createBinary (if isWasm64 then LtU64 else LtU32) left right)))
      else if k = U64 then ([], Inr (Selected False (createBinary LtU64 left right)))
      else if k = F32 then ([], Inr (Selected False (createBinary LtF32 left right)))
      else if k = F64 then ([], Inr (Selected False (createBinary LtF64 left right)))
      else ([report ERROR Operation_not_supported rg], Inl (Error ''concrete type expected'')))"
| "kindSwitch GREATERTHAN isWasm64 k left right rg =
     (if k \<in> {I8, I16, I32} then ([], Inr (Selected False (createBinary GtI32 left right)))
      else if k = I64 then ([], Inr (Selected False (createBinary GtI64 left right)))
      else if k = ISIZE then
        ([], Inr (Selected False (createBinary (if isWasm64 then GtI64 else GtI32) left right)))
      else if k \<in> {U8, U16, U32, BOOL} then ([], Inr (Selected False (createBinary GtU32 left right)))
      else if k = USIZE then
        ([], Inr (Selected False (createBinary (if isWasm64 then GtU64 else GtU32) left right)))
      else if k = U64 then ([], Inr (Selected False (createBinary GtU64 left right)))
      else if k = F32 then ([], Inr (Selected False (createBinary GtF32 left right)))
      else if k = F64 then ([], Inr (Selected False (createBinary GtF64 left right)))
      else ([report ERROR Operation_not_supported rg], Inl (Error ''concrete type expected'')))"
| "kindSwitch LESSTHAN_EQUALS isWasm64 k left right rg =
     (if k \<in> {I8, I16, I32} then ([], Inr (Selected False (createBinary LeI32 left right)))
      else if k = I64 then ([], Inr (Selected False (createBinary LeI64 left right)))
      else if k = ISIZE then
        ([], Inr (Selected False (createBinary (if isWasm64 then LeI64 else LeI32) left right)))
      else if k \<in> {U8, U16, U32, BOOL} then ([], Inr (Selected False (createBinary LeU32 left right)))
      else if k = USIZE then
        ([], Inr (Selected False (createBinary (if isWasm64 then LeU64 else LeU32) left right)))
      else if k = U64 then ([], Inr (Selected False (createBinary LeU64 left right)))
      else if k = F32 then ([], Inr (Selected False (createBinary LeF32 left right)))
      else if k = F64 then ([], Inr (Selected False (createBinary LeF64 left right)))
      else ([report ERROR Operation_not_supported rg], Inl (Error ''concrete type expected'')))"
| "kindSwitch GREATERTHAN_EQUALS isWasm64 k left right rg =
     (if k \<in> {I8, I16, I32} then ([], Inr (Selected False (createBinary GeI32 left right)))
      else if k = I64 then ([], Inr (Selected False (createBinary GeI64 left right)))
      else if k = ISIZE then
        ([], Inr (Selected False (createBinary (if isWasm64 then GeI64 else GeI32) left right)))
      else if k \<in> {U8, U16, U32, BOOL} then ([], Inr (Selected False (createBinary GeU32 left right)))
      else if k = USIZE then
        ([], Inr (Selected False (createBinary (if isWasm64 then GeU64 else GeU32) left right)))
      else if k = U64 then ([], Inr (Selected False (createBinary GeU64 left right)))
      else if k = F32 then ([], Inr (Selected False (createBinary GeF32 left right)))
      else if k = F64 then ([], Inr (Selected False (createBinary GeF64 left right)))
      else ([report ERROR Operation_not_supported rg], Inl (Error ''concrete type expected'')))"
| "kindSwitch EQUALS_EQUALS isWasm64 k left right rg =
     (if k \<in> {I8, I16, I32, U8, U16, U32, BOOL} then
        ([], Inr (Selected False (createBinary EqI32 left right)))
      else if k \<in> {USIZE, ISIZE} then
        ([], Inr (Selected False (createBinary (if isWasm64 then EqI64 else EqI32) left right)))
      else if k \<in> {I64, U64} then ([], Inr (Selected False (createBinary EqI64 left right)))
      else if k = F32 then ([], Inr (Selected False (createBinary EqF32 left right)))
      else if k = F64 then ([], Inr (Selected False (createBinary EqF64 left right)))
      else ([report ERROR Operation_not_supported rg], Inl (Error ''concrete type expected'')))"
| "kindSwitch EXCLAMATION_EQUALS isWasm64 k left right rg =
     (if k \<in> {I8, I16, I32, U8, U16, U32, BOOL} then
        ([], Inr (Selected False (createBinary NeI32 left right)))
      else if k \<in> {USIZE, ISIZE} then
        ([], Inr (Selected False (createBinary (if isWasm64 then NeI64 else NeI32) left right)))
      else if k \<in> {I64, U64} then ([], Inr (Selected False (createBinary NeI64 left right)))
      else if k = F32 then ([], Inr (Selected False (createBinary NeF32 left right)))
      else if k = F64 then ([], Inr (Selected False (createBinary NeF64 left right)))
      else ([report ERROR Operation_not_supported rg], Inl (Error ''concrete type expected'')))"
| "kindSwitch operator isWasm64 k left right rg =
     ([report ERROR Operation_not_supported rg], Inl (Error ''not implemented''))"

section \<open>Conversions\<close>

datatype ConversionKind = NONE | IMPLICIT | EXPLICIT

text \<open>
  \<^verbatim>\<open>convertExpression\<close>. It reports through the diagnostic sink, may throw, and sets
  \<^verbatim>\<open>this.currentType\<close> to the target type when it reaches its end (not on the early
  returns): the result is the diagnostics, and either what was thrown or the expression
  with the current type. \<^verbatim>\<open>Type.isAssignableTo\<close> lives in \<^verbatim>\<open>types.ts\<close> and is a
  parameter.
\<close>

definition convertExpression ::
  "(Type \<Rightarrow> Type \<Rightarrow> bool) \<Rightarrow> ExpressionRef \<Rightarrow> Type \<Rightarrow> Type \<Rightarrow> ConversionKind \<Rightarrow> string \<Rightarrow> Type
     \<Rightarrow> Diagnostic list \<times> (Thrown + ExpressionRef \<times> Type)" where
  "convertExpression isAssignableTo expr fromType toType conversionKind reportNode currentType =
     (if conversionKind = NONE then ([], Inl (AssertionError ''concrete type expected''))
      else if kind fromType = VOID then
        ([report ERROR Type_0_is_not_assignable_to_type_1 reportNode],
         Inr (createUnreachable, currentType))
      else if kind toType = VOID then ([], Inr (createDrop expr, currentType))
      else
        let ds = (if conversionKind = IMPLICIT \<and> \<not> isAssignableTo fromType toType
                  then [report ERROR Conversion_from_type_0_to_1_requires_an_explicit_cast reportNode]
                  else []);
            wrapIfSmall = (\<lambda>e. if is_type toType {SMALL} then makeSmallIntegerWrap e toType else Inr e);
            converted =
              (if is_type fromType {FLOAT} then
                 (if is_type toType {FLOAT} then
                    (if kind fromType = F32 then
                       (if kind toType = F64 then Inr (createUnary PromoteF32 expr) else Inr expr)
                     else if kind toType = F32 then Inr (createUnary DemoteF64 expr)
                     else Inr expr)
                  else if is_type toType {INTEGER} then
                    (if kind fromType = F32 then
                       (if is_type toType {SIGNED} then
                          (if is_type toType {LONG} then Inr (createUnary TruncF32ToI64 expr)
                           else wrapIfSmall (createUnary TruncF32ToI32 expr))
                        else
                          (if is_type toType {LONG} then Inr (createUnary TruncF32ToU64 expr)
                           else wrapIfSmall (createUnary TruncF32ToU32 expr)))
                     else
                       (if is_type toType {SIGNED} then
                          (if is_type toType {LONG} then Inr (createUnary TruncF64ToI64 expr)
                           else wrapIfSmall (createUnary TruncF64ToI32 expr))
                        else
                          (if is_type toType {LONG} then Inr (createUnary TruncF64ToU64 expr)
                           else wrapIfSmall (createUnary TruncF64ToU32 expr))))
                  else
                    (if flags toType = {} then Inr (createDrop expr)
                     else Inl (AssertionError ''void type expected'')))
               else if is_type fromType {INTEGER} \<and> is_type toType {FLOAT} then
                 (if kind toType = F32 then
                    (if is_type fromType {LONG} then
                       Inr (createUnary (if is_type fromType {SIGNED} then ConvertI64ToF32
                                         else ConvertU64ToF32) expr)
                     else
                       Inr (createUnary (if is_type fromType {SIGNED} then ConvertI32ToF32
                                         else ConvertU32ToF32) expr))
                  else
                    (if is_type fromType {LONG} then
                       Inr (createUnary (if is_type fromType {SIGNED} then ConvertI64ToF64
                                         else ConvertU64ToF64) expr)
                     else
                       Inr (createUnary (if is_type fromType {SIGNED} then ConvertI32ToF64
                                         else ConvertU32ToF64) expr)))
               else
                 (if is_type fromType {LONG} then
                    (if \<not> is_type toType {LONG} then wrapIfSmall (createUnary WrapI64 expr)
                     else Inr expr)
                  else if is_type toType {LONG} then
                    Inr (createUnary (if is_type toType {SIGNED} then ExtendI32 else ExtendU32) expr)
                  else if is_type toType {SMALL} \<and>
                          (size fromType > size toType \<or>
                           (size fromType = size toType \<and>
                            is_type fromType {SIGNED} \<noteq> is_type toType {SIGNED}))
                  then makeSmallIntegerWrap expr toType
                  else Inr expr))
        in (ds, case converted of Inl e \<Rightarrow> Inl e | Inr e \<Rightarrow> Inr (e, toType)))"

text \<open>The integer types, small and not, of both pointer widths.\<close>

definition integerTypes :: "Type list" where
  "integerTypes =
     [Type_i8, Type_i16, Type_i32, Type_i64, Type_isize32, Type_isize64,
      Type_u8, Type_u16, Type_u32, Type_u64, Type_usize32, Type_usize64, Type_bool]"

text \<open>
  The normal form of a small integer in the specification's words: shift left and
  arithmetic shift right by 24 (i8) or 16 (i16), mask by 0xff (u8), 0xffff (u16) or 0x1
  (bool).
\<close>

definition smallIntegerNormalForm :: "Type \<Rightarrow> ExpressionRef \<Rightarrow> ExpressionRef" where
  "smallIntegerNormalForm t e =
     (if kind t = I8 then createBinary ShrI32 (createBinary ShlI32 e (createI32 24)) (createI32 24)
      else if kind t = I16 then createBinary ShrI32 (createBinary ShlI32 e (createI32 16)) (createI32 16)
      else if kind t = U8 then createBinary AndI32 e (createI32 0xff)
      else if kind t = U16 then createBinary AndI32 e (createI32 0xffff)
      else createBinary AndI32 e (createI32 0x1))"

section \<open>Compiler state and memory layout\<close>

datatype Target = WASM32 | WASM64

record Options =
  target :: Target
  memoryBase :: "32 word"

definition isWasm64 :: "Options \<Rightarrow> bool" where
  "isWasm64 opts = (target opts = WASM64)"

definition usizeType :: "Options \<Rightarrow> Type" where
  "usizeType opts = (if target opts = WASM64 then Type_usize64 else Type_usize32)"


text \<open>
  Modelled from the spec: \<^verbatim>\<open>Type.byteSize\<close> (in \<^verbatim>\<open>types.ts\<close>), the size of the type
  in bytes, from its size in bits.
\<close>

definition byteSize :: "Type \<Rightarrow> nat" where
  "byteSize t = (size t + 7) div 8"

text \<open>
  Modelled from the spec: the 64-bit integer helpers \<^verbatim>\<open>i64_new\<close>, \<^verbatim>\<open>i64_add\<close>,
  \<^verbatim>\<open>i64_align\<close>, \<^verbatim>\<open>i64_low\<close>, \<^verbatim>\<open>i64_high\<close> and \<^verbatim>\<open>i64_is_i32\<close> are glue code that is
  not among the sources. An \<^verbatim>\<open>I64\<close> is modelled by the natural number below \<open>2 ^ 64\<close> that
  its bits spell, with the wrap-around written out. \<^verbatim>\<open>i64_align\<close> hands out "aligned
  offsets": the value rounded up to the next multiple of the alignment; there is no multiple
  of zero to round up to, and the model refuses that alignment as a failed assertion.
\<close>

definition i64_new :: "nat \<Rightarrow> nat \<Rightarrow> nat" where
  "i64_new lo hi = lo mod 2 ^ 32 + 2 ^ 32 * (hi mod 2 ^ 32)"

definition i64_add :: "nat \<Rightarrow> nat \<Rightarrow> nat" where
  "i64_add a b = (a + b) mod 2 ^ 64"

definition i64_align :: "nat \<Rightarrow> nat \<Rightarrow> Thrown + nat" where
  "i64_align v alignment =
     (if alignment = 0 then Inl (AssertionError ''alignment'')
      else Inr ((((v + alignment - 1) div alignment) * alignment) mod 2 ^ 64))"

definition i64_low :: "nat \<Rightarrow> 32 word" where
  "i64_low v = of_nat v"

definition i64_high :: "nat \<Rightarrow> 32 word" where
  "i64_high v = of_nat (v div 2 ^ 32)"

definition i64_is_i32 :: "nat \<Rightarrow> bool" where
  "i64_is_i32 v = (v < 2 ^ 31 \<or> 2 ^ 64 - 2 ^ 31 \<le> v)"

record MemorySegment =
  buffer :: "8 word list"
  offset :: nat

text \<open>
  The module under construction, as far as the declarations below add to it: functions
  (name, parameter types, result type, additional locals, body), function imports, function
  exports, globals (name, type, mutability, initializer), global imports and exports.
\<close>

record ModuleFunction =
  name :: string
  params :: "NativeType list"
  result :: NativeType
  locals :: "NativeType list"
  body :: ExpressionRef

record ModuleGlobal =
  globalName :: string
  globalType :: NativeType
  mutable :: bool
  init :: ExpressionRef

record Module =
  moduleFunctions :: "ModuleFunction list"
  functionImports :: "(string \<times> string \<times> string) list"
  functionExports :: "(string \<times> string) list"
  globals :: "ModuleGlobal list"
  globalImports :: "(string \<times> string \<times> string \<times> NativeType) list"
  globalExports :: "(string \<times> string) list"

text \<open>
  The state of a \<^verbatim>\<open>Compiler\<close> instance: the fields of the class that the modelled
  methods read or write. A JavaScript string is the list of its UTF-16 code units.
\<close>

record Compiler =
  options :: Options
  diagnostics :: "Diagnostic list"
  module :: Module
  startFunctionBody :: "ExpressionRef list"
  currentType :: Type
  memoryOffset :: nat
  memorySegments :: "MemorySegment list"
  stringSegments :: "16 word list \<rightharpoonup> MemorySegment"

text \<open>The constructor: \<^verbatim>\<open>new Compiler(program, options)\<close>.\<close>

definition newCompiler :: "Options \<Rightarrow> Compiler" where
  "newCompiler opts =
     \<lparr>options = opts,
      diagnostics = [],
      module = \<lparr>moduleFunctions = [], functionImports = [], functionExports = [], globals = [],
                globalImports = [], globalExports = []\<rparr>,
      startFunctionBody = [],
      currentType = Type_void,
      memoryOffset = i64_new (max (unat (memoryBase opts)) (byteSize (usizeType opts))) 0,
      memorySegments = [],
      stringSegments = Map.empty\<rparr>"

definition error :: "DiagnosticCode \<Rightarrow> string \<Rightarrow> Compiler \<Rightarrow> Compiler" where
  "error c r st = st\<lparr>diagnostics := diagnostics st @ [report ERROR c r]\<rparr>"

definition warning :: "DiagnosticCode \<Rightarrow> string \<Rightarrow> Compiler \<Rightarrow> Compiler" where
  "warning c r st = st\<lparr>diagnostics := diagnostics st @ [report WARNING c r]\<rparr>"

text \<open>\<^verbatim>\<open>addMemorySegment(buffer, alignment)\<close>; the callers that omit the alignment pass 8.\<close>

definition addMemorySegment ::
  "8 word list \<Rightarrow> nat \<Rightarrow> Compiler \<Rightarrow> Thrown + MemorySegment \<times> Compiler" where
  "addMemorySegment buf alignment st =
     (case i64_align (memoryOffset st) alignment of
        Inl e \<Rightarrow> Inl e
      | Inr memoryOffset' \<Rightarrow>
          let segment = \<lparr>buffer = buf, offset = memoryOffset'\<rparr>
          in Inr (segment,
                  st\<lparr>memorySegments := memorySegments st @ [segment],
                     memoryOffset := i64_add memoryOffset' (i64_new (length buf) 0)\<rparr>))"

text \<open>A sequence of \<^verbatim>\<open>addMemorySegment\<close> calls, in call order, with the segments returned.\<close>

fun addMemorySegments ::
  "(8 word list \<times> nat) list \<Rightarrow> Compiler \<Rightarrow> Thrown + MemorySegment list \<times> Compiler" where
  "addMemorySegments [] st = Inr ([], st)"
| "addMemorySegments ((buf, alignment) # calls) st =
     (case addMemorySegment buf alignment st of
        Inl e \<Rightarrow> Inl e
      | Inr (segment, st') \<Rightarrow>
          (case addMemorySegments calls st' of
             Inl e \<Rightarrow> Inl e
           | Inr (segments, st'') \<Rightarrow> Inr (segment # segments, st'')))"

text \<open>
  The bytes a run of calls asks for, alignment padding included at its largest: a run whose
  demand stays below \<open>2 ^ 63\<close> cannot wrap the 64-bit cursor.
\<close>

definition demand :: "(8 word list \<times> nat) list \<Rightarrow> nat" where
  "demand calls = (\<Sum>(buf, alignment) \<leftarrow> calls. alignment + length buf)"

text \<open>A 32-bit target with the default memory base, and two segments for it.\<close>

definition wasm32Options :: Options where
  "wasm32Options = \<lparr>target = WASM32, memoryBase = 0\<rparr>"

definition exampleSegments :: "(8 word list \<times> nat) list" where
  "exampleSegments = [([1, 2, 3], 8), ([4], 4)]"

text \<open>
  \<^verbatim>\<open>compileStaticString\<close>. The loop that writes the two bytes of each code unit is
  \<^verbatim>\<open>codeUnitBytes\<close>; \<^verbatim>\<open>program.types.get("string")\<close> is the parameter \<open>stringType\<close>.
\<close>

fun codeUnitBytes :: "16 word list \<Rightarrow> 8 word list" where
  "codeUnitBytes [] = []"
| "codeUnitBytes (c # cs) = ucast c # ucast (drop_bit 8 c) # codeUnitBytes cs"

definition stringBuffer :: "16 word list \<Rightarrow> 8 word list" where
  "stringBuffer stringValue =
     (let stringLength = length stringValue
      in [of_nat stringLength,
          of_nat ((stringLength mod 2 ^ 32) div 2 ^ 8),
          of_nat ((stringLength mod 2 ^ 32) div 2 ^ 16),
          of_nat ((stringLength mod 2 ^ 32) div 2 ^ 24)] @ codeUnitBytes stringValue)"

definition compileStaticString ::
  "Type option \<Rightarrow> 16 word list \<Rightarrow> Compiler \<Rightarrow> Thrown + ExpressionRef \<times> Compiler" where
  "compileStaticString stringType stringValue st =
     (case (case stringSegments st stringValue of
              Some stringSegment \<Rightarrow> Inr (stringSegment, st)
            | None \<Rightarrow>
                (case addMemorySegment (stringBuffer stringValue) (byteSize (usizeType (options st))) st of
                   Inl e \<Rightarrow> Inl e
                 | Inr (stringSegment, st') \<Rightarrow>
                     Inr (stringSegment,
                          st'\<lparr>stringSegments := (stringSegments st')(stringValue \<mapsto> stringSegment)\<rparr>)))
      of Inl e \<Rightarrow> Inl e
       | Inr (stringSegment, st1) \<Rightarrow>
           let stringOffset = offset stringSegment;
               st2 = st1\<lparr>currentType :=
                         (case stringType of Some t \<Rightarrow> t | None \<Rightarrow> usizeType (options st1))\<rparr>
           in if isWasm64 (options st2)
              then Inr (createI64 (i64_low stringOffset) (i64_high stringOffset), st2)
              else if i64_is_i32 stringOffset then Inr (createI32 (i64_low stringOffset), st2)
              else Inl (AssertionError ''i64_is_i32(stringOffset)''))"

text \<open>
  The static data a program asks for, in the order the compiler meets it: string literals,
  and segments added directly.
\<close>

datatype StaticData = StringLiteral "16 word list" | Segment "8 word list" nat

fun compileStaticData ::
  "Type option \<Rightarrow> StaticData list \<Rightarrow> Compiler \<Rightarrow> Thrown + ExpressionRef option list \<times> Compiler" where
  "compileStaticData stringType [] st = Inr ([], st)"
| "compileStaticData stringType (StringLiteral s # ds) st =
     (case compileStaticString stringType s st of
        Inl e \<Rightarrow> Inl e
      | Inr (expr, st') \<Rightarrow>
          (case compileStaticData stringType ds st' of
             Inl e \<Rightarrow> Inl e
           | Inr (exprs, st'') \<Rightarrow> Inr (Some expr # exprs, st'')))"
| "compileStaticData stringType (Segment buf alignment # ds) st =
     (case addMemorySegment buf alignment st of
        Inl e \<Rightarrow> Inl e
      | Inr (segment, st') \<Rightarrow>
          (case compileStaticData stringType ds st' of
             Inl e \<Rightarrow> Inl e
           | Inr (exprs, st'') \<Rightarrow> Inr (None # exprs, st'')))"

text \<open>The string values among the static data, and the number of segments added directly.\<close>

fun literals :: "StaticData list \<Rightarrow> 16 word list list" where
  "literals [] = []"
| "literals (StringLiteral s # ds) = s # literals ds"
| "literals (Segment buf alignment # ds) = literals ds"

fun directSegments :: "StaticData list \<Rightarrow> nat" where
  "directSegments [] = 0"
| "directSegments (StringLiteral s # ds) = directSegments ds"
| "directSegments (Segment buf alignment # ds) = Suc (directSegments ds)"

text \<open>The expression a string literal at a segment offset evaluates to.\<close>

definition offsetExpression :: "Options \<Rightarrow> nat \<Rightarrow> ExpressionRef" where
  "offsetExpression opts off =
     (if isWasm64 opts then createI64 (i64_low off) (i64_high off) else createI32 (i64_low off))"

text \<open>In the specification's words: the value of a little-endian byte sequence.\<close>

fun littleEndian :: "8 word list \<Rightarrow> nat" where
  "littleEndian [] = 0"
| "littleEndian (b # bs) = unat b + 256 * littleEndian bs"

text \<open>What a run of static data keeps: every interned string maps to its encoding.\<close>

definition interned :: "Compiler \<Rightarrow> bool" where
  "interned st = (\<forall>s seg. stringSegments st s = Some seg \<longrightarrow>
                    buffer seg = stringBuffer s \<and> seg \<in> set (memorySegments st))"

text \<open>The string \<open>hello\<close>, as its code units.\<close>

definition hello :: "16 word list" where
  "hello = [0x68, 0x65, 0x6c, 0x6c, 0x6f]"

section \<open>Program elements\<close>

text \<open>
  The elements of \<^verbatim>\<open>program.ts\<close> that the compiler reads and flags: the fields that
  \<^verbatim>\<open>compiler.ts\<close> uses. \<^verbatim>\<open>Global\<close> and \<^verbatim>\<open>Local\<close> extend
  \<^verbatim>\<open>VariableLikeElement\<close>, which extends \<^verbatim>\<open>Element\<close>. A cached integer constant is an
  \<^verbatim>\<open>I64\<close>, a cached float constant the bit pattern of the number.
\<close>

datatype ElementFlags =
  COMPILED | INLINED | BUILTIN | DECLARED | CONSTANT | INSTANCE | IMPORTED | START

datatype ConstantValueKind = NoConstant | IntegerConstant | FloatConstant

datatype TypeNode = TypeNode nat

record Element =
  elementFlags :: "ElementFlags set"
  internalName :: string
  simpleName :: string

record VariableLikeElement = Element +
  type :: Type
  constantValueKind :: ConstantValueKind
  constantIntegerValue :: nat
  constantFloatValue :: "64 word"

record VariableDeclaration =
  declaredType :: "TypeNode option"
  initializer :: "Expression option"
  isTopLevel :: bool
  isTopLevelExport :: bool
  isEntry :: bool
  programLevelInternalName :: string

record Global = VariableLikeElement +
  decl :: VariableDeclaration
  namespace :: "string option"

record Local = VariableLikeElement +
  index :: int

definition is_element :: "'a Element_scheme \<Rightarrow> ElementFlags \<Rightarrow> bool" where
  "is_element e f = (f \<in> elementFlags e)"

definition set_element :: "ElementFlags \<Rightarrow> 'a Element_scheme \<Rightarrow> 'a Element_scheme" where
  "set_element f e = e\<lparr>elementFlags := insert f (elementFlags e)\<rparr>"

text \<open>
  What the compiler asks of its collaborators: the type resolver of the program, the
  lowering of an expression (\<^verbatim>\<open>compileExpression\<close> with its contextual type, conversion
  kind and wrap flag, yielding the expression and the type in \<^verbatim>\<open>currentType\<close>, or
  throwing), the result of Binaryen's precompute pass on an expression, and the constants of
  built-in globals.
\<close>

record Program =
  resolveType :: "TypeNode \<Rightarrow> Type option"
  compileExpression :: "Expression \<Rightarrow> Type \<Rightarrow> ConversionKind \<Rightarrow> bool \<Rightarrow> Thrown + ExpressionRef \<times> Type"
  precomputeExpressionRef :: "ExpressionRef \<Rightarrow> ExpressionRef"
  compileBuiltinGetConstant :: "Global \<Rightarrow> ExpressionRef \<times> Type"

record EnumValue = Element +
  constantValue :: "32 word"

text \<open>
  Modelled from the spec: \<^verbatim>\<open>Type.toNativeZero\<close>, \<^verbatim>\<open>Type.computeSmallIntegerShift\<close> and
  \<^verbatim>\<open>Type.computeSmallIntegerMask\<close> (in \<^verbatim>\<open>types.ts\<close>): the zero constant of the native
  type; the shift that sign-extends from the type's width within the target type (24 for
  i8 and 16 for i16 in i32); the mask that truncates to it (0xff, 0xffff and 0x1 for u8, u16
  and bool in i32). Both are unsigned 32-bit results, and the JavaScript shift operators
  take their count modulo 32.
\<close>

definition toNativeZero :: "Type \<Rightarrow> Thrown + ExpressionRef" where
  "toNativeZero t =
     (case toNativeType t of
        NativeI32 \<Rightarrow> Inr (createI32 0)
      | NativeI64 \<Rightarrow> Inr (createI64 0 0)
      | NativeF32 \<Rightarrow> Inr (createF32 0)
      | NativeF64 \<Rightarrow> Inr (createF64 0)
      | NativeNone \<Rightarrow> Inl (Error ''concrete type expected''))"

definition shl :: "32 word \<Rightarrow> nat \<Rightarrow> 32 word" where
  "shl v n = push_bit (n mod 32) v"

definition shr :: "32 word \<Rightarrow> nat \<Rightarrow> 32 word" where
  "shr v n = signed_drop_bit (n mod 32) v"

definition shr_u :: "32 word \<Rightarrow> nat \<Rightarrow> 32 word" where
  "shr_u v n = drop_bit (n mod 32) v"

definition computeSmallIntegerShift :: "Type \<Rightarrow> Type \<Rightarrow> nat" where
  "computeSmallIntegerShift t targetType = nat ((int (size targetType) - int (size t)) mod 2 ^ 32)"

definition computeSmallIntegerMask :: "Type \<Rightarrow> Type \<Rightarrow> 32 word" where
  "computeSmallIntegerMask t targetType =
     shr_u (- 1) (nat ((int (size targetType) - int (size t)) mod 2 ^ 32))"

text \<open>\<^verbatim>\<open>_BinaryenExpressionGetId(expr) == ExpressionId.Const\<close>.\<close>

fun isConst :: "ExpressionRef \<Rightarrow> bool" where
  "isConst (createI32 v) = True"
| "isConst (createI64 lo hi) = True"
| "isConst (createF32 f) = True"
| "isConst (createF64 f) = True"
| "isConst e = False"

text \<open>
  \<^verbatim>\<open>compileInlineConstant\<close>. The switch is over the kind of the contextual type when the
  constant is an integer read in a wider integer context (and its type is not retained),
  over the kind of the element's type otherwise; the shift and the mask are those of the
  element's type in either case.
\<close>

definition compileInlineConstant ::
  "'a VariableLikeElement_scheme \<Rightarrow> Type \<Rightarrow> bool \<Rightarrow> Compiler \<Rightarrow> Thrown + ExpressionRef \<times> Compiler" where
  "compileInlineConstant element contextualType retainType st =
     (if \<not> is_element element INLINED then Inl (AssertionError ''element.is(ElementFlags.INLINED)'')
      else
        let t = (if \<not> retainType \<and> is_type (type element) {INTEGER} \<and>
                    is_type contextualType {INTEGER} \<and> size (type element) < size contextualType
                 then contextualType else type element);
            st' = st\<lparr>currentType := t\<rparr>;
            integer = (constantValueKind element = IntegerConstant);
            low = i64_low (constantIntegerValue element);
            high = i64_high (constantIntegerValue element);
            k = kind t
        in if k \<in> {I8, I16} then
             let shift = computeSmallIntegerShift (type element) Type_i32
             in Inr (createI32 (if integer then shr (shl low shift) shift else 0), st')
           else if k \<in> {U8, U16, BOOL} then
             let mask = computeSmallIntegerMask (type element) Type_i32
             in Inr (createI32 (if integer then low AND mask else 0), st')
           else if k \<in> {I32, U32} then Inr (createI32 (if integer then low else 0), st')
           else if k \<in> {ISIZE, USIZE} \<and> \<not> isWasm64 (options st) then
             Inr (createI32 (if integer then low else 0), st')
           else if k \<in> {ISIZE, USIZE, I64, U64} then
             Inr (if integer then createI64 low high else createI64 0 0, st')
           else if k = F32 then Inr (createF32 (constantFloatValue element), st')
           else if k = F64 then Inr (createF64 (constantFloatValue element), st')
           else Inl (Error ''concrete type expected''))"

text \<open>The module builder calls of \<^verbatim>\<open>compileGlobal\<close>.\<close>

definition addGlobal :: "string \<Rightarrow> NativeType \<Rightarrow> bool \<Rightarrow> ExpressionRef \<Rightarrow> Compiler \<Rightarrow> Compiler" where
  "addGlobal n t m e st =
     st\<lparr>module := (module st)\<lparr>globals := globals (module st) @
            [\<lparr>globalName = n, globalType = t, mutable = m, init = e\<rparr>]\<rparr>\<rparr>"

definition addGlobalImport :: "string \<Rightarrow> string \<Rightarrow> string \<Rightarrow> NativeType \<Rightarrow> Compiler \<Rightarrow> Compiler" where
  "addGlobalImport n m b t st =
     st\<lparr>module := (module st)\<lparr>globalImports := globalImports (module st) @ [(n, m, b, t)]\<rparr>\<rparr>"

definition addGlobalExport :: "string \<Rightarrow> string \<Rightarrow> Compiler \<Rightarrow> Compiler" where
  "addGlobalExport n x st =
     st\<lparr>module := (module st)\<lparr>globalExports := globalExports (module st) @ [(n, x)]\<rparr>\<rparr>"

text \<open>
  \<^verbatim>\<open>compileGlobal\<close>, in the four steps of the source: the type of the global is resolved
  from its annotation or inferred from its initializer; an imported global is declared; the
  initializer is evaluated; the global is emitted, and a constant cached on the element and
  flagged \<^verbatim>\<open>INLINED\<close>. The result is what the method returns, the global with the flags, type
  and cached constant the method has set on it, and the compiler. Diagnostics about the
  declaration are reported at the global's internal name.
\<close>

definition resolveGlobalType ::
  "Program \<Rightarrow> Global \<Rightarrow> Compiler
     \<Rightarrow> Thrown + (bool \<times> Global \<times> Compiler) + (Global \<times> ExpressionRef option \<times> Compiler)" where
  "resolveGlobalType program global st =
     (if type global = Type_void then
        (case declaredType (decl global) of
           Some typeNode \<Rightarrow>
             (case resolveType program typeNode of
                None \<Rightarrow> Inr (Inl (False, global, st))
              | Some resolvedType \<Rightarrow>
                  if resolvedType = Type_void
                  then Inr (Inl (False, global, error Type_expected (internalName global) st))
                  else Inr (Inr (global\<lparr>type := resolvedType\<rparr>, None, st)))
         | None \<Rightarrow>
             (case initializer (decl global) of
                Some i \<Rightarrow>
                  (case compileExpression program i Type_void NONE True of
                     Inl e \<Rightarrow> Inl e
                   | Inr (initExpr, t) \<Rightarrow>
                       let st1 = st\<lparr>currentType := t\<rparr>
                       in if t = Type_void
                          then Inr (Inl (False, global,
                                         error Type_0_is_not_assignable_to_type_1 (internalName global) st1))
                          else Inr (Inr (global\<lparr>type := t\<rparr>, Some initExpr, st1)))
              | None \<Rightarrow> Inr (Inl (False, global, error Type_expected (internalName global) st))))
      else Inr (Inr (global, None, st)))"

text \<open>The initializer expression, and whether it has to be evaluated in the start function.\<close>

definition evaluateGlobalInitializer ::
  "Program \<Rightarrow> Global \<Rightarrow> ExpressionRef option \<Rightarrow> Compiler \<Rightarrow> Thrown + ExpressionRef \<times> bool \<times> Compiler" where
  "evaluateGlobalInitializer program global initExpr0 st =
     (if is_element global INLINED then
        (case compileInlineConstant global (type global) True st of
           Inl e \<Rightarrow> Inl e
         | Inr (initExpr, st') \<Rightarrow> Inr (initExpr, False, st'))
      else
        (case initializer (decl global) of
           Some i \<Rightarrow>
             (case (case initExpr0 of
                      Some initExpr \<Rightarrow> Inr (initExpr, st)
                    | None \<Rightarrow>
                        (case compileExpression program i (type global) IMPLICIT True of
                           Inl e \<Rightarrow> Inl e
                         | Inr (initExpr, t) \<Rightarrow> Inr (initExpr, st\<lparr>currentType := t\<rparr>)))
              of Inl e \<Rightarrow> Inl e
               | Inr (initExpr, st') \<Rightarrow>
                   if \<not> isConst initExpr then
                     (if is_element global CONSTANT then
                        let initExpr' = precomputeExpressionRef program initExpr
                        in if \<not> isConst initExpr'
                           then Inr (initExpr', True,
                                     warning Compiling_constant_with_non_constant_initializer_as_mutable
                                       (internalName global) st')
                           else Inr (initExpr', False, st')
                      else Inr (initExpr, True, st'))
                   else Inr (initExpr, False, st'))
         | None \<Rightarrow>
             (case toNativeZero (type global) of
                Inl e \<Rightarrow> Inl e
              | Inr zero \<Rightarrow> Inr (zero, False, st))))"

text \<open>
  The constant cached on the element, by the native type of the constant expression; the
  default case of that switch throws.
\<close>

fun cacheConstantValue :: "Global \<Rightarrow> ExpressionRef \<Rightarrow> Thrown + Global" where
  "cacheConstantValue global (createI32 v) =
     Inr (global\<lparr>constantValueKind := IntegerConstant, constantIntegerValue := i64_new (unat v) 0\<rparr>)"
| "cacheConstantValue global (createI64 lo hi) =
     Inr (global\<lparr>constantValueKind := IntegerConstant,
                  constantIntegerValue := i64_new (unat lo) (unat hi)\<rparr>)"
| "cacheConstantValue global (createF32 f) =
     Inr (global\<lparr>constantValueKind := FloatConstant, constantFloatValue := f\<rparr>)"
| "cacheConstantValue global (createF64 f) =
     Inr (global\<lparr>constantValueKind := FloatConstant, constantFloatValue := f\<rparr>)"
| "cacheConstantValue global e = Inl (Error ''concrete type expected'')"

definition emitGlobal ::
  "Global \<Rightarrow> ExpressionRef \<Rightarrow> bool \<Rightarrow> Compiler \<Rightarrow> Thrown + bool \<times> Global \<times> Compiler" where
  "emitGlobal global initExpr initializeInStart st =
     (let nativeType = toNativeType (type global) in
      if initializeInStart then
        (case toNativeZero (type global) of
           Inl e \<Rightarrow> Inl e
         | Inr zero \<Rightarrow>
             let st1 = addGlobal (internalName global) nativeType True zero st
             in Inr (True, global,
                     st1\<lparr>startFunctionBody := startFunctionBody st1 @
                            [createSetGlobal (internalName global) initExpr]\<rparr>))
      else if is_element global CONSTANT then
        (case cacheConstantValue global initExpr of
           Inl e \<Rightarrow> Inl e
         | Inr global' \<Rightarrow>
             let st1 = (if isTopLevel (decl global)
                        then addGlobal (internalName global) nativeType False initExpr st
                        else st);
                 st2 = (if isEntry (decl global) \<and> isTopLevelExport (decl global)
                        then addGlobalExport (internalName global)
                               (programLevelInternalName (decl global)) st1
                        else st1)
             in Inr (True, set_element INLINED global', st2))
      else
        Inr (True, global,
             addGlobal (internalName global) nativeType (\<not> is_element global CONSTANT) initExpr st))"

definition compileGlobal :: "Program \<Rightarrow> Global \<Rightarrow> Compiler \<Rightarrow> Thrown + bool \<times> Global \<times> Compiler" where
  "compileGlobal program global st =
     (if is_element global COMPILED \<or> is_element global BUILTIN then Inr (True, global, st)
      else
        (case resolveGlobalType program (set_element COMPILED global) st of
           Inl e \<Rightarrow> Inl e
         | Inr (Inl unresolved) \<Rightarrow> Inr unresolved
         | Inr (Inr (global', initExpr0, st')) \<Rightarrow>
             if is_element global' DECLARED then
               (if is_element global' CONSTANT then
                  Inr (True, set_element COMPILED global',
                       addGlobalImport (internalName global')
                         (case namespace global' of Some n \<Rightarrow> n | None \<Rightarrow> ''env'')
                         (simpleName global') (toNativeType (type global')) st')
                else Inr (False, global', error Operation_not_supported (internalName global') st'))
             else
               (case evaluateGlobalInitializer program global' initExpr0 st' of
                  Inl e \<Rightarrow> Inl e
                | Inr (initExpr, initializeInStart, st'') \<Rightarrow>
                    emitGlobal global' initExpr initializeInStart st'')))"

text \<open>
  What \<^verbatim>\<open>program.resolveIdentifier\<close> and \<^verbatim>\<open>program.resolveExpression\<close> answer: nothing
  (after reporting), or the element. Locals, globals and enum values are modelled;
  \<open>ResolvedOther\<close> stands for an element of a kind that the switch at hand has no case for.
\<close>

datatype ResolvedElement =
    Unresolved
  | ResolvedLocal Local
  | ResolvedGlobal Global
  | ResolvedEnumValue EnumValue
  | ResolvedOther

text \<open>
  \<^verbatim>\<open>compileIdentifierExpression\<close>, past the keywords \<^verbatim>\<open>null\<close>, \<^verbatim>\<open>true\<close>,
  \<^verbatim>\<open>false\<close>, \<^verbatim>\<open>this\<close> and \<^verbatim>\<open>super\<close>: the identifier is resolved and lowered by the
  kind of its element. The element comes back with what compiling it on demand has set.
\<close>

definition compileIdentifierExpression ::
  "Program \<Rightarrow> ResolvedElement \<Rightarrow> Type \<Rightarrow> bool \<Rightarrow> string \<Rightarrow> Compiler
     \<Rightarrow> Thrown + ExpressionRef \<times> ResolvedElement \<times> Compiler" where
  "compileIdentifierExpression program resolved contextualType retainConstantType rg st =
     (case resolved of
        Unresolved \<Rightarrow> Inr (createUnreachable, resolved, st)
      | ResolvedLocal element \<Rightarrow>
          if is_element element INLINED then
            (case compileInlineConstant element contextualType retainConstantType st of
               Inl e \<Rightarrow> Inl e
             | Inr (expr, st') \<Rightarrow> Inr (expr, resolved, st'))
          else if index element < 0 then Inl (AssertionError ''index >= 0'')
          else Inr (createGetLocal (index element) (toNativeType (type element)), resolved,
                    st\<lparr>currentType := type element\<rparr>)
      | ResolvedGlobal element \<Rightarrow>
          if is_element element BUILTIN then
            (case compileBuiltinGetConstant program element of
               (expr, t) \<Rightarrow> Inr (expr, resolved, st\<lparr>currentType := t\<rparr>))
          else
            (case compileGlobal program element st of
               Inl e \<Rightarrow> Inl e
             | Inr (compiled, element', st') \<Rightarrow>
                 if \<not> compiled then Inr (createUnreachable, ResolvedGlobal element', st')
                 else if type element' = Type_void then Inl (AssertionError ''type != Type.void'')
                 else if is_element element' INLINED then
                   (case compileInlineConstant element' contextualType retainConstantType st' of
                      Inl e \<Rightarrow> Inl e
                    | Inr (expr, st'') \<Rightarrow> Inr (expr, ResolvedGlobal element', st''))
                 else Inr (createGetGlobal (internalName element') (toNativeType (type element')),
                           ResolvedGlobal element', st'\<lparr>currentType := type element'\<rparr>))
      | ResolvedEnumValue element \<Rightarrow>
          if \<not> is_element element COMPILED then
            Inr (createUnreachable, resolved,
                 (error A_member_initializer_in_a_enum_declaration_cannot_reference_members_declared_after_it_including_members_defined_in_other_enums
                    rg st)\<lparr>currentType := Type_i32\<rparr>)
          else if is_element element INLINED then
            Inr (createI32 (constantValue element), resolved, st\<lparr>currentType := Type_i32\<rparr>)
          else Inr (createGetGlobal (internalName element) NativeI32, resolved,
                    st\<lparr>currentType := Type_i32\<rparr>)
      | ResolvedOther \<Rightarrow> Inr (createUnreachable, resolved, error Operation_not_supported rg st))"

text \<open>
  \<^verbatim>\<open>compileAssignmentWithValue\<close>, for a target that resolves to a local or a global (the
  cases for fields, properties and indexed access are not modelled); an element of any other
  kind falls out of the switch.
\<close>

definition compileAssignmentWithValue ::
  "Program \<Rightarrow> ResolvedElement \<Rightarrow> ExpressionRef \<Rightarrow> bool \<Rightarrow> string \<Rightarrow> Compiler
     \<Rightarrow> Thrown + ExpressionRef \<times> ResolvedElement \<times> Compiler" where
  "compileAssignmentWithValue program resolved valueWithCorrectType tee rg st =
     (case resolved of
        Unresolved \<Rightarrow> Inr (createUnreachable, resolved, st)
      | ResolvedLocal element \<Rightarrow>
          let st1 = st\<lparr>currentType := (if tee then type element else Type_void)\<rparr>
          in if is_element element CONSTANT then
               Inr (createUnreachable, resolved,
                    error Cannot_assign_to_0_because_it_is_a_constant_or_a_read_only_property rg st1)
             else
               Inr (if tee then createTeeLocal (index element) valueWithCorrectType
                    else createSetLocal (index element) valueWithCorrectType,
                    resolved, st1)
      | ResolvedGlobal element \<Rightarrow>
          (case compileGlobal program element st of
             Inl e \<Rightarrow> Inl e
           | Inr (compiled, element', st') \<Rightarrow>
               if \<not> compiled then Inr (createUnreachable, ResolvedGlobal element', st')
               else if type element' = Type_void then Inl (AssertionError ''concrete type expected'')
               else
                 let st1 = st'\<lparr>currentType := (if tee then type element' else Type_void)\<rparr>
                 in if is_element element' CONSTANT then
                      Inr (createUnreachable, ResolvedGlobal element',
                           error Cannot_assign_to_0_because_it_is_a_constant_or_a_read_only_property rg st1)
                    else if tee then
                      let nativeType = toNativeType (type element')
                      in Inr (createBlock None
                                [createSetGlobal (internalName element') valueWithCorrectType,
                                 createGetGlobal (internalName element') nativeType]
                                (Some nativeType),
                              ResolvedGlobal element', st1)
                    else Inr (createSetGlobal (internalName element') valueWithCorrectType,
                              ResolvedGlobal element', st1))
      | _ \<Rightarrow> Inr (createUnreachable, resolved, error Operation_not_supported rg st))"

text \<open>
  The program \<^verbatim>\<open>const K: u8 = 200\<close>: the global \<open>K\<close> before it is compiled, and the
  collaborators as far as they are asked: the annotation resolves to \<open>u8\<close>, and the literal
  200 lowers, in the context of \<open>u8\<close>, to the constant 200.
\<close>

definition constantK :: Global where
  "constantK =
     \<lparr>elementFlags = {CONSTANT}, internalName = ''K'', simpleName = ''K'',
      type = Type_void, constantValueKind = NoConstant, constantIntegerValue = 0,
      constantFloatValue = 0,
      decl = \<lparr>declaredType = Some (TypeNode 0), initializer = Some (Expression 0),
               isTopLevel = True, isTopLevelExport = False, isEntry = True,
               programLevelInternalName = ''K''\<rparr>,
      namespace = None\<rparr>"

definition programK :: Program where
  "programK =
     \<lparr>resolveType = (\<lambda>n. if n = TypeNode 0 then Some Type_u8 else None),
      compileExpression = (\<lambda>e t c w. Inr (createI32 200, t)),
      precomputeExpressionRef = (\<lambda>e. e),
      compileBuiltinGetConstant = (\<lambda>g. (createUnreachable, Type_void))\<rparr>"

text \<open>The global \<open>K\<close> once compiled: flagged, typed, and with its constant cached.\<close>

definition compiledK :: Global where
  "compiledK = constantK\<lparr>elementFlags := {INLINED, COMPILED, CONSTANT}, type := Type_u8,
                 constantValueKind := IntegerConstant, constantIntegerValue := 200\<rparr>"

text \<open>
  A constant whose annotation does not resolve (\<^verbatim>\<open>const U: Unknown = 1\<close>), and a
  constant local of type \<open>i32\<close>.
\<close>

definition constantU :: Global where
  "constantU = constantK\<lparr>internalName := ''U'', simpleName := ''U'',
                 decl := (decl constantK)\<lparr>declaredType := Some (TypeNode 1)\<rparr>\<rparr>"

definition constantLocal :: Local where
  "constantLocal =
     \<lparr>elementFlags = {CONSTANT}, internalName = ''x'', simpleName = ''x'',
      type = Type_i32, constantValueKind = NoConstant, constantIntegerValue = 0,
      constantFloatValue = 0, index = 0\<rparr>"

section \<open>Functions, flows and statements\<close>

text \<open>\<^verbatim>\<open>makeIsTrueish\<close> (compiler.ts, the helpers at the end).\<close>

definition makeIsTrueish :: "ExpressionRef \<Rightarrow> Type \<Rightarrow> Thrown + ExpressionRef" where
  "makeIsTrueish expr t =
     (if kind t \<in> {I64, U64} then Inr (createBinary NeI64 expr (createI64 0 0))
      else if kind t \<in> {USIZE, ISIZE} then
        (if size t = 64 then Inr (createBinary NeI64 expr (createI64 0 0)) else Inr expr)
      else if kind t = F32 then Inr (createBinary NeF32 expr (createF32 0))
      else if kind t = F64 then Inr (createBinary NeF64 expr (createF64 0))
      else if kind t = VOID then Inl (Error ''concrete type expected'')
      else Inr expr)"

datatype FlowFlags = RETURNS | POSSIBLY_BREAKS | POSSIBLY_CONTINUES | POSSIBLY_THROWS

text \<open>
  Modelled from the spec: the \<^verbatim>\<open>Flow\<close> class of \<^verbatim>\<open>program.ts\<close> is not among the sources.
  A flow is a frame of a stack: its parent frame, its flags, and the break and continue
  labels in force. Entering a branch or scope pushes a frame with no flag set that inherits
  the labels (a break binds to the nearest enclosing label); leaving pops it; finalizing the
  flow of a function tells whether all its paths were proved to return. The scoped locals
  of a frame are not modelled.
\<close>

datatype Flow =
  Flow (parent: "Flow option") (flowFlags: "FlowFlags set")
       (breakLabel: "string option") (continueLabel: "string option")

definition flow_is :: "Flow \<Rightarrow> FlowFlags \<Rightarrow> bool" where
  "flow_is f x = (x \<in> flowFlags f)"

definition flow_set :: "FlowFlags \<Rightarrow> Flow \<Rightarrow> Flow" where
  "flow_set x f = Flow (parent f) (insert x (flowFlags f)) (breakLabel f) (continueLabel f)"

definition setLabels :: "string option \<Rightarrow> string option \<Rightarrow> Flow \<Rightarrow> Flow" where
  "setLabels b c f = Flow (parent f) (flowFlags f) b c"

definition enterBranchOrScope :: "Flow \<Rightarrow> Flow" where
  "enterBranchOrScope f = Flow (Some f) {} (breakLabel f) (continueLabel f)"

definition leaveBranchOrScope :: "Flow \<Rightarrow> Thrown + Flow" where
  "leaveBranchOrScope f =
     (case parent f of None \<Rightarrow> Inl (AssertionError ''parent'') | Some p \<Rightarrow> Inr p)"

definition finalize :: "Flow \<Rightarrow> bool" where
  "finalize f = flow_is f RETURNS"

text \<open>
  Statements, as \<^verbatim>\<open>compileStatement\<close> tells them apart by their node kind. A variable
  statement is opaque: \<^verbatim>\<open>compileVariableStatement\<close> touches no flag of the flow.
  \<open>OTHER\<close> is a node of any other kind.
\<close>

datatype Statement =
    BLOCK "Statement list"
  | BREAK "string option"
  | CONTINUE "string option"
  | DO Statement Expression
  | EMPTY
  | EXPRESSION Expression
  | FOR "Statement option" "Expression option" "Expression option" Statement
  | IF Expression Statement "Statement option"
  | RETURN "Expression option"
  | SWITCH Expression "SwitchCase list"
  | THROW Expression
  | TRY
  | VARIABLE nat
  | VOID' Expression
  | WHILE Expression Statement
  | TYPEDECLARATION
  | OTHER
and SwitchCase =
    SwitchCase "Expression option" "Statement list"

record Signature =
  parameterTypes :: "Type list"
  thisType :: "Type option"
  returnType :: Type
  requiredParameters :: nat
  hasRest :: bool

text \<open>
  A function declaration: its body, its name, the range of its declared return type if it
  has one, the initializers of its parameters, and whether it is a top-level export of an
  entry file.
\<close>

record FunctionDeclaration =
  functionBody :: "Statement option"
  declaredName :: string
  returnTypeRange :: "string option"
  parameterInitializers :: "Expression option list"
  exported :: bool

text \<open>
  A function instance. Modelled from the spec: the break context counter ("per-function
  and monotonically increasing") and the pool of temporary locals ("getTempLocal allocates
  or reuses, freeTempLocal releases a slot back to the pool") are kept by the \<^verbatim>\<open>Function\<close>
  class of \<^verbatim>\<open>program.ts\<close>. The trampoline of a function is a function that has none.
\<close>

record FunctionInstance = Element +
  signature :: Signature
  prototype :: FunctionDeclaration
  prototypeNamespace :: "string option"
  flow :: Flow
  nextBreakId :: nat
  breakStack :: "nat list"
  additionalLocals :: "Type list"
  tempLocals :: "(NativeType \<times> int) list"

record Function = FunctionInstance +
  trampoline :: "FunctionInstance option"

text \<open>The decimal digits of a number: \<^verbatim>\<open>toString(10)\<close>.\<close>

function decimal :: "nat \<Rightarrow> string" where
  "decimal n =
     (if n < 10 then [''0123456789'' ! n] else decimal (n div 10) @ [''0123456789'' ! (n mod 10)])"
  by pat_completeness auto
termination
  by (relation "measure id") auto

declare decimal.simps [simp del]

definition enterBreakContext :: "Function \<Rightarrow> string \<times> Function" where
  "enterBreakContext fn =
     (decimal (nextBreakId fn),
      fn\<lparr>nextBreakId := Suc (nextBreakId fn), breakStack := nextBreakId fn # breakStack fn\<rparr>)"

definition leaveBreakContext :: "Function \<Rightarrow> Function" where
  "leaveBreakContext fn = fn\<lparr>breakStack := tl (breakStack fn)\<rparr>"

definition localCount :: "Function \<Rightarrow> int" where
  "localCount fn =
     (case thisType (signature fn) of None \<Rightarrow> 0 | Some t \<Rightarrow> 1)
     + int (length (parameterTypes (signature fn))) + int (length (additionalLocals fn))"

definition getTempLocal :: "Type \<Rightarrow> Function \<Rightarrow> int \<times> Function" where
  "getTempLocal t fn =
     (case find (\<lambda>(n, i). n = toNativeType t) (tempLocals fn) of
        Some (n, i) \<Rightarrow> (i, fn\<lparr>tempLocals := remove1 (n, i) (tempLocals fn)\<rparr>)
      | None \<Rightarrow> (localCount fn, fn\<lparr>additionalLocals := additionalLocals fn @ [t]\<rparr>))"

definition freeTempLocal :: "Type \<Rightarrow> int \<Rightarrow> Function \<Rightarrow> Function" where
  "freeTempLocal t i fn = fn\<lparr>tempLocals := (toNativeType t, i) # tempLocals fn\<rparr>"

text \<open>
  The program's second part: what lowering a variable statement yields. As with
  expressions, what these lowerings do to the compiler beyond \<^verbatim>\<open>currentType\<close> (locals
  they add, elements they compile on demand) is outside the model. Only for the initializer
  of a parameter, which \<^verbatim>\<open>ensureTrampoline\<close> lowers in the scope of the trampoline, is it
  followed: \<^verbatim>\<open>compileInitializer\<close> is \<^verbatim>\<open>this.compileExpression(initializer, type)\<close> with the
  current function and the compiler given, and yields the expression, the locals that the
  lowering adds to the current function, and the compiler as the lowering leaves it (with
  the functions it compiles and the diagnostics it reports on the way).
\<close>

record Lowering = Program +
  compileVariableStatement :: "nat \<Rightarrow> ExpressionRef option"
  compileInitializer ::
    "Expression \<Rightarrow> Type \<Rightarrow> FunctionInstance \<Rightarrow> Compiler
       \<Rightarrow> Thrown + ExpressionRef \<times> Type list \<times> Compiler"

definition lowerExpression ::
  "'a Program_scheme \<Rightarrow> Expression \<Rightarrow> Type \<Rightarrow> ConversionKind \<Rightarrow> bool \<Rightarrow> Compiler
     \<Rightarrow> Thrown + ExpressionRef \<times> Compiler" where
  "lowerExpression program e t c w st =
     (case compileExpression program e t c w of
        Inl x \<Rightarrow> Inl x
      | Inr (expr, t') \<Rightarrow> Inr (expr, st\<lparr>currentType := t'\<rparr>))"

definition setFlow :: "FlowFlags \<Rightarrow> Function \<Rightarrow> Function" where
  "setFlow x fn = fn\<lparr>flow := flow_set x (flow fn)\<rparr>"

text \<open>The statements that hold no statement: one definition for each method.\<close>

definition compileBreakStatement ::
  "string option \<Rightarrow> Function \<times> Compiler \<Rightarrow> Thrown + ExpressionRef \<times> Function \<times> Compiler" where
  "compileBreakStatement label = (\<lambda>(fn, st).
     case label of
       Some l \<Rightarrow> Inr (createUnreachable, fn, error Operation_not_supported l st)
     | None \<Rightarrow>
         (case breakLabel (flow fn) of
            None \<Rightarrow>
              Inr (createUnreachable, fn,
                   error A_break_statement_can_only_be_used_within_an_enclosing_iteration_or_switch_statement
                     ''break'' st)
          | Some b \<Rightarrow> Inr (createBreak b None, setFlow POSSIBLY_BREAKS fn, st)))"

definition compileContinueStatement ::
  "string option \<Rightarrow> Function \<times> Compiler \<Rightarrow> Thrown + ExpressionRef \<times> Function \<times> Compiler" where
  "compileContinueStatement label = (\<lambda>(fn, st).
     case label of
       Some l \<Rightarrow> Inr (createUnreachable, fn, error Operation_not_supported l st)
     | None \<Rightarrow>
         (case continueLabel (flow fn) of
            None \<Rightarrow>
              Inr (createUnreachable, fn,
                   error A_continue_statement_can_only_be_used_within_an_enclosing_iteration_statement
                     ''continue'' st)
          | Some c \<Rightarrow> Inr (createBreak c None, setFlow POSSIBLY_CONTINUES fn, st)))"

definition compileExpressionStatement ::
  "'a Program_scheme \<Rightarrow> Expression \<Rightarrow> Function \<times> Compiler
     \<Rightarrow> Thrown + ExpressionRef \<times> Function \<times> Compiler" where
  "compileExpressionStatement program e = (\<lambda>(fn, st).
     case lowerExpression program e Type_void NONE True st of
       Inl x \<Rightarrow> Inl x
     | Inr (expr, st') \<Rightarrow>
         if currentType st' \<noteq> Type_void
         then Inr (createDrop expr, fn, st'\<lparr>currentType := Type_void\<rparr>)
         else Inr (expr, fn, st'))"

definition compileReturnStatement ::
  "'a Program_scheme \<Rightarrow> Expression option \<Rightarrow> Function \<times> Compiler
     \<Rightarrow> Thrown + ExpressionRef \<times> Function \<times> Compiler" where
  "compileReturnStatement program v = (\<lambda>(fn, st).
     case (case v of
             None \<Rightarrow> Inr (None, st)
           | Some e \<Rightarrow>
               (case lowerExpression program e (returnType (signature fn)) IMPLICIT True st of
                  Inl x \<Rightarrow> Inl x
                | Inr (expr, st') \<Rightarrow> Inr (Some expr, st')))
     of Inl x \<Rightarrow> Inl x
      | Inr (expr, st') \<Rightarrow> Inr (createReturn expr, setFlow RETURNS fn, st'))"

definition compileThrowStatement ::
  "Function \<times> Compiler \<Rightarrow> Thrown + ExpressionRef \<times> Function \<times> Compiler" where
  "compileThrowStatement = (\<lambda>(fn, st).
     Inr (createUnreachable, setFlow RETURNS (setFlow POSSIBLY_THROWS fn), st))"

definition compileVoidStatement ::
  "'a Program_scheme \<Rightarrow> Expression \<Rightarrow> Function \<times> Compiler
     \<Rightarrow> Thrown + ExpressionRef \<times> Function \<times> Compiler" where
  "compileVoidStatement program e = (\<lambda>(fn, st).
     case lowerExpression program e Type_void EXPLICIT False st of
       Inl x \<Rightarrow> Inl x
     | Inr (expr, st') \<Rightarrow> Inr (expr, fn, st'))"

text \<open>
  The first loop of \<^verbatim>\<open>compileSwitchStatement\<close>: one conditional break per labelled case,
  and the index of the last case without a label, the default.
\<close>

fun switchBreaks ::
  "'a Program_scheme \<Rightarrow> string \<Rightarrow> int \<Rightarrow> SwitchCase list \<Rightarrow> nat \<Rightarrow> Compiler
     \<Rightarrow> Thrown + ExpressionRef list \<times> nat option \<times> Compiler" where
  "switchBreaks program context tempLocalIndex [] i st = Inr ([], None, st)"
| "switchBreaks program context tempLocalIndex (SwitchCase None ss # cases) i st =
     (case switchBreaks program context tempLocalIndex cases (Suc i) st of
        Inl x \<Rightarrow> Inl x
      | Inr (breaks, defaultIndex, st') \<Rightarrow>
          Inr (breaks, (case defaultIndex of None \<Rightarrow> Some i | Some d \<Rightarrow> Some d), st'))"
| "switchBreaks program context tempLocalIndex (SwitchCase (Some l) ss # cases) i st =
     (case lowerExpression program l Type_i32 IMPLICIT True st of
        Inl x \<Rightarrow> Inl x
      | Inr (expr, st') \<Rightarrow>
          (case switchBreaks program context tempLocalIndex cases (Suc i) st' of
             Inl x \<Rightarrow> Inl x
           | Inr (breaks, defaultIndex, st'') \<Rightarrow>
               Inr (createBreak (''case'' @ decimal i @ ''|'' @ context)
                      (Some (createBinary EqI32 (createGetLocal tempLocalIndex NativeI32) expr))
                    # breaks,
                    defaultIndex, st'')))"

text \<open>
  \<^verbatim>\<open>compileStatement\<close> with the methods it dispatches to, \<^verbatim>\<open>compileStatements\<close>, and
  the second loop of \<^verbatim>\<open>compileSwitchStatement\<close> (\<open>switchCases\<close>: the cases from index
  \<open>i\<close> on, around the block nested so far, with \<^verbatim>\<open>alwaysReturns\<close>). The source map
  (\<^verbatim>\<open>addDebugLocation\<close>) is not modelled, and \<^verbatim>\<open>this.currentFunction == this.startFunction\<close>
  is the \<^verbatim>\<open>START\<close> flag of the function.
\<close>

fun compileStatement ::
    "Lowering \<Rightarrow> Statement \<Rightarrow> Function \<times> Compiler \<Rightarrow> Thrown + ExpressionRef \<times> Function \<times> Compiler"
  and compileStatements ::
    "Lowering \<Rightarrow> Statement list \<Rightarrow> Function \<times> Compiler
       \<Rightarrow> Thrown + ExpressionRef list \<times> Function \<times> Compiler"
  and switchCases ::
    "Lowering \<Rightarrow> string \<Rightarrow> nat \<Rightarrow> nat \<Rightarrow> SwitchCase list \<Rightarrow> ExpressionRef \<Rightarrow> bool
       \<Rightarrow> Function \<times> Compiler \<Rightarrow> Thrown + (ExpressionRef \<times> bool) \<times> Function \<times> Compiler"
where
  "compileStatement program (BLOCK ss) (fn, st) =
     (case compileStatements program ss (fn\<lparr>flow := enterBranchOrScope (flow fn)\<rparr>, st) of
        Inl x \<Rightarrow> Inl x
      | Inr (stmts, fn', st') \<Rightarrow>
          let stmt = createBlock None stmts (Some NativeNone);
              stmtReturns = flow_is (flow fn') RETURNS
          in (case leaveBranchOrScope (flow fn') of
                Inl x \<Rightarrow> Inl x
              | Inr parentFlow \<Rightarrow>
                  Inr (stmt,
                       if stmtReturns then setFlow RETURNS (fn'\<lparr>flow := parentFlow\<rparr>)
                       else fn'\<lparr>flow := parentFlow\<rparr>,
                       st')))"
| "compileStatement program (BREAK l) s = compileBreakStatement l s"
| "compileStatement program (CONTINUE l) s = compileContinueStatement l s"
| "compileStatement program (DO statement cond) (fn, st) =
     (case enterBreakContext fn of
        (context, fn1) \<Rightarrow>
          let previousBreakLabel = breakLabel (flow fn1);
              previousContinueLabel = continueLabel (flow fn1);
              breakLabel' = ''break|'' @ context;
              continueLabel' = ''continue|'' @ context
          in (case compileStatement program statement
                     (fn1\<lparr>flow := setLabels (Some breakLabel') (Some continueLabel') (flow fn1)\<rparr>, st) of
                Inl x \<Rightarrow> Inl x
              | Inr (bodyExpr, fn2, st2) \<Rightarrow>
                  let fn3 = fn2\<lparr>flow := setLabels previousBreakLabel previousContinueLabel (flow fn2)\<rparr>
                  in (case lowerExpression program cond Type_i32 NONE True st2 of
                        Inl x \<Rightarrow> Inl x
                      | Inr (condExpr, st3) \<Rightarrow>
                          (case makeIsTrueish condExpr (currentType st3) of
                             Inl x \<Rightarrow> Inl x
                           | Inr condition \<Rightarrow>
                               Inr (createBlock (Some breakLabel')
                                      [createLoop continueLabel'
                                         (createBlock None
                                            [bodyExpr, createBreak continueLabel' (Some condition)]
                                            (Some NativeNone))]
                                      (Some NativeNone),
                                    leaveBreakContext fn3, st3)))))"
| "compileStatement program EMPTY (fn, st) = Inr (createNop, fn, st)"
| "compileStatement program (EXPRESSION e) s = compileExpressionStatement program e s"
| "compileStatement program (FOR initializer' cond incrementor statement) (fn, st) =
     (case enterBreakContext fn of
        (context, fn0) \<Rightarrow>
          let breakLabel' = ''break|'' @ context;
              continueLabel' = ''continue|'' @ context;
              fn1 = fn0\<lparr>flow := setLabels (Some breakLabel') (Some continueLabel')
                                  (enterBranchOrScope (flow fn0))\<rparr>
          in (case (case initializer' of
                      Some i \<Rightarrow> compileStatement program i (fn1, st)
                    | None \<Rightarrow> Inr (createNop, fn1, st)) of
                Inl x \<Rightarrow> Inl x
              | Inr (initExpr, fn2, st2) \<Rightarrow>
                  (case (case cond of
                           Some c \<Rightarrow> lowerExpression program c Type_i32 IMPLICIT True st2
                         | None \<Rightarrow> Inr (createI32 1, st2)) of
                     Inl x \<Rightarrow> Inl x
                   | Inr (condition, st3) \<Rightarrow>
                       (case (case incrementor of
                                Some c \<Rightarrow> lowerExpression program c Type_void IMPLICIT True st3
                              | None \<Rightarrow> Inr (createNop, st3)) of
                          Inl x \<Rightarrow> Inl x
                        | Inr (incrExpr, st4) \<Rightarrow>
                            (case compileStatement program statement (fn2, st4) of
                               Inl x \<Rightarrow> Inl x
                             | Inr (bodyExpr, fn5, st5) \<Rightarrow>
                                 let alwaysReturns = (cond = None \<and> flow_is (flow fn5) RETURNS)
                                 in (case leaveBranchOrScope (flow fn5) of
                                       Inl x \<Rightarrow> Inl x
                                     | Inr parentFlow \<Rightarrow>
                                         let fn6 = leaveBreakContext (fn5\<lparr>flow := parentFlow\<rparr>);
                                             expr = createBlock (Some breakLabel')
                                                      [initExpr,
                                                       createLoop continueLabel'
                                                         (createBlock None
                                                            [createIf condition
                                                               (createBlock None
                                                                  [bodyExpr, incrExpr,
                                                                   createBreak continueLabel' None]
                                                                  (Some NativeNone))
                                                               None]
                                                            (Some NativeNone))]
                                                      (Some NativeNone)
                                         in if alwaysReturns
                                            then Inr (createBlock None [expr, createUnreachable] None,
                                                      setFlow RETURNS fn6, st5)
                                            else Inr (expr, fn6, st5)))))))"
| "compileStatement program (IF cond ifTrue ifFalse) (fn, st) =
     (case lowerExpression program cond Type_i32 NONE True st of
        Inl x \<Rightarrow> Inl x
      | Inr (condExpr, st1) \<Rightarrow>
          (case makeIsTrueish condExpr (currentType st1) of
             Inl x \<Rightarrow> Inl x
           | Inr condition \<Rightarrow>
               (case compileStatement program ifTrue (fn\<lparr>flow := enterBranchOrScope (flow fn)\<rparr>, st1) of
                  Inl x \<Rightarrow> Inl x
                | Inr (ifTrueExpr, fn2, st2) \<Rightarrow>
                    let ifTrueReturns = flow_is (flow fn2) RETURNS
                    in (case leaveBranchOrScope (flow fn2) of
                          Inl x \<Rightarrow> Inl x
                        | Inr parentFlow \<Rightarrow>
                            let fn3 = fn2\<lparr>flow := parentFlow\<rparr>
                            in (case (case ifFalse of
                                        None \<Rightarrow> Inr (None, False, fn3, st2)
                                      | Some f \<Rightarrow>
                                          (case compileStatement program f
                                                  (fn3\<lparr>flow := enterBranchOrScope (flow fn3)\<rparr>, st2) of
                                             Inl x \<Rightarrow> Inl x
                                           | Inr (ifFalseExpr, fn4, st4) \<Rightarrow>
                                               (case leaveBranchOrScope (flow fn4) of
                                                  Inl x \<Rightarrow> Inl x
                                                | Inr parentFlow' \<Rightarrow>
                                                    Inr (Some ifFalseExpr, flow_is (flow fn4) RETURNS,
                                                         fn4\<lparr>flow := parentFlow'\<rparr>, st4)))) of
                                  Inl x \<Rightarrow> Inl x
                                | Inr (ifFalseExpr, ifFalseReturns, fn5, st5) \<Rightarrow>
                                    Inr (createIf condition ifTrueExpr ifFalseExpr,
                                         if ifTrueReturns \<and> ifFalseReturns then setFlow RETURNS fn5 else fn5,
                                         st5))))))"
| "compileStatement program (RETURN v) s = compileReturnStatement program v s"
| "compileStatement program (SWITCH cond cases) (fn, st) =
     (case enterBreakContext fn of
        (context, fn1) \<Rightarrow>
          (case getTempLocal Type_u32 fn1 of
             (tempLocalIndex, fn2) \<Rightarrow>
               (case lowerExpression program cond Type_u32 IMPLICIT True st of
                  Inl x \<Rightarrow> Inl x
                | Inr (condExpr, st1) \<Rightarrow>
                    (case switchBreaks program context tempLocalIndex cases 0 st1 of
                       Inl x \<Rightarrow> Inl x
                     | Inr (caseBreaks, defaultIndex, st2) \<Rightarrow>
                         let fn3 = freeTempLocal Type_u32 tempLocalIndex fn2;
                             breaks = createSetLocal tempLocalIndex condExpr # caseBreaks @
                                      [createBreak
                                         ((case defaultIndex of
                                             Some d \<Rightarrow> ''case'' @ decimal d
                                           | None \<Rightarrow> ''break'') @ ''|'' @ context)
                                         None];
                             currentBlock = createBlock (Some (''case0|'' @ context)) breaks
                                              (Some NativeNone)
                         in (case switchCases program context (length cases) 0 cases currentBlock True
                                    (fn3, st2) of
                               Inl x \<Rightarrow> Inl x
                             | Inr ((block, alwaysReturns), fn4, st4) \<Rightarrow>
                                 let fn5 = leaveBreakContext fn4
                                 in Inr (block,
                                         if defaultIndex \<noteq> None \<and> alwaysReturns
                                         then setFlow RETURNS fn5 else fn5,
                                         st4))))))"
| "compileStatement program (THROW e) s = compileThrowStatement s"
| "compileStatement program TRY s = Inl (Error ''not implemented'')"
| "compileStatement program (VARIABLE v) (fn, st) =
     (case compileVariableStatement program v of
        Some expr \<Rightarrow> Inr (expr, fn, st)
      | None \<Rightarrow> Inr (createNop, fn, st))"
| "compileStatement program (VOID' e) s = compileVoidStatement program e s"
| "compileStatement program (WHILE cond statement) (fn, st) =
     (case lowerExpression program cond Type_i32 NONE True st of
        Inl x \<Rightarrow> Inl x
      | Inr (condExpr, st1) \<Rightarrow>
          (case makeIsTrueish condExpr (currentType st1) of
             Inl x \<Rightarrow> Inl x
           | Inr condition \<Rightarrow>
               (case enterBreakContext fn of
                  (context, fn0) \<Rightarrow>
                    let breakLabel' = ''break|'' @ context;
                        continueLabel' = ''continue|'' @ context;
                        fn1 = fn0\<lparr>flow := setLabels (Some breakLabel') (Some continueLabel')
                                            (enterBranchOrScope (flow fn0))\<rparr>
                    in (case compileStatement program statement (fn1, st1) of
                          Inl x \<Rightarrow> Inl x
                        | Inr (bodyExpr, fn2, st2) \<Rightarrow>
                            let alwaysReturns = (False \<and> flow_is (flow fn2) RETURNS)
                            in (case leaveBranchOrScope (flow fn2) of
                                  Inl x \<Rightarrow> Inl x
                                | Inr parentFlow \<Rightarrow>
                                    let fn3 = leaveBreakContext (fn2\<lparr>flow := parentFlow\<rparr>);
                                        expr = createBlock (Some breakLabel')
                                                 [createLoop continueLabel'
                                                    (createIf condition
                                                       (createBlock None
                                                          [bodyExpr, createBreak continueLabel' None]
                                                          (Some NativeNone))
                                                       None)]
                                                 (Some NativeNone)
                                    in if alwaysReturns
                                       then Inr (createBlock None [expr, createUnreachable] None, fn3, st2)
                                       else Inr (expr, fn3, st2))))))"
| "compileStatement program TYPEDECLARATION (fn, st) =
     (if is_element fn START then Inr (createNop, fn, st) else Inl (Error ''statement expected''))"
| "compileStatement program OTHER s = Inl (Error ''statement expected'')"
| "compileStatements program [] (fn, st) = Inr ([], fn, st)"
| "compileStatements program (statement # ss) (fn, st) =
     (case compileStatement program statement (fn, st) of
        Inl x \<Rightarrow> Inl x
      | Inr (stmt, fn', st') \<Rightarrow>
          (case compileStatements program ss (fn', st') of
             Inl x \<Rightarrow> Inl x
           | Inr (stmts, fn'', st'') \<Rightarrow> Inr (stmt # stmts, fn'', st'')))"
| "switchCases program context numCases i [] currentBlock alwaysReturns (fn, st) =
     Inr ((currentBlock, alwaysReturns), fn, st)"
| "switchCases program context numCases i (SwitchCase l ss # cases) currentBlock alwaysReturns (fn, st) =
     (let breakLabel' = ''break|'' @ context;
          fn1 = fn\<lparr>flow := setLabels (Some breakLabel') (continueLabel (flow fn))
                               (enterBranchOrScope (flow fn))\<rparr>;
          fallsThrough = (i \<noteq> numCases - 1);
          nextLabel = (if \<not> fallsThrough then breakLabel'
                       else ''case'' @ decimal (i + 1) @ ''|'' @ context)
      in (case compileStatements program ss (fn1, st) of
            Inl x \<Rightarrow> Inl x
          | Inr (stmts, fn2, st2) \<Rightarrow>
              let alwaysReturns' =
                    (if \<not> (fallsThrough \<or> flow_is (flow fn2) RETURNS) then False else alwaysReturns)
              in (case leaveBranchOrScope (flow fn2) of
                    Inl x \<Rightarrow> Inl x
                  | Inr parentFlow \<Rightarrow>
                      switchCases program context numCases (Suc i) cases
                        (createBlock (Some nextLabel) (currentBlock # stmts) (Some NativeNone))
                        alwaysReturns' (fn2\<lparr>flow := parentFlow\<rparr>, st2))))"

text \<open>
  \<^verbatim>\<open>compileFunction\<close>. The function type table of the module is not modelled: a module
  function carries its parameter and result types, as \<^verbatim>\<open>ensureFunctionType\<close> computes
  them. Diagnostics about the declaration are reported at the declared name.
\<close>

definition ensureFunctionType :: "Signature \<Rightarrow> NativeType list \<times> NativeType" where
  "ensureFunctionType sig =
     ((case thisType sig of None \<Rightarrow> [] | Some t \<Rightarrow> [toNativeType t])
        @ map toNativeType (parameterTypes sig),
      toNativeType (returnType sig))"

definition addFunction ::
  "string \<Rightarrow> NativeType list \<times> NativeType \<Rightarrow> NativeType list \<Rightarrow> ExpressionRef \<Rightarrow> Compiler \<Rightarrow> Compiler" where
  "addFunction n typeRef ls b st =
     st\<lparr>module := (module st)\<lparr>moduleFunctions := moduleFunctions (module st) @
            [\<lparr>name = n, params = fst typeRef, result = snd typeRef, locals = ls, body = b\<rparr>]\<rparr>\<rparr>"

definition addFunctionImport :: "string \<Rightarrow> string \<Rightarrow> string \<Rightarrow> Compiler \<Rightarrow> Compiler" where
  "addFunctionImport n m b st =
     st\<lparr>module := (module st)\<lparr>functionImports := functionImports (module st) @ [(n, m, b)]\<rparr>\<rparr>"

definition addFunctionExport :: "string \<Rightarrow> string \<Rightarrow> Compiler \<Rightarrow> Compiler" where
  "addFunctionExport n x st =
     st\<lparr>module := (module st)\<lparr>functionExports := functionExports (module st) @ [(n, x)]\<rparr>\<rparr>"

definition compileFunction :: "Lowering \<Rightarrow> Function \<Rightarrow> Compiler \<Rightarrow> Thrown + bool \<times> Function \<times> Compiler" where
  "compileFunction program instance0 st0 =
     (if is_element instance0 COMPILED then Inr (True, instance0, st0)
      else if is_element instance0 BUILTIN \<and> simpleName instance0 \<noteq> ''abort''
      then Inl (AssertionError ''builtin'')
      else
        let instance = set_element COMPILED instance0;
            declaration = prototype instance;
            st1 = (case functionBody declaration of
                     Some b \<Rightarrow>
                       if is_element instance DECLARED
                       then error An_implementation_cannot_be_declared_in_ambient_contexts
                              (declaredName declaration) st0
                       else st0
                   | None \<Rightarrow>
                       if \<not> is_element instance DECLARED
                       then error Function_implementation_is_missing_or_not_immediately_following_the_declaration
                              (declaredName declaration) st0
                       else st0);
            typeRef = ensureFunctionType (signature instance)
        in case (case functionBody declaration of
                   Some b \<Rightarrow>
                     (case compileStatement program b (instance, st1) of
                        Inl x \<Rightarrow> Inl x
                      | Inr (stmt, instance', st2) \<Rightarrow>
                          let allBranchesReturn = finalize (flow instance')
                          in (case (if returnType (signature instance') \<noteq> Type_void \<and> \<not> allBranchesReturn
                                    then (case returnTypeRange declaration of
                                            None \<Rightarrow> Inl (AssertionError ''return type expected'')
                                          | Some r \<Rightarrow>
                                              Inr (error A_function_whose_declared_type_is_not_void_must_return_a_value
                                                     r st2))
                                    else Inr st2) of
                                Inl x \<Rightarrow> Inl x
                              | Inr st3 \<Rightarrow>
                                  Inr (instance',
                                       addFunction (internalName instance') typeRef
                                         (map toNativeType (additionalLocals instance')) stmt st3)))
                 | None \<Rightarrow>
                     Inr (set_element IMPORTED instance,
                          addFunctionImport (internalName instance)
                            (case prototypeNamespace instance of Some n \<Rightarrow> n | None \<Rightarrow> ''env'')
                            (simpleName instance) st1))
           of Inl x \<Rightarrow> Inl x
            | Inr (instance', st4) \<Rightarrow>
                Inr (True, instance',
                     if exported declaration
                     then addFunctionExport (internalName instance') (declaredName declaration) st4
                     else st4))"

text \<open>Two flows are the same frame: same parent, same labels.\<close>

definition sameFrame :: "Flow \<Rightarrow> Flow \<Rightarrow> bool" where
  "sameFrame f f' =
     (parent f' = parent f \<and> breakLabel f' = breakLabel f \<and> continueLabel f' = continueLabel f)"

definition sameElement :: "Function \<Rightarrow> Function \<Rightarrow> bool" where
  "sameElement fn fn' =
     (elementFlags fn' = elementFlags fn \<and> internalName fn' = internalName fn
      \<and> simpleName fn' = simpleName fn \<and> signature fn' = signature fn
      \<and> prototype fn' = prototype fn \<and> prototypeNamespace fn' = prototypeNamespace fn
      \<and> trampoline fn' = trampoline fn)"

definition exampleLowering :: Lowering where
  "exampleLowering =
     \<lparr>resolveType = (\<lambda>n. None),
      compileExpression = (\<lambda>e t c w. case e of Expression n \<Rightarrow> Inr (createI32 (of_nat n), Type_i32)),
      precomputeExpressionRef = (\<lambda>e. e),
      compileBuiltinGetConstant = (\<lambda>g. (createUnreachable, Type_void)),
      compileVariableStatement = (\<lambda>v. None),
      compileInitializer =
        (\<lambda>e t f st. case e of Expression n \<Rightarrow>
           Inr (createI32 (of_nat n), [], st\<lparr>currentType := Type_i32\<rparr>))\<rparr>"

definition exampleFunction ::
  "string \<Rightarrow> Type list \<Rightarrow> nat \<Rightarrow> Expression option list \<Rightarrow> Statement \<Rightarrow> Function" where
  "exampleFunction n ps required inits b =
     \<lparr>elementFlags = {}, internalName = n, simpleName = n,
      signature = \<lparr>parameterTypes = ps, thisType = None, returnType = Type_i32,
                   requiredParameters = required, hasRest = False\<rparr>,
      prototype = \<lparr>functionBody = Some b, declaredName = n, returnTypeRange = Some ''i32'',
                   parameterInitializers = inits, exported = False\<rparr>,
      prototypeNamespace = None,
      flow = Flow None {} None None, nextBreakId = 0, breakStack = [],
      additionalLocals = [], tempLocals = [],
      trampoline = None\<rparr>"

text \<open>
  Following the words of the spec ("every case body either falls through or returns"): what
  the second loop of \<^verbatim>\<open>compileSwitchStatement\<close> sees of each case body, in order. The first
  component tells whether the case falls through, which to the code means that another
  case follows it (\<^verbatim>\<open>fallsThrough = i != numCases - 1\<close>: whether the body ends in a break
  is not looked at); the second whether the flow that the statements of the body leave has
  \<^verbatim>\<open>RETURNS\<close>. The list stops at a body that does not lower.
\<close>

fun caseBodies ::
  "Lowering \<Rightarrow> string \<Rightarrow> nat \<Rightarrow> nat \<Rightarrow> SwitchCase list \<Rightarrow> Function \<times> Compiler
     \<Rightarrow> (bool \<times> bool) list" where
  "caseBodies program context numCases i [] (fn, st) = []"
| "caseBodies program context numCases i (SwitchCase l ss # cases) (fn, st) =
     (case compileStatements program ss
             (fn\<lparr>flow := setLabels (Some (''break|'' @ context)) (continueLabel (flow fn))
                               (enterBranchOrScope (flow fn))\<rparr>, st) of
        Inl x \<Rightarrow> []
      | Inr (stmts, fn2, st2) \<Rightarrow>
          (i \<noteq> numCases - 1, flow_is (flow fn2) RETURNS) #
          (case leaveBranchOrScope (flow fn2) of
             Inl x \<Rightarrow> []
           | Inr parentFlow \<Rightarrow>
               caseBodies program context numCases (Suc i) cases (fn2\<lparr>flow := parentFlow\<rparr>, st2)))"

definition everyCaseFallsThroughOrReturns ::
  "Lowering \<Rightarrow> string \<Rightarrow> SwitchCase list \<Rightarrow> Function \<times> Compiler \<Rightarrow> bool" where
  "everyCaseFallsThroughOrReturns program context cases s =
     list_all (\<lambda>(fallsThrough, returns). fallsThrough \<or> returns)
       (caseBodies program context (length cases) 0 cases s)"

definition exampleCases :: "SwitchCase list" where
  "exampleCases =
     [SwitchCase (Some (Expression 1)) [RETURN (Some (Expression 1))],
      SwitchCase None [RETURN (Some (Expression 0))]]"

definition hasDefault :: "SwitchCase list \<Rightarrow> bool" where
  "hasDefault cases = list_ex (\<lambda>c. case c of SwitchCase l ss \<Rightarrow> l = None) cases"

section \<open>Direct calls and trampolines\<close>

text \<open>
  A trampoline as a function of its own: it has no trampoline.
\<close>

definition asFunction :: "FunctionInstance \<Rightarrow> Function" where
  "asFunction t =
     \<lparr>elementFlags = elementFlags t, internalName = internalName t, simpleName = simpleName t,
      signature = signature t, prototype = prototype t,
      prototypeNamespace = prototypeNamespace t, flow = flow t, nextBreakId = nextBreakId t,
      breakStack = breakStack t, additionalLocals = additionalLocals t,
      tempLocals = tempLocals t, trampoline = None\<rparr>"








section \<open>Operators\<close>

text \<open>
  What the lowering of an operator expression asks of its collaborators, beyond the
  program: the lowering of an operand (\<^verbatim>\<open>this.compileExpression(operand, contextualType,
  conversionKind, wrapSmallIntegers)\<close> with the current function and the compiler given and
  returned, since an operand may add locals, compile elements and report); of
  \<^verbatim>\<open>types.ts\<close>, \<^verbatim>\<open>Type.commonCompatible\<close>, \<^verbatim>\<open>Type.isAssignableTo\<close> (the field
  \<open>typeIsAssignableTo\<close>), \<^verbatim>\<open>type.isReference\<close>,
  \<^verbatim>\<open>type.toNativeOne\<close> and \<^verbatim>\<open>type.toNativeNegOne\<close>; Binaryen's \<^verbatim>\<open>cloneExpression\<close>, which
  yields nothing for an expression with side effects; the element that
  \<^verbatim>\<open>program.resolveExpression\<close> finds for the target of an assignment, as the program holds
  it at that point; the range of a node; whether a node is an integer or float literal, and
  \<^verbatim>\<open>compileLiteralExpression\<close> for it.
\<close>

record Operators = Lowering +
  lowerOperand ::
    "Expression \<Rightarrow> Type \<Rightarrow> ConversionKind \<Rightarrow> bool \<Rightarrow> Function \<times> Compiler
       \<Rightarrow> Thrown + ExpressionRef \<times> Function \<times> Compiler"
  commonCompatible :: "Type \<Rightarrow> Type \<Rightarrow> bool \<Rightarrow> Type option"
  typeIsAssignableTo :: "Type \<Rightarrow> Type \<Rightarrow> bool"
  isReference :: "Type \<Rightarrow> bool"
  toNativeOne :: "Type \<Rightarrow> ExpressionRef"
  toNativeNegOne :: "Type \<Rightarrow> ExpressionRef"
  cloneExpression :: "ExpressionRef \<Rightarrow> ExpressionRef option"
  resolveExpression :: "Expression \<Rightarrow> Function \<times> Compiler \<Rightarrow> ResolvedElement"
  rangeOf :: "Expression \<Rightarrow> string"
  isNumericLiteral :: "Expression \<Rightarrow> bool"
  compileLiteralExpression ::
    "Expression \<Rightarrow> Type \<Rightarrow> bool \<Rightarrow> Function \<times> Compiler
       \<Rightarrow> Thrown + ExpressionRef \<times> Function \<times> Compiler"

text \<open>
  Modelled from the spec: \<^verbatim>\<open>getAndFreeTempLocal\<close> (in \<^verbatim>\<open>program.ts\<close>) "allocates and
  immediately releases (so the slot may be reused by the very next expression)".
\<close>

definition getAndFreeTempLocal :: "Type \<Rightarrow> Function \<Rightarrow> int \<times> Function" where
  "getAndFreeTempLocal t fn = (case getTempLocal t fn of (i, fn') \<Rightarrow> (i, freeTempLocal t i fn'))"

text \<open>\<^verbatim>\<open>makeIsFalseish\<close> (compiler.ts, the helpers at the end).\<close>

definition makeIsFalseish :: "ExpressionRef \<Rightarrow> Type \<Rightarrow> Thrown + ExpressionRef" where
  "makeIsFalseish expr t =
     (if kind t \<in> {I64, U64} then Inr (createUnary EqzI64 expr)
      else if kind t \<in> {USIZE, ISIZE} then
        Inr (createUnary (if size t = 64 then EqzI64 else EqzI32) expr)
      else if kind t = F32 then Inr (createBinary EqF32 expr (createF32 0))
      else if kind t = F64 then Inr (createBinary EqF64 expr (createF64 0))
      else if kind t = VOID then Inl (Error ''concrete type expected'')
      else Inr (createUnary EqzI32 expr))"

text \<open>
  \<^verbatim>\<open>compileExpressionRetainType\<close>, and \<^verbatim>\<open>convertExpression\<close> as a method of the compiler:
  its diagnostics go to the sink and its type to \<^verbatim>\<open>this.currentType\<close>.
\<close>

definition compileExpressionRetainType ::
  "'a Operators_scheme \<Rightarrow> Expression \<Rightarrow> Type \<Rightarrow> bool \<Rightarrow> Function \<times> Compiler
     \<Rightarrow> Thrown + ExpressionRef \<times> Function \<times> Compiler" where
  "compileExpressionRetainType program expression contextualType wrapSmallIntegers =
     lowerOperand program expression
       (if contextualType = Type_void then Type_i32 else contextualType) NONE wrapSmallIntegers"

definition convert ::
  "'a Operators_scheme \<Rightarrow> ExpressionRef \<Rightarrow> Type \<Rightarrow> Type \<Rightarrow> ConversionKind \<Rightarrow> string \<Rightarrow> Compiler
     \<Rightarrow> Thrown + ExpressionRef \<times> Compiler" where
  "convert program expr fromType toType conversionKind reportNode st =
     (case convertExpression (typeIsAssignableTo program) expr fromType toType conversionKind reportNode
             (currentType st) of
        (ds, Inl x) \<Rightarrow> Inl x
      | (ds, Inr (e, t)) \<Rightarrow> Inr (e, st\<lparr>diagnostics := diagnostics st @ ds, currentType := t\<rparr>))"

text \<open>
  The operands of a binary operator that unifies its operand types: both are lowered
  retaining their type, the right one in the context of the left one's type, and converted
  to the common type. Without a common type the error is reported and
  \<^verbatim>\<open>compileBinaryExpression\<close> returns \<^verbatim>\<open>unreachable\<close>: the result is \<open>None\<close>.
\<close>

definition commonOperands ::
  "'a Operators_scheme \<Rightarrow> Expression \<Rightarrow> Expression \<Rightarrow> string \<Rightarrow> Type \<Rightarrow> bool \<Rightarrow> bool \<Rightarrow> bool
     \<Rightarrow> Function \<times> Compiler
     \<Rightarrow> Thrown + (ExpressionRef \<times> ExpressionRef \<times> Type) option \<times> Function \<times> Compiler" where
  "commonOperands program l r rg contextualType signednessIsRelevant wrapLeft wrapRight s =
     (case compileExpressionRetainType program l contextualType wrapLeft s of
        Inl x \<Rightarrow> Inl x
      | Inr (left, fn1, st1) \<Rightarrow>
          let leftType = currentType st1
          in (case compileExpressionRetainType program r leftType wrapRight (fn1, st1) of
                Inl x \<Rightarrow> Inl x
              | Inr (right, fn2, st2) \<Rightarrow>
                  let rightType = currentType st2
                  in (case commonCompatible program leftType rightType signednessIsRelevant of
                        None \<Rightarrow>
                          Inr (None, fn2,
                               (error Operator_0_cannot_be_applied_to_types_1_and_2 rg st2)
                                 \<lparr>currentType := contextualType\<rparr>)
                      | Some commonType \<Rightarrow>
                          (case convert program left leftType commonType IMPLICIT (rangeOf program l)
                                  st2 of
                             Inl x \<Rightarrow> Inl x
                           | Inr (left', st3) \<Rightarrow>
                               (case convert program right rightType commonType IMPLICIT
                                       (rangeOf program r) st3 of
                                  Inl x \<Rightarrow> Inl x
                                | Inr (right', st4) \<Rightarrow>
                                    Inr (Some (left', right', commonType), fn2, st4))))))"

text \<open>The operands of an operator that takes the type of its left operand.\<close>

definition leftTypedOperands ::
  "'a Operators_scheme \<Rightarrow> Expression \<Rightarrow> Expression \<Rightarrow> Type \<Rightarrow> bool \<Rightarrow> bool \<Rightarrow> Function \<times> Compiler
     \<Rightarrow> Thrown + (ExpressionRef \<times> ExpressionRef) \<times> Function \<times> Compiler" where
  "leftTypedOperands program l r contextualType wrapLeft wrapRight s =
     (case compileExpressionRetainType program l contextualType wrapLeft s of
        Inl x \<Rightarrow> Inl x
      | Inr (left, fn1, st1) \<Rightarrow>
          (case lowerOperand program r (currentType st1) IMPLICIT wrapRight (fn1, st1) of
             Inl x \<Rightarrow> Inl x
           | Inr (right, fn2, st2) \<Rightarrow> Inr ((left, right), fn2, st2)))"

text \<open>A kind switch run in the compiler: its diagnostics go to the sink.\<close>

definition switchOnKind ::
  "Token \<Rightarrow> TypeKind \<Rightarrow> ExpressionRef \<Rightarrow> ExpressionRef \<Rightarrow> string \<Rightarrow> Function \<times> Compiler
     \<Rightarrow> Thrown + KindSwitch \<times> Function \<times> Compiler" where
  "switchOnKind operator k left right rg = (\<lambda>(fn, st).
     case kindSwitch operator (isWasm64 (options st)) k left right rg of
       (ds, Inl x) \<Rightarrow> Inl x
     | (ds, Inr selected) \<Rightarrow> Inr (selected, fn, st\<lparr>diagnostics := diagnostics st @ ds\<rparr>))"

text \<open>
  The cases of the outer switch of \<^verbatim>\<open>compileBinaryExpression\<close>, by their shape. A
  comparison switches on the kind of the common type and has type \<open>bool\<close>.
\<close>

definition comparison ::
  "'a Operators_scheme \<Rightarrow> Token \<Rightarrow> bool \<Rightarrow> Expression \<Rightarrow> Expression \<Rightarrow> string \<Rightarrow> Type
     \<Rightarrow> Function \<times> Compiler \<Rightarrow> Thrown + KindSwitch \<times> Function \<times> Compiler" where
  "comparison program operator signednessIsRelevant l r rg contextualType s =
     (case commonOperands program l r rg contextualType signednessIsRelevant True True s of
        Inl x \<Rightarrow> Inl x
      | Inr (None, s') \<Rightarrow> Inr (Returned createUnreachable, s')
      | Inr (Some (left, right, commonType), s') \<Rightarrow>
          (case switchOnKind operator (kind commonType) left right rg s' of
             Inl x \<Rightarrow> Inl x
           | Inr (selected, fn', st') \<Rightarrow> Inr (selected, fn', st'\<lparr>currentType := Type_bool\<rparr>)))"

text \<open>
  An arithmetic or bitwise operator: its compound form takes the type of the left operand,
  its plain form the common type; both switch on the kind of \<^verbatim>\<open>this.currentType\<close>.
\<close>

definition arithmetic ::
  "'a Operators_scheme \<Rightarrow> Token \<Rightarrow> bool \<Rightarrow> bool \<Rightarrow> Expression \<Rightarrow> Expression \<Rightarrow> string \<Rightarrow> Type
     \<Rightarrow> Function \<times> Compiler \<Rightarrow> Thrown + KindSwitch \<times> Function \<times> Compiler" where
  "arithmetic program operator compound wrapLeft l r rg contextualType s =
     (if compound then
        (case leftTypedOperands program l r contextualType wrapLeft False s of
           Inl x \<Rightarrow> Inl x
         | Inr ((left, right), fn', st') \<Rightarrow>
             switchOnKind operator (kind (currentType st')) left right rg (fn', st'))
      else
        (case commonOperands program l r rg contextualType False wrapLeft False s of
           Inl x \<Rightarrow> Inl x
         | Inr (None, s') \<Rightarrow> Inr (Returned createUnreachable, s')
         | Inr (Some (left, right, commonType), fn', st') \<Rightarrow>
             switchOnKind operator (kind (currentType st')) left right rg (fn', st')))"

text \<open>A shift: the right operand is converted to the type of the left one.\<close>

definition shift ::
  "'a Operators_scheme \<Rightarrow> Token \<Rightarrow> bool \<Rightarrow> Expression \<Rightarrow> Expression \<Rightarrow> string \<Rightarrow> Type
     \<Rightarrow> Function \<times> Compiler \<Rightarrow> Thrown + KindSwitch \<times> Function \<times> Compiler" where
  "shift program operator wrapOperands l r rg contextualType s =
     (case leftTypedOperands program l r contextualType wrapOperands wrapOperands s of
        Inl x \<Rightarrow> Inl x
      | Inr ((left, right), fn', st') \<Rightarrow>
          switchOnKind operator (kind (currentType st')) left right rg (fn', st'))"

text \<open>
  \<open>&&\<close> and \<open>||\<close>: the left operand is read twice, through a clone if it has no side
  effects and through a temporary local otherwise; \<^verbatim>\<open>possiblyOverflows\<close> is set when the type
  is a small integer.
\<close>

definition logical ::
  "'a Operators_scheme \<Rightarrow> Token \<Rightarrow> Expression \<Rightarrow> Expression \<Rightarrow> Type
     \<Rightarrow> Function \<times> Compiler \<Rightarrow> Thrown + KindSwitch \<times> Function \<times> Compiler" where
  "logical program operator l r contextualType s =
     (case compileExpressionRetainType program l contextualType True s of
        Inl x \<Rightarrow> Inl x
      | Inr (left, fn1, st1) \<Rightarrow>
          (case lowerOperand program r (currentType st1) IMPLICIT False (fn1, st1) of
             Inl x \<Rightarrow> Inl x
           | Inr (right, fn2, st2) \<Rightarrow>
               let t = currentType st2;
                   (left', again, fn3) =
                     (case cloneExpression program left of
                        Some cloned \<Rightarrow> (left, cloned, fn2)
                      | None \<Rightarrow>
                          (case getAndFreeTempLocal t fn2 of
                             (i, fn') \<Rightarrow> (createTeeLocal i left, createGetLocal i (toNativeType t), fn')));
                   possiblyOverflows = is_type t {SMALL, INTEGER}
               in (case makeIsTrueish left' t of
                     Inl x \<Rightarrow> Inl x
                   | Inr condition \<Rightarrow>
                       Inr (Selected possiblyOverflows
                              (if operator = AMPERSAND_AMPERSAND
                               then createIf condition right (Some again)
                               else createIf condition again (Some right)),
                            fn3, st2))))"

text \<open>
  \<^verbatim>\<open>compileAssignment\<close>, for a target that resolves to a local or a global: the value is
  lowered in the context of the target's type and assigned.
\<close>

definition compileAssignment ::
  "'a Operators_scheme \<Rightarrow> Expression \<Rightarrow> Expression \<Rightarrow> Type \<Rightarrow> Function \<times> Compiler
     \<Rightarrow> Thrown + ExpressionRef \<times> Function \<times> Compiler" where
  "compileAssignment program expression valueExpression contextualType = (\<lambda>(fn, st).
     let assign = (\<lambda>elementType s.
           case lowerOperand program valueExpression elementType IMPLICIT True s of
             Inl x \<Rightarrow> Inl x
           | Inr (valueExpr, fn1, st1) \<Rightarrow>
               (case compileAssignmentWithValue (Program.truncate program)
                       (resolveExpression program expression (fn1, st1)) valueExpr
                       (contextualType \<noteq> Type_void) (rangeOf program expression) st1 of
                  Inl x \<Rightarrow> Inl x
                | Inr (expr, element, st2) \<Rightarrow> Inr (expr, fn1, st2)))
     in case resolveExpression program expression (fn, st) of
          Unresolved \<Rightarrow> Inr (createUnreachable, fn, st)
        | ResolvedLocal element \<Rightarrow> assign (type element) (fn, st)
        | ResolvedGlobal element \<Rightarrow>
            (case compileGlobal (Program.truncate program) element st of
               Inl x \<Rightarrow> Inl x
             | Inr (compiled, element', st') \<Rightarrow>
                 if \<not> compiled then Inr (createUnreachable, fn, st')
                 else if type element' = Type_void then Inl (AssertionError ''concrete type expected'')
                 else assign (type element') (fn, st'))
        | _ \<Rightarrow> Inr (createUnreachable, fn, error Operation_not_supported (rangeOf program expression) st))"

text \<open>
  The compound tokens, which set \<^verbatim>\<open>compound\<close> and fall into the case of their operator.
\<close>

definition compoundTokens :: "Token set" where
  "compoundTokens =
     {PLUS_EQUALS, MINUS_EQUALS, ASTERISK_EQUALS, SLASH_EQUALS, PERCENT_EQUALS,
      LESSTHAN_LESSTHAN_EQUALS, GREATERTHAN_GREATERTHAN_EQUALS,
      GREATERTHAN_GREATERTHAN_GREATERTHAN_EQUALS, AMPERSAND_EQUALS, BAR_EQUALS, CARET_EQUALS}"

text \<open>
  The outer switch of \<^verbatim>\<open>compileBinaryExpression\<close>, with the wrap flags that each case
  hands to its operands.
\<close>

fun binarySwitch ::
  "'a Operators_scheme \<Rightarrow> Token \<Rightarrow> Expression \<Rightarrow> Expression \<Rightarrow> string \<Rightarrow> Type
     \<Rightarrow> Function \<times> Compiler \<Rightarrow> Thrown + KindSwitch \<times> Function \<times> Compiler" where
  "binarySwitch program LESSTHAN l r rg t s = comparison program LESSTHAN True l r rg t s"
| "binarySwitch program GREATERTHAN l r rg t s = comparison program GREATERTHAN True l r rg t s"
| "binarySwitch program LESSTHAN_EQUALS l r rg t s =
     comparison program LESSTHAN_EQUALS True l r rg t s"
| "binarySwitch program GREATERTHAN_EQUALS l r rg t s =
     comparison program GREATERTHAN_EQUALS True l r rg t s"
| "binarySwitch program EQUALS_EQUALS_EQUALS l r rg t s =
     comparison program EQUALS_EQUALS False l r rg t s"
| "binarySwitch program EQUALS_EQUALS l r rg t s = comparison program EQUALS_EQUALS False l r rg t s"
| "binarySwitch program EXCLAMATION_EQUALS_EQUALS l r rg t s =
     comparison program EXCLAMATION_EQUALS False l r rg t s"
| "binarySwitch program EXCLAMATION_EQUALS l r rg t s =
     comparison program EXCLAMATION_EQUALS False l r rg t s"
| "binarySwitch program EQUALS l r rg t s =
     (case compileAssignment program l r t s of
        Inl x \<Rightarrow> Inl x
      | Inr (expr, s') \<Rightarrow> Inr (Returned expr, s'))"
| "binarySwitch program PLUS_EQUALS l r rg t s = arithmetic program PLUS True False l r rg t s"
| "binarySwitch program PLUS l r rg t s = arithmetic program PLUS False False l r rg t s"
| "binarySwitch program MINUS_EQUALS l r rg t s = arithmetic program MINUS True False l r rg t s"
| "binarySwitch program MINUS l r rg t s = arithmetic program MINUS False False l r rg t s"
| "binarySwitch program ASTERISK_EQUALS l r rg t s =
     arithmetic program ASTERISK True False l r rg t s"
| "binarySwitch program ASTERISK l r rg t s = arithmetic program ASTERISK False False l r rg t s"
| "binarySwitch program SLASH_EQUALS l r rg t s = arithmetic program SLASH True True l r rg t s"
| "binarySwitch program SLASH l r rg t s = arithmetic program SLASH False True l r rg t s"
| "binarySwitch program PERCENT_EQUALS l r rg t s = arithmetic program PERCENT True True l r rg t s"
| "binarySwitch program PERCENT l r rg t s = arithmetic program PERCENT False True l r rg t s"
| "binarySwitch program LESSTHAN_LESSTHAN_EQUALS l r rg t s =
     shift program LESSTHAN_LESSTHAN False l r rg t s"
| "binarySwitch program LESSTHAN_LESSTHAN l r rg t s =
     shift program LESSTHAN_LESSTHAN False l r rg t s"
| "binarySwitch program GREATERTHAN_GREATERTHAN_EQUALS l r rg t s =
     shift program GREATERTHAN_GREATERTHAN True l r rg t s"
| "binarySwitch program GREATERTHAN_GREATERTHAN l r rg t s =
     shift program GREATERTHAN_GREATERTHAN True l r rg t s"
| "binarySwitch program GREATERTHAN_GREATERTHAN_GREATERTHAN_EQUALS l r rg t s =
     shift program GREATERTHAN_GREATERTHAN_GREATERTHAN True l r rg t s"
| "binarySwitch program GREATERTHAN_GREATERTHAN_GREATERTHAN l r rg t s =
     shift program GREATERTHAN_GREATERTHAN_GREATERTHAN True l r rg t s"
| "binarySwitch program AMPERSAND_EQUALS l r rg t s =
     arithmetic program AMPERSAND True False l r rg t s"
| "binarySwitch program AMPERSAND l r rg t s = arithmetic program AMPERSAND False False l r rg t s"
| "binarySwitch program BAR_EQUALS l r rg t s = arithmetic program BAR True False l r rg t s"
| "binarySwitch program BAR l r rg t s = arithmetic program BAR False False l r rg t s"
| "binarySwitch program CARET_EQUALS l r rg t s = arithmetic program CARET True False l r rg t s"
| "binarySwitch program CARET l r rg t s = arithmetic program CARET False False l r rg t s"
| "binarySwitch program AMPERSAND_AMPERSAND l r rg t s =
     logical program AMPERSAND_AMPERSAND l r t s"
| "binarySwitch program BAR_BAR l r rg t s = logical program BAR_BAR l r t s"
| "binarySwitch program operator l r rg t s = Inl (Error ''not implemented'')"

text \<open>
  The end of \<^verbatim>\<open>compileBinaryExpression\<close> and of \<^verbatim>\<open>compileUnaryPrefixExpression\<close>: the
  closing wrap, and the \<^verbatim>\<open>return\<close> statement, which assigns the value to the target if the
  operator is compound.
\<close>

definition returnCompound ::
  "'a Operators_scheme \<Rightarrow> bool \<Rightarrow> Expression \<Rightarrow> ExpressionRef \<Rightarrow> Type \<Rightarrow> Function \<times> Compiler
     \<Rightarrow> Thrown + ExpressionRef \<times> Function \<times> Compiler" where
  "returnCompound program compound targetExpression expr contextualType = (\<lambda>(fn, st).
     if compound then
       (case compileAssignmentWithValue (Program.truncate program)
               (resolveExpression program targetExpression (fn, st)) expr (contextualType \<noteq> Type_void)
               (rangeOf program targetExpression) st of
          Inl x \<Rightarrow> Inl x
        | Inr (assigned, element, st') \<Rightarrow> Inr (assigned, fn, st'))
     else Inr (expr, fn, st))"

definition closingWrap ::
  "'a Operators_scheme \<Rightarrow> bool \<Rightarrow> Expression \<Rightarrow> Type \<Rightarrow> bool
     \<Rightarrow> Thrown + KindSwitch \<times> Function \<times> Compiler
     \<Rightarrow> Thrown + ExpressionRef \<times> Function \<times> Compiler" where
  "closingWrap program compound targetExpression contextualType wrapSmallIntegers switched =
     (case switched of
        Inl x \<Rightarrow> Inl x
      | Inr (Returned expr, s) \<Rightarrow> Inr (expr, s)
      | Inr (Selected possiblyOverflows expr, fn, st) \<Rightarrow>
          if possiblyOverflows \<and> wrapSmallIntegers then
            (if is_type (currentType st) {SMALL, INTEGER} then
               (case makeSmallIntegerWrap expr (currentType st) of
                  Inl x \<Rightarrow> Inl x
                | Inr wrapped \<Rightarrow> returnCompound program compound targetExpression wrapped contextualType (fn, st))
             else Inl (AssertionError ''small integer type expected''))
          else returnCompound program compound targetExpression expr contextualType (fn, st))"

definition compileBinaryExpression ::
  "'a Operators_scheme \<Rightarrow> Token \<Rightarrow> Expression \<Rightarrow> Expression \<Rightarrow> string \<Rightarrow> Type \<Rightarrow> bool
     \<Rightarrow> Function \<times> Compiler \<Rightarrow> Thrown + ExpressionRef \<times> Function \<times> Compiler" where
  "compileBinaryExpression program operator l r rg contextualType wrapSmallIntegers s =
     closingWrap program (operator \<in> compoundTokens) l contextualType wrapSmallIntegers
       (binarySwitch program operator l r rg contextualType s)"

text \<open>
  \<^verbatim>\<open>compileUnaryPrefixExpression\<close>: the switch over the operator, each case with its switch
  over the kind of the operand's type. \<^verbatim>\<open>this.currentType\<close> is the contextual type when the
  method is entered.
\<close>

definition operandContext :: "Type \<Rightarrow> Type" where
  "operandContext contextualType = (if contextualType = Type_void then Type_i32 else contextualType)"

definition refused :: "string \<Rightarrow> Function \<times> Compiler \<Rightarrow> Thrown + KindSwitch \<times> Function \<times> Compiler" where
  "refused rg = (\<lambda>(fn, st). Inr (Returned createUnreachable, fn, error Operation_not_supported rg st))"

fun prefixSwitch ::
  "'a Operators_scheme \<Rightarrow> Token \<Rightarrow> Expression \<Rightarrow> string \<Rightarrow> Type
     \<Rightarrow> Function \<times> Compiler \<Rightarrow> Thrown + KindSwitch \<times> Function \<times> Compiler" where
  "prefixSwitch program PLUS operand rg contextualType s =
     (if isReference program (currentType (snd s)) then refused rg s
      else
        (case lowerOperand program operand (operandContext contextualType) NONE False s of
           Inl x \<Rightarrow> Inl x
         | Inr (expr, fn1, st1) \<Rightarrow>
             Inr (Selected (is_type (currentType st1) {SMALL, INTEGER}) expr, fn1, st1)))"
| "prefixSwitch program MINUS operand rg contextualType s =
     (if isReference program (currentType (snd s)) then refused rg s
      else if isNumericLiteral program operand then
        (case compileLiteralExpression program operand contextualType True s of
           Inl x \<Rightarrow> Inl x
         | Inr (expr, s1) \<Rightarrow> Inr (Selected False expr, s1))
      else
        (case lowerOperand program operand (operandContext contextualType) NONE False s of
           Inl x \<Rightarrow> Inl x
         | Inr (expr, fn1, st1) \<Rightarrow>
             let t = currentType st1; k = kind t
             in if k \<in> {I8, I16, U8, U16, BOOL} then
                  Inr (Selected True (createBinary SubI32 (createI32 0) expr), fn1, st1)
                else if k = USIZE \<and> isReference program t then refused rg (fn1, st1)
                else if k \<in> {USIZE, ISIZE} then
                  (case toNativeZero t of
                     Inl x \<Rightarrow> Inl x
                   | Inr zero \<Rightarrow>
                       Inr (Selected False
                              (createBinary (if isWasm64 (options st1) then SubI64 else SubI32) zero expr),
                            fn1, st1))
                else if k \<in> {I64, U64} then
                  Inr (Selected False (createBinary SubI64 (createI64 0 0) expr), fn1, st1)
                else if k = F32 then Inr (Selected False (createUnary NegF32 expr), fn1, st1)
                else if k = F64 then Inr (Selected False (createUnary NegF64 expr), fn1, st1)
                else Inr (Selected False (createBinary SubI32 (createI32 0) expr), fn1, st1)))"
| "prefixSwitch program PLUS_PLUS operand rg contextualType s =
     (if isReference program (currentType (snd s)) then refused rg s
      else
        (case lowerOperand program operand (operandContext contextualType) NONE False s of
           Inl x \<Rightarrow> Inl x
         | Inr (expr, fn1, st1) \<Rightarrow>
             let t = currentType st1; k = kind t
             in if k \<in> {I8, I16, U8, U16, BOOL} then
                  Inr (Selected True (createBinary AddI32 expr (createI32 1)), fn1, st1)
                else if k = USIZE \<and> isReference program t then refused rg (fn1, st1)
                else if k \<in> {USIZE, ISIZE} then
                  Inr (Selected False
                         (createBinary (if isWasm64 (options st1) then AddI64 else AddI32) expr
                            (toNativeOne program t)),
                       fn1, st1)
                else if k \<in> {I64, U64} then
                  Inr (Selected False (createBinary AddI64 expr (createI64 1 0)), fn1, st1)
                else if k = F32 then
                  Inr (Selected False (createBinary AddF32 expr (createF32 0x3FF0000000000000)), fn1, st1)
                else if k = F64 then
                  Inr (Selected False (createBinary AddF64 expr (createF64 0x3FF0000000000000)), fn1, st1)
                else Inr (Selected False (createBinary AddI32 expr (createI32 1)), fn1, st1)))"
| "prefixSwitch program MINUS_MINUS operand rg contextualType s =
     (if isReference program (currentType (snd s)) then refused rg s
      else
        (case lowerOperand program operand (operandContext contextualType) NONE False s of
           Inl x \<Rightarrow> Inl x
         | Inr (expr, fn1, st1) \<Rightarrow>
             let t = currentType st1; k = kind t
             in if k \<in> {I8, I16, U8, U16, BOOL} then
                  Inr (Selected True (createBinary SubI32 expr (createI32 1)), fn1, st1)
                else if k = USIZE \<and> isReference program t then refused rg (fn1, st1)
                else if k \<in> {USIZE, ISIZE} then
                  Inr (Selected False
                         (createBinary (if isWasm64 (options st1) then SubI64 else SubI32) expr
                            (toNativeOne program t)),
                       fn1, st1)
                else if k \<in> {I64, U64} then
                  Inr (Selected False (createBinary SubI64 expr (createI64 1 0)), fn1, st1)
                else if k = F32 then
                  Inr (Selected False (createBinary SubF32 expr (createF32 0x3FF0000000000000)), fn1, st1)
                else if k = F64 then
                  Inr (Selected False (createBinary SubF64 expr (createF64 0x3FF0000000000000)), fn1, st1)
                else Inr (Selected False (createBinary SubI32 expr (createI32 1)), fn1, st1)))"
| "prefixSwitch program EXCLAMATION operand rg contextualType s =
     (case lowerOperand program operand (operandContext contextualType) NONE True s of
        Inl x \<Rightarrow> Inl x
      | Inr (expr, fn1, st1) \<Rightarrow>
          (case makeIsFalseish expr (currentType st1) of
             Inl x \<Rightarrow> Inl x
           | Inr falseish \<Rightarrow> Inr (Selected False falseish, fn1, st1\<lparr>currentType := Type_bool\<rparr>)))"
| "prefixSwitch program TILDE operand rg contextualType s =
     (if isReference program (currentType (snd s)) then refused rg s
      else
        (case lowerOperand program operand
                (if contextualType = Type_void then Type_i32
                 else if is_type contextualType {FLOAT} then Type_i64
                 else contextualType)
                (if contextualType = Type_void then NONE else IMPLICIT) False s of
           Inl x \<Rightarrow> Inl x
         | Inr (expr, fn1, st1) \<Rightarrow>
             let t = currentType st1; k = kind t
             in if k \<in> {I8, I16, U8, U16, BOOL} then
                  Inr (Selected True (createBinary XorI32 expr (createI32 (- 1))), fn1, st1)
                else if k = USIZE \<and> isReference program t then refused rg (fn1, st1)
                else if k \<in> {USIZE, ISIZE} then
                  Inr (Selected False
                         (createBinary (if isWasm64 (options st1) then XorI64 else XorI32) expr
                            (toNativeNegOne program t)),
                       fn1, st1)
                else if k \<in> {I64, U64} then
                  Inr (Selected False (createBinary XorI64 expr (createI64 (- 1) (- 1))), fn1, st1)
                else Inr (Selected False (createBinary XorI32 expr (createI32 (- 1))), fn1, st1)))"
| "prefixSwitch program TYPEOF operand rg contextualType s = Inl (Error ''not implemented'')"
| "prefixSwitch program operator operand rg contextualType s =
     Inl (Error ''unary operator expected'')"

definition compileUnaryPrefixExpression ::
  "'a Operators_scheme \<Rightarrow> Token \<Rightarrow> Expression \<Rightarrow> string \<Rightarrow> Type \<Rightarrow> bool
     \<Rightarrow> Function \<times> Compiler \<Rightarrow> Thrown + ExpressionRef \<times> Function \<times> Compiler" where
  "compileUnaryPrefixExpression program operator operand rg contextualType wrapSmallIntegers s =
     closingWrap program (operator \<in> {PLUS_PLUS, MINUS_MINUS}) operand contextualType
       wrapSmallIntegers (prefixSwitch program operator operand rg contextualType s)"

text \<open>
  \<^verbatim>\<open>compileUnaryPostfixExpression\<close>. The switch over the operator and the kind of the
  operand's type selects the opcode, the native type and the constant one, and sets
  \<^verbatim>\<open>possiblyOverflows\<close>; a reference is refused.
\<close>

datatype PostfixSwitch = Chosen BinaryOp NativeType ExpressionRef bool | Refused

definition postfixSwitch ::
  "'a Operators_scheme \<Rightarrow> Token \<Rightarrow> Type \<Rightarrow> bool \<Rightarrow> Thrown + PostfixSwitch" where
  "postfixSwitch program operator t wasm64 =
     (if operator \<in> {PLUS_PLUS, MINUS_MINUS} then
        let plus = (operator = PLUS_PLUS); k = kind t
        in if isReference program t then Inr Refused
           else if k \<in> {I8, I16, U8, U16, BOOL} then
             Inr (Chosen (if plus then AddI32 else SubI32) NativeI32 (createI32 1) True)
           else if k \<in> {USIZE, ISIZE} then
             Inr (Chosen (if wasm64 then (if plus then AddI64 else SubI64)
                          else (if plus then AddI32 else SubI32))
                    (if wasm64 then NativeI64 else NativeI32) (toNativeOne program t) False)
           else if k \<in> {I64, U64} then
             Inr (Chosen (if plus then AddI64 else SubI64) NativeI64 (createI64 1 0) False)
           else if k = F32 then
             Inr (Chosen (if plus then AddF32 else SubF32) NativeF32
                    (createF32 0x3FF0000000000000) False)
           else if k = F64 then
             Inr (Chosen (if plus then AddF64 else SubF64) NativeF64
                    (createF64 0x3FF0000000000000) False)
           else if k = VOID then Inl (Error ''concrete type expected'')
           else Inr (Chosen (if plus then AddI32 else SubI32) NativeI32 (createI32 1) False)
      else Inl (Error ''unary postfix operator expected''))"

text \<open>
  The rest of the method once the new value is built and wrapped: it is assigned to the
  operand, and unless the result is dropped, the old value, kept in the temporary local, is
  the value of the block.
\<close>

definition postfixStore ::
  "'a Operators_scheme \<Rightarrow> Expression \<Rightarrow> Type \<Rightarrow> ExpressionRef \<Rightarrow> NativeType \<Rightarrow> (int \<times> Type) option
     \<Rightarrow> ExpressionRef \<Rightarrow> Function \<times> Compiler \<Rightarrow> Thrown + ExpressionRef \<times> Function \<times> Compiler" where
  "postfixStore program operand contextualType getValue nativeType tempLocal setValue = (\<lambda>(fn, st).
     case compileAssignmentWithValue (Program.truncate program)
            (resolveExpression program operand (fn, st)) setValue False (rangeOf program operand) st of
       Inl x \<Rightarrow> Inl x
     | Inr (assigned, element, st') \<Rightarrow>
         if contextualType = Type_void then
           (case tempLocal of
              None \<Rightarrow> Inr (assigned, fn, st')
            | Some temp \<Rightarrow> Inl (AssertionError ''!tempLocal''))
         else
           (case tempLocal of
              None \<Rightarrow> Inl (AssertionError ''tempLocal'')
            | Some (i, t) \<Rightarrow>
                Inr (createBlock None
                       [createSetLocal i getValue, assigned, createGetLocal i nativeType]
                       (Some nativeType),
                     freeTempLocal t i fn, st'\<lparr>currentType := t\<rparr>)))"

definition compileUnaryPostfixExpression ::
  "'a Operators_scheme \<Rightarrow> Token \<Rightarrow> Expression \<Rightarrow> string \<Rightarrow> Type
     \<Rightarrow> Function \<times> Compiler \<Rightarrow> Thrown + ExpressionRef \<times> Function \<times> Compiler" where
  "compileUnaryPostfixExpression program operator operand rg contextualType s =
     (case lowerOperand program operand (operandContext contextualType) NONE False s of
        Inl x \<Rightarrow> Inl x
      | Inr (getValue, fn1, st1) \<Rightarrow>
          let t = currentType st1
          in (case postfixSwitch program operator t (isWasm64 (options st1)) of
                Inl x \<Rightarrow> Inl x
              | Inr Refused \<Rightarrow> Inr (createUnreachable, fn1, error Operation_not_supported rg st1)
              | Inr (Chosen op nativeType nativeOne possiblyOverflows) \<Rightarrow>
                  let (tempLocal, fn2, setValue) =
                        (if contextualType = Type_void then
                           (None, fn1, createBinary op getValue nativeOne)
                         else
                           (case getTempLocal t fn1 of
                              (i, fn') \<Rightarrow>
                                (Some (i, t), fn', createBinary op (createGetLocal i nativeType) nativeOne)))
                  in if possiblyOverflows then
                       (if is_type t {SMALL, INTEGER} then
                          (case makeSmallIntegerWrap setValue t of
                             Inl x \<Rightarrow> Inl x
                           | Inr wrapped \<Rightarrow>
                               postfixStore program operand contextualType getValue nativeType
                                 tempLocal wrapped (fn2, st1))
                        else Inl (AssertionError ''small integer type expected''))
                     else
                       postfixStore program operand contextualType getValue nativeType tempLocal
                         setValue (fn2, st1)))"

text \<open>
  The binary operators whose kind switch sets \<^verbatim>\<open>possiblyOverflows\<close> for each of the small
  integer types, with their compound forms, and the two logical operators, which set it for
  a small integer type.
\<close>

definition overflowingOperators :: "Token set" where
  "overflowingOperators = {PLUS, MINUS, ASTERISK, SLASH, LESSTHAN_LESSTHAN, AMPERSAND, BAR, CARET,
      PLUS_EQUALS, MINUS_EQUALS, ASTERISK_EQUALS, SLASH_EQUALS, LESSTHAN_LESSTHAN_EQUALS,
      AMPERSAND_EQUALS, BAR_EQUALS, CARET_EQUALS, AMPERSAND_AMPERSAND, BAR_BAR}"

text \<open>
  The end of \<^verbatim>\<open>compileExpression\<close>: what the node has lowered to is converted to the
  contextual type, unless no conversion is asked for or the types agree. A cast
  \<^verbatim>\<open><T>expression\<close> is \<^verbatim>\<open>compileExpression(expression, T, ConversionKind.EXPLICIT)\<close>, with
  the wrap flag at its default \<^verbatim>\<open>true\<close>.
\<close>

definition convertToContextualType ::
  "'a Operators_scheme \<Rightarrow> ExpressionRef \<Rightarrow> Type \<Rightarrow> ConversionKind \<Rightarrow> string \<Rightarrow> Compiler
     \<Rightarrow> Thrown + ExpressionRef \<times> Compiler" where
  "convertToContextualType program expr contextualType conversionKind reportNode st =
     (if conversionKind \<noteq> NONE \<and> currentType st \<noteq> contextualType then
        (case convert program expr (currentType st) contextualType conversionKind reportNode st of
           Inl x \<Rightarrow> Inl x
         | Inr (converted, st') \<Rightarrow> Inr (converted, st'\<lparr>currentType := contextualType\<rparr>))
      else Inr (expr, st))"

text \<open>
  An example: the locals \<open>x\<close> of type \<open>u8\<close> and of type \<open>i8\<close>, and collaborators for
  which the node 0 is the identifier \<open>x\<close> (of type \<open>u8\<close>) and every other node \<open>n\<close> the
  literal \<open>n\<close>, which takes the contextual type; two types are compatible, and assignable,
  when they are equal; a read of a local can be cloned. The scope is a function \<open>f(x: u8)\<close>
  and a new compiler.
\<close>

definition byteLocal :: Local where
  "byteLocal =
     \<lparr>elementFlags = {}, internalName = ''x'', simpleName = ''x'',
      type = Type_u8, constantValueKind = NoConstant, constantIntegerValue = 0,
      constantFloatValue = 0, index = 0\<rparr>"

definition signedByteLocal :: Local where
  "signedByteLocal = byteLocal\<lparr>type := Type_i8\<rparr>"

definition exampleOperators :: Operators where
  "exampleOperators =
     \<lparr>resolveType = (\<lambda>n. None),
      compileExpression = (\<lambda>e t c w. case e of Expression n \<Rightarrow> Inr (createI32 (of_nat n), Type_i32)),
      precomputeExpressionRef = (\<lambda>e. e),
      compileBuiltinGetConstant = (\<lambda>g. (createUnreachable, Type_void)),
      compileVariableStatement = (\<lambda>v. None),
      compileInitializer =
        (\<lambda>e t f st. case e of Expression n \<Rightarrow>
           Inr (createI32 (of_nat n), [], st\<lparr>currentType := Type_i32\<rparr>)),
      lowerOperand =
        (\<lambda>e t c w (fn, st). case e of Expression n \<Rightarrow>
           if n = 0 then Inr (createGetLocal 0 NativeI32, fn, st\<lparr>currentType := Type_u8\<rparr>)
           else Inr (createI32 (of_nat n), fn, st\<lparr>currentType := t\<rparr>)),
      commonCompatible = (\<lambda>a b signednessIsRelevant. if a = b then Some a else None),
      typeIsAssignableTo = (\<lambda>a b. a = b),
      isReference = (\<lambda>t. False),
      toNativeOne = (\<lambda>t. createI32 1),
      toNativeNegOne = (\<lambda>t. createI32 (- 1)),
      cloneExpression = (\<lambda>e. case e of createGetLocal i n \<Rightarrow> Some e | _ \<Rightarrow> None),
      resolveExpression =
        (\<lambda>e s. case e of Expression n \<Rightarrow> if n = 0 then ResolvedLocal byteLocal else Unresolved),
      rangeOf = (\<lambda>e. case e of Expression n \<Rightarrow> if n = 0 then ''x'' else ''literal''),
      isNumericLiteral = (\<lambda>e. e \<noteq> Expression 0),
      compileLiteralExpression =
        (\<lambda>e t negate (fn, st). case e of Expression n \<Rightarrow>
           Inr (createI32 (if negate then - of_nat n else of_nat n), fn, st\<lparr>currentType := t\<rparr>))\<rparr>"

definition exampleScope :: "Function \<times> Compiler" where
  "exampleScope = (exampleFunction ''f'' [Type_u8] 1 [None] EMPTY, newCompiler wasm32Options)"

section \<open>Properties\<close>

lemmas Type_defs =
  Type_i8_def Type_i16_def Type_i32_def Type_i64_def Type_isize32_def Type_isize64_def
  Type_u8_def Type_u16_def Type_u32_def Type_u64_def Type_usize32_def Type_usize64_def
  Type_bool_def Type_f32_def Type_f64_def Type_void_def

subsection \<open>Small-integer wrap\<close>

lemma makeSmallIntegerWrap_small:
  "makeSmallIntegerWrap e Type_i8 =
     Inr (createBinary ShrI32 (createBinary ShlI32 e (createI32 24)) (createI32 24))"
  "makeSmallIntegerWrap e Type_i16 =
     Inr (createBinary ShrI32 (createBinary ShlI32 e (createI32 16)) (createI32 16))"
  "makeSmallIntegerWrap e Type_u8 = Inr (createBinary AndI32 e (createI32 0xff))"
  "makeSmallIntegerWrap e Type_u16 = Inr (createBinary AndI32 e (createI32 0xffff))"
  "makeSmallIntegerWrap e Type_bool = Inr (createBinary AndI32 e (createI32 0x1))"
  by (simp_all add: makeSmallIntegerWrap_def Type_defs)

lemma small_is_small_integer:
  "t \<in> set smallIntegerTypes \<Longrightarrow> is_type t {SMALL, INTEGER}"
  by (auto simp: smallIntegerTypes_def is_type_def Type_defs)

lemma small_kinds:
  "t \<in> set smallIntegerTypes \<Longrightarrow> kind t \<in> {I8, I16, U8, U16, BOOL}"
  by (auto simp: smallIntegerTypes_def Type_defs)

subsection \<open>Conversions\<close>

lemma makeSmallIntegerWrap_normal_form:
  "is_type t {SMALL} \<Longrightarrow> t \<in> set integerTypes \<Longrightarrow>
     makeSmallIntegerWrap e t = Inr (smallIntegerNormalForm t e)"
  by (auto simp: integerTypes_def is_type_def Type_defs makeSmallIntegerWrap_def
      smallIntegerNormalForm_def)

lemma integerTypes_flags:
  "t \<in> set integerTypes \<Longrightarrow>
     \<not> is_type t {FLOAT} \<and> is_type t {INTEGER} \<and> kind t \<noteq> VOID
     \<and> (is_type t {SMALL} \<longrightarrow> \<not> is_type t {LONG})"
  by (auto simp: integerTypes_def is_type_def Type_defs)

text \<open>
  Claim C4. An integer-to-integer conversion inserted by \<^verbatim>\<open>convertExpression\<close> emits: from a
  long source to a target that is not long, an i64 wrap followed by the small-integer wrap if
  the target is small; from a source that is not long to a long target, a sign extension if
  the target is signed and a zero extension otherwise; in every other case the small-integer
  wrap if and only if the target is small and the source is wider, or as wide with the other
  signedness, and nothing else.
\<close>

theorem convertExpression_int_to_int:
  assumes "fromType \<in> set integerTypes" and "toType \<in> set integerTypes"
    and "conversionKind \<noteq> NONE"
  shows "snd (convertExpression isAssignableTo expr fromType toType conversionKind reportNode ct) =
     Inr (if is_type fromType {LONG} \<and> \<not> is_type toType {LONG} then
            (if is_type toType {SMALL} then smallIntegerNormalForm toType (createUnary WrapI64 expr)
             else createUnary WrapI64 expr)
          else if \<not> is_type fromType {LONG} \<and> is_type toType {LONG} then
            (if is_type toType {SIGNED} then createUnary ExtendI32 expr
             else createUnary ExtendU32 expr)
          else if is_type toType {SMALL} \<and>
                  (size fromType > size toType \<or>
                   (size fromType = size toType \<and> is_type fromType {SIGNED} \<noteq> is_type toType {SIGNED}))
          then smallIntegerNormalForm toType expr
          else expr,
          toType)"
proof -
  note f = integerTypes_flags [OF assms(1)] and t = integerTypes_flags [OF assms(2)]
  have w: "\<And>e. is_type toType {SMALL} \<Longrightarrow>
             makeSmallIntegerWrap e toType = Inr (smallIntegerNormalForm toType e)"
    by (rule makeSmallIntegerWrap_normal_form [OF _ assms(2)])
  show ?thesis
    using f t assms(3) by (simp add: convertExpression_def Let_def w)
qed

theorem convertExpression_int_to_int_witness:
  "Type_i64 \<in> set integerTypes \<and> Type_u8 \<in> set integerTypes \<and> EXPLICIT \<noteq> NONE
   \<and> snd (convertExpression (\<lambda>a b. False) (createGetLocal 0 NativeI64) Type_i64 Type_u8 EXPLICIT
            ''x as u8'' Type_i64)
       = Inr (createBinary AndI32 (createUnary WrapI64 (createGetLocal 0 NativeI64)) (createI32 0xff),
              Type_u8)"
proof -
  have a: "Type_i64 \<in> set integerTypes" and b: "Type_u8 \<in> set integerTypes"
    by (simp_all add: integerTypes_def)
  have c: "EXPLICIT \<noteq> NONE" by simp
  have l: "is_type Type_i64 {LONG}" "\<not> is_type Type_u8 {LONG}" "is_type Type_u8 {SMALL}"
    by (simp_all add: is_type_def Type_defs)
  show ?thesis
    using a b convertExpression_int_to_int [OF a b c, of "\<lambda>a b. False" "createGetLocal 0 NativeI64"
        "''x as u8''" Type_i64]
    by (simp add: l smallIntegerNormalForm_def) (simp add: Type_u8_def)
qed

subsection \<open>Operators on small integers\<close>

lemma makeSmallIntegerWrap_small_type:
  "t \<in> set smallIntegerTypes \<Longrightarrow> makeSmallIntegerWrap e t = Inr (smallIntegerNormalForm t e)"
  by (auto simp: smallIntegerTypes_def Type_defs makeSmallIntegerWrap_def smallIntegerNormalForm_def)

lemma closingWrap_selected:
  assumes "currentType st \<in> set smallIntegerTypes"
  shows "closingWrap program c e ctx True (Inr (Selected True raw, fn, st)) =
           returnCompound program c e (smallIntegerNormalForm (currentType st) raw) ctx (fn, st)"
    and "closingWrap program c e ctx False (Inr (Selected True raw, fn, st)) =
           returnCompound program c e raw ctx (fn, st)"
  using assms
  by (simp_all add: closingWrap_def small_is_small_integer makeSmallIntegerWrap_small_type)

lemma kindSwitch_small_sets_flag:
  assumes "k \<in> {I8, I16, U8, U16, BOOL}"
    and "operator \<in> {PLUS, MINUS, ASTERISK, SLASH, LESSTHAN_LESSTHAN, AMPERSAND, BAR, CARET}"
  shows "\<exists>opcode. kindSwitch operator w k left right rg =
           ([], Inr (Selected True (createBinary opcode left right)))"
  using assms by auto

lemma switchOnKind_flag:
  assumes "switchOnKind operator k left right rg (fn, st) = Inr (Selected p raw, fn1, st1)"
  shows "currentType st1 = currentType st"
    and "k \<in> {I8, I16, U8, U16, BOOL} \<Longrightarrow>
         operator \<in> {PLUS, MINUS, ASTERISK, SLASH, LESSTHAN_LESSTHAN, AMPERSAND, BAR, CARET} \<Longrightarrow> p"
proof -
  obtain ds where k: "kindSwitch operator (isWasm64 (options st)) k left right rg = (ds, Inr (Selected p raw))"
    and st1: "st1 = st\<lparr>diagnostics := diagnostics st @ ds\<rparr>"
    using assms by (auto simp: switchOnKind_def split: prod.splits sum.splits)
  show "currentType st1 = currentType st" by (simp add: st1)
  show "p" if "k \<in> {I8, I16, U8, U16, BOOL}"
    and "operator \<in> {PLUS, MINUS, ASTERISK, SLASH, LESSTHAN_LESSTHAN, AMPERSAND, BAR, CARET}"
    using kindSwitch_small_sets_flag [OF that, of "isWasm64 (options st)" left right rg] k by auto
qed

lemma arithmetic_flag:
  assumes "arithmetic program operator c w l r rg ctx s = Inr (Selected p raw, fn1, st1)"
    and "kind (currentType st1) \<in> {I8, I16, U8, U16, BOOL}"
    and "operator \<in> {PLUS, MINUS, ASTERISK, SLASH, LESSTHAN_LESSTHAN, AMPERSAND, BAR, CARET}"
  shows "p"
proof -
  obtain left right fn' st' where
    sw: "switchOnKind operator (kind (currentType st')) left right rg (fn', st')
           = Inr (Selected p raw, fn1, st1)"
    using assms(1)
    by (auto simp: arithmetic_def split: if_splits sum.splits prod.splits option.splits)
  from switchOnKind_flag [OF sw] assms(2,3) show ?thesis by simp
qed

lemma shift_flag:
  assumes "shift program operator w l r rg ctx s = Inr (Selected p raw, fn1, st1)"
    and "kind (currentType st1) \<in> {I8, I16, U8, U16, BOOL}"
    and "operator \<in> {PLUS, MINUS, ASTERISK, SLASH, LESSTHAN_LESSTHAN, AMPERSAND, BAR, CARET}"
  shows "p"
proof -
  obtain left right fn' st' where
    sw: "switchOnKind operator (kind (currentType st')) left right rg (fn', st')
           = Inr (Selected p raw, fn1, st1)"
    using assms(1)
    by (auto simp: shift_def split: if_splits sum.splits prod.splits option.splits)
  from switchOnKind_flag [OF sw] assms(2,3) show ?thesis by simp
qed

lemma logical_flag:
  assumes "logical program operator l r ctx s = Inr (Selected p raw, fn1, st1)"
  shows "p = is_type (currentType st1) {SMALL, INTEGER}"
  using assms
  by (auto simp: logical_def Let_def split: sum.splits prod.splits option.splits)

lemma binarySwitch_flag:
  assumes sw: "binarySwitch program operator l r rg ctx s = Inr (Selected p raw, fn1, st1)"
    and t: "currentType st1 \<in> set smallIntegerTypes"
    and op: "operator \<in> overflowingOperators"
  shows "p"
proof -
  note k = small_kinds [OF t]
  note a = arithmetic_flag [OF _ k] and b = shift_flag [OF _ k]
  from op consider
      "operator = PLUS" | "operator = MINUS" | "operator = ASTERISK" | "operator = SLASH"
    | "operator = LESSTHAN_LESSTHAN" | "operator = AMPERSAND" | "operator = BAR" | "operator = CARET"
    | "operator = PLUS_EQUALS" | "operator = MINUS_EQUALS" | "operator = ASTERISK_EQUALS"
    | "operator = SLASH_EQUALS" | "operator = LESSTHAN_LESSTHAN_EQUALS"
    | "operator = AMPERSAND_EQUALS" | "operator = BAR_EQUALS" | "operator = CARET_EQUALS"
    | "operator = AMPERSAND_AMPERSAND" | "operator = BAR_BAR"
    by (auto simp: overflowingOperators_def)
  then show ?thesis
  proof cases
    case 1 with sw show ?thesis by (auto dest: a) next
    case 2 with sw show ?thesis by (auto dest: a) next
    case 3 with sw show ?thesis by (auto dest: a) next
    case 4 with sw show ?thesis by (auto dest: a) next
    case 5 with sw show ?thesis by (auto dest: b) next
    case 6 with sw show ?thesis by (auto dest: a) next
    case 7 with sw show ?thesis by (auto dest: a) next
    case 8 with sw show ?thesis by (auto dest: a) next
    case 9 with sw show ?thesis by (auto dest: a) next
    case 10 with sw show ?thesis by (auto dest: a) next
    case 11 with sw show ?thesis by (auto dest: a) next
    case 12 with sw show ?thesis by (auto dest: a) next
    case 13 with sw show ?thesis by (auto dest: b) next
    case 14 with sw show ?thesis by (auto dest: a) next
    case 15 with sw show ?thesis by (auto dest: a) next
    case 16 with sw show ?thesis by (auto dest: a) next
    case 17 with sw t show ?thesis
      by (auto dest!: logical_flag simp: small_is_small_integer) next
    case 18 with sw t show ?thesis
      by (auto dest!: logical_flag simp: small_is_small_integer)
  qed
qed

lemma prefixSwitch_flag:
  assumes sw: "prefixSwitch program operator operand rg ctx s = Inr (Selected p raw, fn1, st1)"
    and t: "currentType st1 \<in> set smallIntegerTypes"
    and op: "operator \<in> {PLUS, MINUS, PLUS_PLUS, MINUS_MINUS, TILDE}"
    and lit: "operator = MINUS \<longrightarrow> \<not> isNumericLiteral program operand"
  shows "p"
proof -
  note k = small_kinds [OF t] and f = small_is_small_integer [OF t]
  from op consider "operator = PLUS" | "operator = MINUS" | "operator = PLUS_PLUS"
    | "operator = MINUS_MINUS" | "operator = TILDE" by auto
  then show ?thesis
  proof cases
    case 1 with sw f show ?thesis
      by (auto simp: refused_def split: if_splits sum.splits prod.splits)
  next
    case 2 with sw k lit show ?thesis
      by (auto simp: refused_def Let_def split: if_splits sum.splits prod.splits)
  next
    case 3 with sw k show ?thesis
      by (auto simp: refused_def Let_def split: if_splits sum.splits prod.splits)
  next
    case 4 with sw k show ?thesis
      by (auto simp: refused_def Let_def split: if_splits sum.splits prod.splits)
  next
    case 5 with sw k show ?thesis
      by (auto simp: refused_def Let_def split: if_splits sum.splits prod.splits)
  qed
qed


lemma postfix_small:
  assumes lo: "lowerOperand program operand (operandContext ctx) NONE False s = Inr (getValue, fn1, st1)"
    and t: "currentType st1 \<in> set smallIntegerTypes"
    and nr: "\<not> isReference program (currentType st1)"
    and op: "operator \<in> {PLUS_PLUS, MINUS_MINUS}"
  shows "compileUnaryPostfixExpression program operator operand rg ctx s =
     (if ctx = Type_void then
        postfixStore program operand ctx getValue NativeI32 None
          (smallIntegerNormalForm (currentType st1)
             (createBinary (if operator = PLUS_PLUS then AddI32 else SubI32) getValue (createI32 1)))
          (fn1, st1)
      else
        postfixStore program operand ctx getValue NativeI32
          (Some (fst (getTempLocal (currentType st1) fn1), currentType st1))
          (smallIntegerNormalForm (currentType st1)
             (createBinary (if operator = PLUS_PLUS then AddI32 else SubI32)
                (createGetLocal (fst (getTempLocal (currentType st1) fn1)) NativeI32) (createI32 1)))
          (snd (getTempLocal (currentType st1) fn1), st1))"
proof -
  note k = small_kinds [OF t] and f = small_is_small_integer [OF t]
  have sw: "postfixSwitch program operator (currentType st1) (isWasm64 (options st1)) =
      Inr (Chosen (if operator = PLUS_PLUS then AddI32 else SubI32) NativeI32 (createI32 1) True)"
    using k nr op by (auto simp: postfixSwitch_def Let_def)
  show ?thesis
    by (simp add: compileUnaryPostfixExpression_def lo Let_def sw f
        makeSmallIntegerWrap_small_type [OF t] split: prod.splits)
qed

lemma conversion_small:
  assumes t: "t \<in> set smallIntegerTypes" and f: "fromType \<in> set integerTypes"
    and c: "conversionKind \<noteq> NONE"
  shows "snd (convertExpression assignable expr fromType t conversionKind reportNode ct) =
     Inr (if is_type fromType {LONG} then smallIntegerNormalForm t (createUnary WrapI64 expr)
          else if size fromType > size t \<or>
                  (size fromType = size t \<and> is_type fromType {SIGNED} \<noteq> is_type t {SIGNED})
          then smallIntegerNormalForm t expr
          else expr,
          t)"
proof -
  have ti: "t \<in> set integerTypes" and ts: "is_type t {SMALL}"
    using t by (auto simp: smallIntegerTypes_def integerTypes_def is_type_def Type_defs)
  note ff = integerTypes_flags [OF f] and tf = integerTypes_flags [OF ti]
  show ?thesis
    using ff tf ts c
    by (simp add: convertExpression_def Let_def makeSmallIntegerWrap_small_type [OF t])
qed

text \<open>
  Claim C1, as amended. For every binary, unary prefix or unary postfix expression whose
  static type is a small integer (i8, i16, u8, u16, bool) and whose result may have dirty
  high bits (the switch over the operator has set \<^verbatim>\<open>possiblyOverflows\<close>, which it does for
  \<open>+\<close>, \<open>-\<close>, \<open>*\<close>, \<open>/\<close>, \<open><<\<close>, \<open>&\<close>, \<open>|\<close>, \<open>^\<close> and their compound forms, for \<open>&&\<close> and
  \<open>||\<close>, for prefix \<open>+\<close>, \<open>-\<close> (of what is no literal), \<open>++\<close>, \<open>--\<close> and \<open>~\<close>, and for postfix
  \<open>++\<close> and \<open>--\<close>), when the wrap flag is set (and always for the value that a postfix
  operator stores) the emitted expression is exactly the raw operation normalized by type:
  i8 by shift-left 24 then arithmetic shift-right 24, i16 by the same with 16, u8 by and
  0xff, u16 by and 0xffff, bool by and 0x1; that value is returned, or assigned to the target
  if the operator is compound, and without the wrap flag the raw operation is. For the
  eight binary operators the kind switch yields the raw operation with the flag set at every
  small integer type. A conversion
  from an integer type to a small integer type is normalized in the same way only if the
  source is long (after the i64 wrap), wider than the target, or as wide with the other
  signedness, and is emitted unchanged otherwise.
\<close>

theorem small_integer_operators_wrap:
  assumes "t \<in> set smallIntegerTypes"
  shows "(binarySwitch program operator l r rg ctx s = Inr (Selected p raw, fn1, st1)
            \<and> currentType st1 = t \<longrightarrow>
            (operator \<in> overflowingOperators \<longrightarrow> p)
            \<and> (p \<longrightarrow>
                 compileBinaryExpression program operator l r rg ctx True s =
                   returnCompound program (operator \<in> compoundTokens) l
                     (smallIntegerNormalForm t raw) ctx (fn1, st1)
                 \<and> compileBinaryExpression program operator l r rg ctx False s =
                   returnCompound program (operator \<in> compoundTokens) l raw ctx (fn1, st1)))
       \<and> (prefixSwitch program operator l rg ctx s = Inr (Selected p raw, fn1, st1)
            \<and> currentType st1 = t \<longrightarrow>
            (operator \<in> {PLUS, PLUS_PLUS, MINUS_MINUS, TILDE}
               \<or> operator = MINUS \<and> \<not> isNumericLiteral program l \<longrightarrow> p)
            \<and> (p \<longrightarrow>
                 compileUnaryPrefixExpression program operator l rg ctx True s =
                   returnCompound program (operator \<in> {PLUS_PLUS, MINUS_MINUS}) l
                     (smallIntegerNormalForm t raw) ctx (fn1, st1)
                 \<and> compileUnaryPrefixExpression program operator l rg ctx False s =
                   returnCompound program (operator \<in> {PLUS_PLUS, MINUS_MINUS}) l raw ctx (fn1, st1)))
       \<and> (lowerOperand program l (operandContext ctx) NONE False s = Inr (raw, fn1, st1)
            \<and> currentType st1 = t \<and> \<not> isReference program t
            \<and> operator \<in> {PLUS_PLUS, MINUS_MINUS} \<longrightarrow>
            compileUnaryPostfixExpression program operator l rg ctx s =
              (if ctx = Type_void then
                 postfixStore program l ctx raw NativeI32 None
                   (smallIntegerNormalForm t
                      (createBinary (if operator = PLUS_PLUS then AddI32 else SubI32) raw (createI32 1)))
                   (fn1, st1)
               else
                 postfixStore program l ctx raw NativeI32 (Some (fst (getTempLocal t fn1), t))
                   (smallIntegerNormalForm t
                      (createBinary (if operator = PLUS_PLUS then AddI32 else SubI32)
                         (createGetLocal (fst (getTempLocal t fn1)) NativeI32) (createI32 1)))
                   (snd (getTempLocal t fn1), st1)))
       \<and> (fromType \<in> set integerTypes \<and> conversionKind \<noteq> NONE \<longrightarrow>
            snd (convertExpression assignable expr fromType t conversionKind reportNode ct) =
              Inr (if is_type fromType {LONG} then smallIntegerNormalForm t (createUnary WrapI64 expr)
                   else if size fromType > size t \<or>
                           (size fromType = size t
                            \<and> is_type fromType {SIGNED} \<noteq> is_type t {SIGNED})
                   then smallIntegerNormalForm t expr
                   else expr,
                   t))
       \<and> (operator \<in> {PLUS, MINUS, ASTERISK, SLASH, LESSTHAN_LESSTHAN, AMPERSAND, BAR, CARET} \<longrightarrow>
            (\<exists>opcode. kindSwitch operator wasm64 (kind t) left right rg =
                        ([], Inr (Selected True (createBinary opcode left right)))))"
proof (intro conjI impI; (elim conjE)?)
  assume sw: "binarySwitch program operator l r rg ctx s = Inr (Selected p raw, fn1, st1)"
    and ct: "currentType st1 = t"
  from ct assms have t: "currentType st1 \<in> set smallIntegerTypes" by simp
  show "p" if "operator \<in> overflowingOperators"
    by (rule binarySwitch_flag [OF sw t that])
  show "compileBinaryExpression program operator l r rg ctx True s =
          returnCompound program (operator \<in> compoundTokens) l
            (smallIntegerNormalForm t raw) ctx (fn1, st1)" if p
    using closingWrap_selected(1) [OF t] that ct by (simp add: compileBinaryExpression_def sw)
  show "compileBinaryExpression program operator l r rg ctx False s =
          returnCompound program (operator \<in> compoundTokens) l raw ctx (fn1, st1)" if p
    using closingWrap_selected(2) [OF t] that by (simp add: compileBinaryExpression_def sw)
next
  assume sw: "prefixSwitch program operator l rg ctx s = Inr (Selected p raw, fn1, st1)"
    and ct: "currentType st1 = t"
  from ct assms have t: "currentType st1 \<in> set smallIntegerTypes" by simp
  show "p" if "operator \<in> {PLUS, PLUS_PLUS, MINUS_MINUS, TILDE}
               \<or> operator = MINUS \<and> \<not> isNumericLiteral program l"
    using that by (intro prefixSwitch_flag [OF sw t]) auto
  show "compileUnaryPrefixExpression program operator l rg ctx True s =
          returnCompound program (operator \<in> {PLUS_PLUS, MINUS_MINUS}) l
            (smallIntegerNormalForm t raw) ctx (fn1, st1)" if p
    using closingWrap_selected(1) [OF t] that ct by (simp add: compileUnaryPrefixExpression_def sw)
  show "compileUnaryPrefixExpression program operator l rg ctx False s =
          returnCompound program (operator \<in> {PLUS_PLUS, MINUS_MINUS}) l raw ctx (fn1, st1)" if p
    using closingWrap_selected(2) [OF t] that by (simp add: compileUnaryPrefixExpression_def sw)
next
  assume lo: "lowerOperand program l (operandContext ctx) NONE False s = Inr (raw, fn1, st1)"
    and ct: "currentType st1 = t" and nr: "\<not> isReference program t"
    and op: "operator \<in> {PLUS_PLUS, MINUS_MINUS}"
  from ct assms have t: "currentType st1 \<in> set smallIntegerTypes" by simp
  from nr ct have nr': "\<not> isReference program (currentType st1)" by simp
  show "compileUnaryPostfixExpression program operator l rg ctx s =
              (if ctx = Type_void then
                 postfixStore program l ctx raw NativeI32 None
                   (smallIntegerNormalForm t
                      (createBinary (if operator = PLUS_PLUS then AddI32 else SubI32) raw (createI32 1)))
                   (fn1, st1)
               else
                 postfixStore program l ctx raw NativeI32 (Some (fst (getTempLocal t fn1), t))
                   (smallIntegerNormalForm t
                      (createBinary (if operator = PLUS_PLUS then AddI32 else SubI32)
                         (createGetLocal (fst (getTempLocal t fn1)) NativeI32) (createI32 1)))
                   (snd (getTempLocal t fn1), st1))"
    using postfix_small [OF lo t nr' op, of rg] by (simp only: ct)
next
  assume "fromType \<in> set integerTypes" and "conversionKind \<noteq> NONE"
  then show "snd (convertExpression assignable expr fromType t conversionKind reportNode ct) =
              Inr (if is_type fromType {LONG} then smallIntegerNormalForm t (createUnary WrapI64 expr)
                   else if size fromType > size t \<or>
                           (size fromType = size t
                            \<and> is_type fromType {SIGNED} \<noteq> is_type t {SIGNED})
                   then smallIntegerNormalForm t expr
                   else expr,
                   t)"
    by (rule conversion_small [OF assms])
next
  assume "operator \<in> {PLUS, MINUS, ASTERISK, SLASH, LESSTHAN_LESSTHAN, AMPERSAND, BAR, CARET}"
  then show "\<exists>opcode. kindSwitch operator wasm64 (kind t) left right rg =
                        ([], Inr (Selected True (createBinary opcode left right)))"
    by (rule kindSwitch_small_sets_flag [OF small_kinds [OF assms]])
qed


lemma exampleOperators_fields:
  "lowerOperand exampleOperators (Expression n) t c w (fn, st) =
     (if n = 0 then Inr (createGetLocal 0 NativeI32, fn, st\<lparr>currentType := Type_u8\<rparr>)
      else Inr (createI32 (of_nat n), fn, st\<lparr>currentType := t\<rparr>))"
  "commonCompatible exampleOperators a b sg = (if a = b then Some a else None)"
  "typeIsAssignableTo exampleOperators a b = (a = b)"
  "isReference exampleOperators t = False"
  "cloneExpression exampleOperators (createGetLocal i nt) = Some (createGetLocal i nt)"
  "resolveExpression exampleOperators (Expression n) s =
     (if n = 0 then ResolvedLocal byteLocal else Unresolved)"
  "rangeOf exampleOperators (Expression n) = (if n = 0 then ''x'' else ''literal'')"
  by (simp_all add: exampleOperators_def)

lemma small_u8: "Type_u8 \<in> set smallIntegerTypes"
  by (simp add: smallIntegerTypes_def)

lemma example_types:
  "Type_u8 \<noteq> Type_void" "kind Type_u8 = U8" "is_type Type_u8 {SMALL, INTEGER}"
  "Type_i32 \<noteq> Type_u8" "Type_u8 \<noteq> Type_i32" "\<not> is_type Type_u8 {FLOAT}"
  by (simp_all add: Type_defs is_type_def)

theorem small_integer_operators_wrap_witness:
  "Type_u8 \<in> set smallIntegerTypes
   \<and> binarySwitch exampleOperators PLUS (Expression 0) (Expression 10) ''x + 10'' Type_u8 exampleScope
       = Inr (Selected True (createBinary AddI32 (createGetLocal 0 NativeI32) (createI32 10)),
              fst exampleScope, (snd exampleScope)\<lparr>currentType := Type_u8\<rparr>)
   \<and> PLUS \<in> overflowingOperators
   \<and> compileBinaryExpression exampleOperators PLUS (Expression 0) (Expression 10) ''x + 10'' Type_u8
        True exampleScope
       = Inr (createBinary AndI32
                (createBinary AddI32 (createGetLocal 0 NativeI32) (createI32 10)) (createI32 0xff),
              fst exampleScope, (snd exampleScope)\<lparr>currentType := Type_u8\<rparr>)
   \<and> compileBinaryExpression exampleOperators PLUS_EQUALS (Expression 0) (Expression 10) ''x += 10''
        Type_u8 True exampleScope
       = Inr (createTeeLocal 0
                (createBinary AndI32
                   (createBinary AddI32 (createGetLocal 0 NativeI32) (createI32 10)) (createI32 0xff)),
              fst exampleScope, (snd exampleScope)\<lparr>currentType := Type_u8\<rparr>)
   \<and> compileBinaryExpression exampleOperators BAR_BAR (Expression 0) (Expression 10) ''x || 10''
        Type_u8 True exampleScope
       = Inr (createBinary AndI32
                (createIf (createGetLocal 0 NativeI32) (createGetLocal 0 NativeI32)
                   (Some (createI32 10)))
                (createI32 0xff),
              fst exampleScope, (snd exampleScope)\<lparr>currentType := Type_u8\<rparr>)
   \<and> compileUnaryPrefixExpression exampleOperators TILDE (Expression 0) ''~x'' Type_u8 True
        exampleScope
       = Inr (createBinary AndI32
                (createBinary XorI32 (createGetLocal 0 NativeI32) (createI32 (- 1))) (createI32 0xff),
              fst exampleScope, (snd exampleScope)\<lparr>currentType := Type_u8\<rparr>)
   \<and> compileUnaryPostfixExpression exampleOperators PLUS_PLUS (Expression 0) ''x++'' Type_void
        exampleScope
       = Inr (createSetLocal 0
                (createBinary AndI32
                   (createBinary AddI32 (createGetLocal 0 NativeI32) (createI32 1)) (createI32 0xff)),
              fst exampleScope, (snd exampleScope)\<lparr>currentType := Type_void\<rparr>)
   \<and> snd (convertExpression (typeIsAssignableTo exampleOperators) (createGetLocal 1 NativeI32)
             Type_i32 Type_u8 EXPLICIT ''<u8>y'' Type_i32)
       = Inr (createBinary AndI32 (createGetLocal 1 NativeI32) (createI32 0xff), Type_u8)"
proof -
  note t = small_u8
  note wrap = small_integer_operators_wrap [OF t]
  note [simp] = exampleOperators_fields example_types
  obtain f0 c0 where es: "exampleScope = (f0, c0)"
    by (cases exampleScope)
  then have c0: "c0 = newCompiler wasm32Options"
    by (simp add: exampleScope_def)
  define st1 where "st1 = c0\<lparr>currentType := Type_u8\<rparr>"
  have ct: "currentType st1 = Type_u8" "options st1 = wasm32Options"
    "diagnostics st1 = []"
    by (simp_all add: st1_def c0 newCompiler_def)
  have nf: "\<And>e. smallIntegerNormalForm Type_u8 e = createBinary AndI32 e (createI32 0xff)"
    by (simp add: smallIntegerNormalForm_def Type_defs)
  have lo: "\<And>c w. lowerOperand exampleOperators (Expression 0) Type_u8 c w exampleScope
           = Inr (createGetLocal 0 NativeI32, f0, st1)"
    by (simp add: es st1_def)
  have lor: "\<And>c w. lowerOperand exampleOperators (Expression 10) Type_u8 c w (f0, st1)
           = Inr (createI32 10, f0, st1)"
    by (simp add: st1_def)
  have cv: "\<And>e rgn. convert exampleOperators e Type_u8 Type_u8 IMPLICIT rgn st1 = Inr (e, st1)"
    by (simp add: convert_def convertExpression_def Let_def Type_defs is_type_def st1_def)
  have same: "\<And>v. st1\<lparr>diagnostics := diagnostics st1 @ [], currentType := v\<rparr> = st1\<lparr>currentType := v\<rparr>"
    "st1\<lparr>diagnostics := diagnostics st1 @ []\<rparr> = st1" "st1\<lparr>currentType := Type_u8\<rparr> = st1"
    by (simp_all add: st1_def)
  have 1: "binarySwitch exampleOperators PLUS (Expression 0) (Expression 10) ''x + 10'' Type_u8
        exampleScope
       = Inr (Selected True (createBinary AddI32 (createGetLocal 0 NativeI32) (createI32 10)),
              f0, st1)"
    by (simp add: arithmetic_def commonOperands_def compileExpressionRetainType_def lo lor ct cv
        switchOnKind_def same)
  have 2: "binarySwitch exampleOperators PLUS_EQUALS (Expression 0) (Expression 10) ''x += 10'' Type_u8
        exampleScope
       = Inr (Selected True (createBinary AddI32 (createGetLocal 0 NativeI32) (createI32 10)),
              f0, st1)"
    by (simp add: arithmetic_def leftTypedOperands_def compileExpressionRetainType_def lo lor ct
        switchOnKind_def same)
  have 3: "binarySwitch exampleOperators BAR_BAR (Expression 0) (Expression 10) ''x || 10'' Type_u8
        exampleScope
       = Inr (Selected True (createIf (createGetLocal 0 NativeI32) (createGetLocal 0 NativeI32)
                               (Some (createI32 10))),
              f0, st1)"
    by (simp add: logical_def compileExpressionRetainType_def lo lor ct makeIsTrueish_def)
  have 4: "prefixSwitch exampleOperators TILDE (Expression 0) ''~x'' Type_u8 exampleScope
       = Inr (Selected True (createBinary XorI32 (createGetLocal 0 NativeI32) (createI32 (- 1))),
              f0, st1)"
    by (simp add: lo ct)
  have 5: "lowerOperand exampleOperators (Expression 0) (operandContext Type_void) NONE False
        exampleScope = Inr (createGetLocal 0 NativeI32, f0, st1)"
    by (simp add: es st1_def operandContext_def)
  have fl: "PLUS \<in> overflowingOperators" "PLUS \<notin> compoundTokens" "PLUS_EQUALS \<in> compoundTokens"
    "BAR_BAR \<notin> compoundTokens"
    by (simp_all add: overflowingOperators_def compoundTokens_def)
  have asg: "\<And>v tee. compileAssignmentWithValue (Program.truncate exampleOperators)
         (ResolvedLocal byteLocal) v tee ''x'' st1 =
         Inr (if tee then createTeeLocal 0 v else createSetLocal 0 v, ResolvedLocal byteLocal,
              st1\<lparr>currentType := (if tee then Type_u8 else Type_void)\<rparr>)"
    by (simp add: compileAssignmentWithValue_def Let_def byteLocal_def is_element_def)
  have r1: "\<And>v. returnCompound exampleOperators False (Expression 0) v Type_u8 (f0, st1)
         = Inr (v, f0, st1)"
    by (simp add: returnCompound_def)
  have r2: "\<And>v. returnCompound exampleOperators True (Expression 0) v Type_u8 (f0, st1)
         = Inr (createTeeLocal 0 v, f0, st1)"
    by (simp add: returnCompound_def asg same)
  have c1: "compileBinaryExpression exampleOperators PLUS (Expression 0) (Expression 10) ''x + 10''
        Type_u8 True exampleScope
       = Inr (createBinary AndI32
                (createBinary AddI32 (createGetLocal 0 NativeI32) (createI32 10)) (createI32 0xff),
              f0, st1)"
    using wrap [where program = exampleOperators and operator = PLUS and l = "Expression 0"
        and r = "Expression 10" and rg = "''x + 10''" and ctx = Type_u8 and s = exampleScope
        and p = True and ?fn1.0 = f0 and ?st1.0 = st1
        and raw = "createBinary AddI32 (createGetLocal 0 NativeI32) (createI32 10)"]
      1 ct(1) fl r1 nf
    by simp
  have c2: "compileBinaryExpression exampleOperators PLUS_EQUALS (Expression 0) (Expression 10)
        ''x += 10'' Type_u8 True exampleScope
       = Inr (createTeeLocal 0
                (createBinary AndI32
                   (createBinary AddI32 (createGetLocal 0 NativeI32) (createI32 10)) (createI32 0xff)),
              f0, st1)"
    using wrap [where program = exampleOperators and operator = PLUS_EQUALS and l = "Expression 0"
        and r = "Expression 10" and rg = "''x += 10''" and ctx = Type_u8 and s = exampleScope
        and p = True and ?fn1.0 = f0 and ?st1.0 = st1
        and raw = "createBinary AddI32 (createGetLocal 0 NativeI32) (createI32 10)"]
      2 ct(1) fl r2 nf
    by simp
  have c3: "compileBinaryExpression exampleOperators BAR_BAR (Expression 0) (Expression 10)
        ''x || 10'' Type_u8 True exampleScope
       = Inr (createBinary AndI32
                (createIf (createGetLocal 0 NativeI32) (createGetLocal 0 NativeI32)
                   (Some (createI32 10)))
                (createI32 0xff),
              f0, st1)"
    using wrap [where program = exampleOperators and operator = BAR_BAR and l = "Expression 0"
        and r = "Expression 10" and rg = "''x || 10''" and ctx = Type_u8 and s = exampleScope
        and p = True and ?fn1.0 = f0 and ?st1.0 = st1
        and raw = "createIf (createGetLocal 0 NativeI32) (createGetLocal 0 NativeI32)
                   (Some (createI32 10))"]
      3 ct(1) fl r1 nf
    by simp
  have c4: "compileUnaryPrefixExpression exampleOperators TILDE (Expression 0) ''~x'' Type_u8 True
        exampleScope
       = Inr (createBinary AndI32
                (createBinary XorI32 (createGetLocal 0 NativeI32) (createI32 (- 1))) (createI32 0xff),
              f0, st1)"
    using wrap [where program = exampleOperators and operator = TILDE and l = "Expression 0"
        and rg = "''~x''" and ctx = Type_u8 and s = exampleScope
        and p = True and ?fn1.0 = f0 and ?st1.0 = st1
        and raw = "createBinary XorI32 (createGetLocal 0 NativeI32) (createI32 (- 1))"]
      4 ct(1) r1 nf
    by simp
  have c5: "compileUnaryPostfixExpression exampleOperators PLUS_PLUS (Expression 0) ''x++'' Type_void
        exampleScope
       = Inr (createSetLocal 0
                (createBinary AndI32
                   (createBinary AddI32 (createGetLocal 0 NativeI32) (createI32 1)) (createI32 0xff)),
              f0, st1\<lparr>currentType := Type_void\<rparr>)"
    using wrap [where program = exampleOperators and operator = PLUS_PLUS and l = "Expression 0"
        and rg = "''x++''" and ctx = Type_void and s = exampleScope
        and ?fn1.0 = f0 and ?st1.0 = st1 and raw = "createGetLocal 0 NativeI32"]
      5 ct(1) nf
    by (simp add: postfixStore_def asg)
  have c6: "snd (convertExpression (typeIsAssignableTo exampleOperators) (createGetLocal 1 NativeI32)
             Type_i32 Type_u8 EXPLICIT ''<u8>y'' Type_i32)
       = Inr (createBinary AndI32 (createGetLocal 1 NativeI32) (createI32 0xff), Type_u8)"
  proof -
    have i: "Type_i32 \<in> set integerTypes \<and> EXPLICIT \<noteq> NONE"
      by (simp add: integerTypes_def)
    have g: "\<not> is_type Type_i32 {LONG}" "size Type_i32 > size Type_u8"
      by (simp_all add: Type_defs is_type_def)
    from wrap [where fromType = Type_i32 and conversionKind = EXPLICIT
        and assignable = "typeIsAssignableTo exampleOperators" and expr = "createGetLocal 1 NativeI32"
        and reportNode = "''<u8>y''" and ct = Type_i32, THEN conjunct2, THEN conjunct2,
        THEN conjunct2, THEN conjunct1]
    have "Type_i32 \<in> set integerTypes \<and> EXPLICIT \<noteq> NONE \<longrightarrow>
        snd (convertExpression (typeIsAssignableTo exampleOperators) (createGetLocal 1 NativeI32)
               Type_i32 Type_u8 EXPLICIT ''<u8>y'' Type_i32) =
          Inr (if is_type Type_i32 {LONG}
               then smallIntegerNormalForm Type_u8 (createUnary WrapI64 (createGetLocal 1 NativeI32))
               else if size Type_i32 > size Type_u8 \<or>
                       (size Type_i32 = size Type_u8
                        \<and> is_type Type_i32 {SIGNED} \<noteq> is_type Type_u8 {SIGNED})
               then smallIntegerNormalForm Type_u8 (createGetLocal 1 NativeI32)
               else createGetLocal 1 NativeI32,
               Type_u8)" .
    with i g nf show ?thesis by simp
  qed
  have v: "st1\<lparr>currentType := Type_void\<rparr> = c0\<lparr>currentType := Type_void\<rparr>"
    by (simp add: st1_def)
  have fs: "fst exampleScope = f0" "snd exampleScope = c0"
    by (simp_all add: es)
  show ?thesis
    unfolding fs
    using t 1 [unfolded st1_def] fl(1) c1 [unfolded st1_def] c2 [unfolded st1_def]
      c3 [unfolded st1_def] c4 [unfolded st1_def] c5 [unfolded v] c6
    by (intro conjI)
qed


text \<open>
  Claim C1 as stated fails for a cast from a narrower integer type: \<^verbatim>\<open><u16>x\<close> for a local
  \<open>x\<close> of type \<open>i8\<close> has the static type \<open>u16\<close> and is lowered with the wrap flag set, yet
  the read of the local is emitted as it is, not masked by 0xffff, although the value of an
  \<open>i8\<close> may have bits set above the low 16: the \<open>i8\<close> that wraps 0xff is 0xffffffff.
\<close>

theorem widening_cast_not_normalized:
  "compileIdentifierExpression (Program.truncate exampleOperators) (ResolvedLocal signedByteLocal)
       Type_u16 False ''x'' (newCompiler wasm32Options)
     = Inr (createGetLocal 0 NativeI32, ResolvedLocal signedByteLocal,
            (newCompiler wasm32Options)\<lparr>currentType := Type_i8\<rparr>)
   \<and> convertToContextualType exampleOperators (createGetLocal 0 NativeI32) Type_u16 EXPLICIT
       ''<u16>x'' ((newCompiler wasm32Options)\<lparr>currentType := Type_i8\<rparr>)
     = Inr (createGetLocal 0 NativeI32, (newCompiler wasm32Options)\<lparr>currentType := Type_u16\<rparr>)
   \<and> Type_u16 \<in> set smallIntegerTypes
   \<and> smallIntegerNormalForm Type_u16 (createGetLocal 0 NativeI32)
     = createBinary AndI32 (createGetLocal 0 NativeI32) (createI32 0xffff)
   \<and> createGetLocal 0 NativeI32 \<noteq> smallIntegerNormalForm Type_u16 (createGetLocal 0 NativeI32)
   \<and> shr (shl 0xff 24) 24 = 0xffffffff
   \<and> (0xffffffff :: 32 word) AND 0xffff \<noteq> 0xffffffff"
proof -
  have 1: "compileIdentifierExpression (Program.truncate exampleOperators)
       (ResolvedLocal signedByteLocal) Type_u16 False ''x'' (newCompiler wasm32Options)
     = Inr (createGetLocal 0 NativeI32, ResolvedLocal signedByteLocal,
            (newCompiler wasm32Options)\<lparr>currentType := Type_i8\<rparr>)"
    by (simp add: compileIdentifierExpression_def signedByteLocal_def byteLocal_def is_element_def
        toNativeType_def Type_defs)
  have 2: "convertToContextualType exampleOperators (createGetLocal 0 NativeI32) Type_u16 EXPLICIT
       ''<u16>x'' ((newCompiler wasm32Options)\<lparr>currentType := Type_i8\<rparr>)
     = Inr (createGetLocal 0 NativeI32, (newCompiler wasm32Options)\<lparr>currentType := Type_u16\<rparr>)"
    by (simp add: convertToContextualType_def convert_def convertExpression_def Let_def
        Type_defs is_type_def)
  have 3: "Type_u16 \<in> set smallIntegerTypes"
    by (simp add: smallIntegerTypes_def)
  have 4: "smallIntegerNormalForm Type_u16 (createGetLocal 0 NativeI32)
     = createBinary AndI32 (createGetLocal 0 NativeI32) (createI32 0xffff)"
    by (simp add: smallIntegerNormalForm_def Type_defs)
  have 5: "createGetLocal 0 NativeI32 \<noteq> smallIntegerNormalForm Type_u16 (createGetLocal 0 NativeI32)"
    by (simp add: 4)
  have 6: "shr (shl 0xff 24) 24 = 0xffffffff"
    by (simp add: shr_def shl_def)
  have 7: "(0xffffffff :: 32 word) AND 0xffff \<noteq> 0xffffffff"
    by simp
  show ?thesis
    by (intro conjI 1 2 3 4 5 6 7)
qed

subsection \<open>Memory layout\<close>

lemma i64_align_bounds:
  assumes "0 < a" and "v + a < 2 ^ 64"
  shows "\<exists>v'. i64_align v a = Inr v' \<and> v \<le> v' \<and> v' < v + a \<and> a dvd v'"
proof -
  let ?r = "((v + a - 1) div a) * a"
  have lo: "v \<le> ?r"
  proof -
    have "v + a - 1 < ?r + a"
      using assms(1) by (metis add.commute dividend_less_div_times mult.commute)
    then show ?thesis by simp
  qed
  have hi: "?r \<le> v + a - 1"
    by simp
  have "?r < 2 ^ 64" using hi assms by linarith
  then have "i64_align v a = Inr ?r"
    using assms(1) by (simp add: i64_align_def)
  moreover have "?r < v + a" using hi assms(1) by linarith
  ultimately show ?thesis using lo by simp
qed

lemma addMemorySegment_step:
  assumes "0 < a" and "memoryOffset st + (a + length buf) < 2 ^ 63" and len: "length buf < 2 ^ 32"
  shows "\<exists>seg st'. addMemorySegment buf a st = Inr (seg, st')
           \<and> buffer seg = buf \<and> memoryOffset st \<le> offset seg \<and> a dvd offset seg
           \<and> offset seg \<le> memoryOffset st'
           \<and> memoryOffset st' \<le> memoryOffset st + (a + length buf)
           \<and> memorySegments st' = memorySegments st @ [seg]"
proof -
  have p: "(2::nat) ^ 63 \<le> 2 ^ 64" "(2::nat) ^ 32 \<le> 2 ^ 63"
    by simp_all
  have "memoryOffset st + a < 2 ^ 64" using assms(2) p by linarith
  from i64_align_bounds [OF assms(1) this]
  obtain v' where v': "i64_align (memoryOffset st) a = Inr v'" "memoryOffset st \<le> v'"
      "v' < memoryOffset st + a" "a dvd v'"
    by blast
  have sum: "v' + length buf < 2 ^ 64" using v'(3) assms(2) p by linarith
  have "i64_add v' (i64_new (length buf) 0) = v' + length buf"
    using len sum by (simp add: i64_add_def i64_new_def)
  then show ?thesis
    using v' by (simp add: addMemorySegment_def Let_def)
qed

lemma addMemorySegments_run:
  assumes "\<forall>(buf, a) \<in> set calls. 0 < a \<and> length buf < 2 ^ 32"
    and "memoryOffset st + demand calls < 2 ^ 63"
  shows "\<exists>segs st'. addMemorySegments calls st = Inr (segs, st')
           \<and> map buffer segs = map fst calls
           \<and> sorted (map offset segs)
           \<and> (\<forall>seg \<in> set segs. memoryOffset st \<le> offset seg)
           \<and> (\<forall>i < length calls. snd (calls ! i) dvd offset (segs ! i))
           \<and> memorySegments st' = memorySegments st @ segs"
  using assms
proof (induction calls arbitrary: st)
  case Nil
  then show ?case by simp
next
  case (Cons call calls)
  obtain buf a where call: "call = (buf, a)" by (cases call)
  have a: "0 < a" and l: "length buf < 2 ^ 32" using Cons.prems(1) call by simp_all
  have d: "demand (call # calls) = (a + length buf) + demand calls"
    by (simp add: demand_def call)
  have "memoryOffset st + (a + length buf) < 2 ^ 63" using Cons.prems(2) d by simp
  from addMemorySegment_step [OF a this l]
  obtain seg st1 where step: "addMemorySegment buf a st = Inr (seg, st1)"
      "buffer seg = buf" "memoryOffset st \<le> offset seg" "a dvd offset seg"
      "offset seg \<le> memoryOffset st1" "memoryOffset st1 \<le> memoryOffset st + (a + length buf)"
      "memorySegments st1 = memorySegments st @ [seg]"
    by blast
  have "\<forall>(buf, a) \<in> set calls. 0 < a \<and> length buf < 2 ^ 32" using Cons.prems(1) by simp
  moreover have "memoryOffset st1 + demand calls < 2 ^ 63"
    using step(6) Cons.prems(2) d by simp
  ultimately obtain segs st2 where rest: "addMemorySegments calls st1 = Inr (segs, st2)"
      "map buffer segs = map fst calls" "sorted (map offset segs)"
      "\<forall>seg \<in> set segs. memoryOffset st1 \<le> offset seg"
      "\<forall>i < length calls. snd (calls ! i) dvd offset (segs ! i)"
      "memorySegments st2 = memorySegments st1 @ segs"
    using Cons.IH [of st1] by blast
  have run: "addMemorySegments (call # calls) st = Inr (seg # segs, st2)"
    by (simp add: call step(1) rest(1))
  have sorted: "sorted (map offset (seg # segs))"
    using rest(3,4) step(5) by auto
  have lower: "\<forall>s \<in> set (seg # segs). memoryOffset st \<le> offset s"
    using rest(4) step(3,5) by auto
  have aligned: "\<forall>i < length (call # calls). snd ((call # calls) ! i) dvd offset ((seg # segs) ! i)"
  proof (intro allI impI)
    fix i assume "i < length (call # calls)"
    then show "snd ((call # calls) ! i) dvd offset ((seg # segs) ! i)"
      using rest(5) step(4) call by (cases i) auto
  qed
  show ?case
    using run step(2) rest(2) sorted lower aligned rest(6) step(7) call by simp
qed

lemma newCompiler_memoryOffset:
  "memoryOffset (newCompiler opts) = max (unat (memoryBase opts)) (byteSize (usizeType opts))"
proof -
  have "unat (memoryBase opts) < 2 ^ 32"
    using unsigned_less [of "memoryBase opts"] by simp
  moreover have "byteSize (usizeType opts) < 2 ^ 32"
    by (simp add: byteSize_def usizeType_def Type_defs)
  ultimately have "max (unat (memoryBase opts)) (byteSize (usizeType opts)) < 2 ^ 32"
    by simp
  then show ?thesis
    by (simp add: newCompiler_def i64_new_def)
qed

lemma byteSize_usizeType_pos: "0 < byteSize (usizeType opts)"
  by (simp add: byteSize_def usizeType_def Type_defs)

text \<open>
  Claim C7. The memory cursor starts at the larger of \<^verbatim>\<open>memoryBase\<close> and the pointer size in
  bytes. For a sequence of \<^verbatim>\<open>addMemorySegment\<close> calls on a new compiler (positive alignments,
  buffers shorter than \<open>2 ^ 32\<close> bytes, and a total demand that leaves the 64-bit cursor
  below \<open>2 ^ 63\<close>), every call hands out a segment; the offsets are non-decreasing in call
  order, each is a multiple of the alignment asked for, and each is at least the pointer
  size, so that address 0 is never handed out.
\<close>

theorem memory_offsets_monotone_aligned:
  assumes "\<forall>(buf, a) \<in> set calls. 0 < a \<and> length buf < 2 ^ 32"
    and "memoryOffset (newCompiler opts) + demand calls < 2 ^ 63"
  shows "memoryOffset (newCompiler opts) = max (unat (memoryBase opts)) (byteSize (usizeType opts))
       \<and> (\<exists>segs st'. addMemorySegments calls (newCompiler opts) = Inr (segs, st')
             \<and> memorySegments st' = segs
             \<and> map buffer segs = map fst calls
             \<and> sorted (map offset segs)
             \<and> (\<forall>i < length calls. snd (calls ! i) dvd offset (segs ! i)
                    \<and> byteSize (usizeType opts) \<le> offset (segs ! i)
                    \<and> 0 < offset (segs ! i)))"
proof -
  from addMemorySegments_run [OF assms]
  obtain segs st' where run: "addMemorySegments calls (newCompiler opts) = Inr (segs, st')"
      "map buffer segs = map fst calls" "sorted (map offset segs)"
      "\<forall>seg \<in> set segs. memoryOffset (newCompiler opts) \<le> offset seg"
      "\<forall>i < length calls. snd (calls ! i) dvd offset (segs ! i)"
      "memorySegments st' = memorySegments (newCompiler opts) @ segs"
    by blast
  have len: "length segs = length calls"
    using run(2) by (metis length_map)
  have low: "\<forall>i < length calls. byteSize (usizeType opts) \<le> offset (segs ! i)"
  proof (intro allI impI)
    fix i assume "i < length calls"
    then have "segs ! i \<in> set segs" using len by simp
    then have "memoryOffset (newCompiler opts) \<le> offset (segs ! i)" using run(4) by blast
    then show "byteSize (usizeType opts) \<le> offset (segs ! i)"
      by (simp add: newCompiler_memoryOffset)
  qed
  have pos: "\<forall>i < length calls. 0 < offset (segs ! i)"
    using low byteSize_usizeType_pos [of opts] by (metis less_le_trans)
  have "memorySegments st' = segs"
    using run(6) by (simp add: newCompiler_def)
  then show ?thesis
    using run(1,2,3,5) low pos newCompiler_memoryOffset by blast
qed

theorem memory_offsets_monotone_aligned_witness:
  "memoryOffset (newCompiler wasm32Options) + demand exampleSegments < 2 ^ 63
   \<and> memoryOffset (newCompiler wasm32Options)
         = max (unat (memoryBase wasm32Options)) (byteSize (usizeType wasm32Options))
   \<and> (\<exists>segs st'. addMemorySegments exampleSegments (newCompiler wasm32Options) = Inr (segs, st')
             \<and> memorySegments st' = segs
             \<and> map buffer segs = map fst exampleSegments
             \<and> sorted (map offset segs)
             \<and> (\<forall>i < length exampleSegments.
                    snd (exampleSegments ! i) dvd offset (segs ! i)
                    \<and> byteSize (usizeType wasm32Options) \<le> offset (segs ! i)
                    \<and> 0 < offset (segs ! i)))"
proof -
  have m: "memoryOffset (newCompiler wasm32Options) = 4"
    by (simp add: newCompiler_def i64_new_def byteSize_def usizeType_def Type_defs wasm32Options_def)
  have h1: "\<forall>(buf, a) \<in> set exampleSegments. 0 < a \<and> length buf < 2 ^ 32"
    by (simp add: exampleSegments_def)
  have h2: "memoryOffset (newCompiler wasm32Options) + demand exampleSegments < 2 ^ 63"
    by (simp add: m demand_def exampleSegments_def)
  show ?thesis
    by (rule conjI [OF h2 memory_offsets_monotone_aligned [OF h1 h2]])
qed

lemma memory_offsets_example:
  "\<exists>st'. addMemorySegments exampleSegments (newCompiler wasm32Options)
      = Inr ([\<lparr>buffer = [1, 2, 3], offset = 8\<rparr>, \<lparr>buffer = [4], offset = 12\<rparr>], st')"
  by (simp add: addMemorySegment_def i64_align_def i64_add_def i64_new_def Let_def
      newCompiler_def byteSize_def usizeType_def Type_defs wasm32Options_def exampleSegments_def)

subsection \<open>String literals\<close>

lemma length_codeUnitBytes: "length (codeUnitBytes s) = 2 * length s"
  by (induction s) auto

lemma length_stringBuffer: "length (stringBuffer s) = 4 + 2 * length s"
  by (simp add: stringBuffer_def Let_def length_codeUnitBytes)

lemma codeUnitBytes_nth:
  "k < length s \<Longrightarrow>
     littleEndian [codeUnitBytes s ! (2 * k), codeUnitBytes s ! (2 * k + 1)] = unat (s ! k)"
proof (induction s arbitrary: k)
  case Nil
  then show ?case by simp
next
  case (Cons c cs)
  show ?case
  proof (cases k)
    case 0
    have "unat c < 2 ^ 16"
      using unsigned_less [of c] by simp
    then have "unat c div 256 < 256"
      by simp
    then have "unat (ucast c :: 8 word) + 256 * unat (ucast (drop_bit 8 c) :: 8 word) = unat c"
      by (simp add: unsigned_ucast_eq unat_drop_bit_eq take_bit_eq_mod drop_bit_eq_div
          unat_div_distrib)
    then show ?thesis using 0 by simp
  next
    case (Suc j)
    then show ?thesis using Cons by simp
  qed
qed

lemma addMemorySegment_result:
  assumes "addMemorySegment buf a st = Inr (seg, st')"
  shows "options st' = options st \<and> stringSegments st' = stringSegments st
         \<and> memorySegments st' = memorySegments st @ [seg] \<and> buffer seg = buf"
  using assms by (auto simp: addMemorySegment_def Let_def split: sum.splits)

lemma compileStaticString_known:
  assumes "compileStaticString ty s st = Inr (e, st')" and "stringSegments st s = Some seg"
  shows "e = offsetExpression (options st) (offset seg) \<and> options st' = options st
         \<and> stringSegments st' = stringSegments st \<and> memorySegments st' = memorySegments st"
  using assms
  by (auto simp: compileStaticString_def Let_def offsetExpression_def split: if_splits)

lemma compileStaticString_new:
  assumes "compileStaticString ty s st = Inr (e, st')" and "stringSegments st s = None"
  shows "\<exists>seg. e = offsetExpression (options st) (offset seg) \<and> options st' = options st
           \<and> buffer seg = stringBuffer s
           \<and> stringSegments st' = (stringSegments st)(s \<mapsto> seg)
           \<and> memorySegments st' = memorySegments st @ [seg]"
proof -
  from assms obtain seg st1 where
    add: "addMemorySegment (stringBuffer s) (byteSize (usizeType (options st))) st = Inr (seg, st1)"
    by (auto simp: compileStaticString_def split: sum.splits)
  note r = addMemorySegment_result [OF add]
  show ?thesis
    using assms add r
    by (auto simp: compileStaticString_def Let_def offsetExpression_def split: if_splits)
qed

lemma compileStaticString_step:
  assumes "compileStaticString ty s st = Inr (e, st')" and "interned st"
  shows "options st' = options st \<and> interned st'
         \<and> stringSegments st \<subseteq>\<^sub>m stringSegments st'
         \<and> dom (stringSegments st') = insert s (dom (stringSegments st))
         \<and> length (memorySegments st') =
             length (memorySegments st) + (if s \<in> dom (stringSegments st) then 0 else 1)
         \<and> (\<exists>seg. stringSegments st' s = Some seg \<and> e = offsetExpression (options st) (offset seg))"
proof (cases "stringSegments st s")
  case None
  from compileStaticString_new [OF assms(1) None]
  obtain seg where seg: "e = offsetExpression (options st) (offset seg)" "options st' = options st"
      "buffer seg = stringBuffer s" "stringSegments st' = (stringSegments st)(s \<mapsto> seg)"
      "memorySegments st' = memorySegments st @ [seg]"
    by blast
  have "interned st'"
    using assms(2) seg(3,4,5) by (auto simp: interned_def)
  moreover have "stringSegments st \<subseteq>\<^sub>m stringSegments st'"
    using None seg(4) by (auto simp: map_le_def domIff)
  ultimately show ?thesis
    using seg None by (auto simp: domIff)
next
  case (Some seg)
  from compileStaticString_known [OF assms(1) Some]
  have k: "e = offsetExpression (options st) (offset seg)" "options st' = options st"
      "stringSegments st' = stringSegments st" "memorySegments st' = memorySegments st"
    by simp_all
  have "interned st'"
    using assms(2) k(3,4) by (simp add: interned_def)
  then show ?thesis
    using k Some by (auto simp: domIff)
qed

lemma addMemorySegment_interned:
  assumes "addMemorySegment buf a st = Inr (seg, st')" and "interned st"
  shows "interned st'"
  using addMemorySegment_result [OF assms(1)] assms(2) by (auto simp: interned_def)

lemma compileStaticData_run:
  assumes "compileStaticData ty ds st = Inr (es, st')" and "interned st"
  shows "options st' = options st \<and> interned st' \<and> length es = length ds
         \<and> stringSegments st \<subseteq>\<^sub>m stringSegments st'
         \<and> dom (stringSegments st') = dom (stringSegments st) \<union> set (literals ds)
         \<and> length (memorySegments st') =
             length (memorySegments st) + directSegments ds
               + card (set (literals ds) - dom (stringSegments st))
         \<and> (\<forall>i < length ds. \<forall>s. ds ! i = StringLiteral s \<longrightarrow>
               (\<exists>seg. stringSegments st' s = Some seg
                      \<and> es ! i = Some (offsetExpression (options st) (offset seg))))"
  using assms
proof (induction ds arbitrary: es st)
  case Nil
  then show ?case by simp
next
  case (Cons d ds)
  show ?case
  proof (cases d)
    case (StringLiteral s)
    from Cons.prems(1) obtain e st1 es1 where
      c: "compileStaticString ty s st = Inr (e, st1)"
      and r: "compileStaticData ty ds st1 = Inr (es1, st')"
      and es: "es = Some e # es1"
      unfolding StringLiteral by (simp split: sum.splits prod.splits)
    from compileStaticString_step [OF c Cons.prems(2)]
    obtain seg where step: "options st1 = options st" "interned st1"
        "stringSegments st \<subseteq>\<^sub>m stringSegments st1"
        "dom (stringSegments st1) = insert s (dom (stringSegments st))"
        "length (memorySegments st1) =
           length (memorySegments st) + (if s \<in> dom (stringSegments st) then 0 else 1)"
        "stringSegments st1 s = Some seg" "e = offsetExpression (options st) (offset seg)"
      by blast
    from Cons.IH [OF r step(2)]
    have ih_o: "options st' = options st1" and ih_i: "interned st'"
      and ih_l: "length es1 = length ds"
      and ih_le: "stringSegments st1 \<subseteq>\<^sub>m stringSegments st'"
      and ih_d: "dom (stringSegments st') = dom (stringSegments st1) \<union> set (literals ds)"
      and ih_n: "length (memorySegments st') =
             length (memorySegments st1) + directSegments ds
               + card (set (literals ds) - dom (stringSegments st1))"
      and ih_e: "\<forall>i < length ds. \<forall>s. ds ! i = StringLiteral s \<longrightarrow>
               (\<exists>seg. stringSegments st' s = Some seg
                      \<and> es1 ! i = Some (offsetExpression (options st1) (offset seg)))"
      by simp_all
    have le: "stringSegments st \<subseteq>\<^sub>m stringSegments st'"
      by (rule map_le_trans [OF step(3) ih_le])
    have "s \<in> dom (stringSegments st1)" using step(6) by (simp add: domI)
    then have here: "stringSegments st' s = Some seg"
      using ih_le step(6) unfolding map_le_def by (metis)
    have count: "(if s \<in> dom (stringSegments st) then 0 else 1)
                   + card (set (literals ds) - insert s (dom (stringSegments st)))
                 = card (insert s (set (literals ds)) - dom (stringSegments st))"
    proof (cases "s \<in> dom (stringSegments st)")
      case True
      then have e: "insert s (set (literals ds)) - dom (stringSegments st)
                   = set (literals ds) - insert s (dom (stringSegments st))"
        by blast
      show ?thesis
        by (subst e) (simp only: True if_True add_0)
    next
      case False
      then have e: "insert s (set (literals ds)) - dom (stringSegments st)
                   = insert s (set (literals ds) - insert s (dom (stringSegments st)))"
        by blast
      have "card (insert s (set (literals ds) - insert s (dom (stringSegments st))))
              = Suc (card (set (literals ds) - insert s (dom (stringSegments st))))"
        by (rule card_insert_disjoint) (blast intro: finite_Diff)+
      then show ?thesis
        by (subst e) (simp only: False if_False plus_1_eq_Suc)
    qed
    have exprs: "\<forall>i < length (d # ds). \<forall>s'. (d # ds) ! i = StringLiteral s' \<longrightarrow>
                 (\<exists>seg. stringSegments st' s' = Some seg
                        \<and> es ! i = Some (offsetExpression (options st) (offset seg)))"
    proof (intro allI impI)
      fix i s'
      assume i: "i < length (d # ds)" and at: "(d # ds) ! i = StringLiteral s'"
      show "\<exists>seg. stringSegments st' s' = Some seg
                        \<and> es ! i = Some (offsetExpression (options st) (offset seg))"
      proof (cases i)
        case 0
        then have "s' = s" using at StringLiteral by simp
        then show ?thesis using 0 here step(7) es by simp
      next
        case (Suc j)
        then have "j < length ds" "ds ! j = StringLiteral s'" using i at by simp_all
        then show ?thesis using ih_e step(1) es Suc by simp
      qed
    qed
    have d: "dom (stringSegments st') = dom (stringSegments st) \<union> set (literals (d # ds))"
      unfolding ih_d step(4) StringLiteral by simp
    have n: "length (memorySegments st') =
               length (memorySegments st) + directSegments (d # ds)
                 + card (set (literals (d # ds)) - dom (stringSegments st))"
      unfolding ih_n step(4,5) StringLiteral using count by simp
    have l: "length es = length (d # ds)"
      using ih_l es by simp
    have o: "options st' = options st"
      using ih_o step(1) by simp
    show ?thesis
      by (intro conjI o ih_i l le d n exprs)
  next
    case (Segment buf alignment)
    from Cons.prems(1) obtain seg st1 es1 where
      c: "addMemorySegment buf alignment st = Inr (seg, st1)"
      and r: "compileStaticData ty ds st1 = Inr (es1, st')"
      and es: "es = None # es1"
      unfolding Segment by (simp split: sum.splits prod.splits)
    from addMemorySegment_result [OF c]
    have a: "options st1 = options st" "stringSegments st1 = stringSegments st"
      "memorySegments st1 = memorySegments st @ [seg]"
      by simp_all
    have i1: "interned st1" by (rule addMemorySegment_interned [OF c Cons.prems(2)])
    from Cons.IH [OF r i1]
    have ih_o: "options st' = options st1" and ih_i: "interned st'"
      and ih_l: "length es1 = length ds"
      and ih_le: "stringSegments st1 \<subseteq>\<^sub>m stringSegments st'"
      and ih_d: "dom (stringSegments st') = dom (stringSegments st1) \<union> set (literals ds)"
      and ih_n: "length (memorySegments st') =
             length (memorySegments st1) + directSegments ds
               + card (set (literals ds) - dom (stringSegments st1))"
      and ih_e: "\<forall>i < length ds. \<forall>s. ds ! i = StringLiteral s \<longrightarrow>
               (\<exists>seg. stringSegments st' s = Some seg
                      \<and> es1 ! i = Some (offsetExpression (options st1) (offset seg)))"
      by simp_all
    have exprs: "\<forall>i < length (d # ds). \<forall>s'. (d # ds) ! i = StringLiteral s' \<longrightarrow>
                 (\<exists>seg. stringSegments st' s' = Some seg
                        \<and> es ! i = Some (offsetExpression (options st) (offset seg)))"
    proof (intro allI impI)
      fix i s'
      assume i: "i < length (d # ds)" and at: "(d # ds) ! i = StringLiteral s'"
      show "\<exists>seg. stringSegments st' s' = Some seg
                        \<and> es ! i = Some (offsetExpression (options st) (offset seg))"
      proof (cases i)
        case 0
        then show ?thesis using at Segment by simp
      next
        case (Suc j)
        then have "j < length ds" "ds ! j = StringLiteral s'" using i at by simp_all
        then show ?thesis using ih_e a(1) es Suc by simp
      qed
    qed
    have le: "stringSegments st \<subseteq>\<^sub>m stringSegments st'"
      using ih_le a(2) by simp
    have d: "dom (stringSegments st') = dom (stringSegments st) \<union> set (literals (d # ds))"
      unfolding ih_d a(2) Segment by simp
    have n: "length (memorySegments st') =
               length (memorySegments st) + directSegments (d # ds)
                 + card (set (literals (d # ds)) - dom (stringSegments st))"
      unfolding ih_n a(2,3) Segment by simp
    have l: "length es = length (d # ds)"
      using ih_l es by simp
    have o: "options st' = options st"
      using ih_o a(1) by simp
    show ?thesis
      by (intro conjI o ih_i l le d n exprs)
  qed
qed

lemma bytes_of_nat:
  assumes "(n::nat) < 2 ^ 32"
  shows "n mod 256 + 256 * (n div 256 mod 256 + 256 * (n div 65536 mod 256
             + 256 * (n div 16777216 mod 256))) = n"
proof -
  have h: "n div 16777216 = n div 65536 div 256" "n div 65536 = n div 256 div 256"
    by (simp_all add: div_mult2_eq [symmetric])
  have a: "n div 65536 mod 256 + 256 * (n div 16777216) = n div 65536"
    unfolding h(1) by simp
  have b: "n div 256 mod 256 + 256 * (n div 65536) = n div 256"
    unfolding h(2) by simp
  have "n div 16777216 < 256" using assms by simp
  then have "n div 16777216 mod 256 = n div 16777216" by simp
  then show ?thesis by (simp add: a b)
qed

lemma littleEndian_prefix:
  assumes "length s < 2 ^ 32"
  shows "littleEndian (take 4 (stringBuffer s)) = length s"
proof -
  have m: "length s mod 4294967296 = length s" using assms by simp
  have "length s div 16777216 < 256" using assms by simp
  then have t: "length s div 16777216 mod 256 = length s div 16777216" by simp
  show ?thesis
    using bytes_of_nat [OF assms] by (simp add: stringBuffer_def Let_def unat_of_nat m t)
qed

lemma stringBuffer_units:
  assumes "k < length s"
  shows "littleEndian [stringBuffer s ! (4 + 2 * k), stringBuffer s ! (5 + 2 * k)] = unat (s ! k)"
proof -
  have "stringBuffer s ! (4 + 2 * k) = codeUnitBytes s ! (2 * k)"
    by (simp add: stringBuffer_def Let_def nth_append)
  moreover have "stringBuffer s ! (5 + 2 * k) = codeUnitBytes s ! (2 * k + 1)"
    by (simp add: stringBuffer_def Let_def nth_append)
  ultimately show ?thesis
    using codeUnitBytes_nth [OF assms] by simp
qed

lemma interned_newCompiler: "interned (newCompiler opts)"
  by (simp add: interned_def newCompiler_def)

text \<open>
  Claim C5. For the static data of a program, compiled from a new compiler: as many memory
  segments are allocated as there are segments added directly plus distinct string values,
  that is exactly one per string value; the segment of a string is 4 + 2 * length bytes
  long, begins with the length as four little-endian bytes and continues with the UTF-16 code
  units, low byte first; and every occurrence of the string evaluates to the offset of that one
  segment.
\<close>

theorem string_literals_interned:
  assumes "compileStaticData stringType ds (newCompiler opts) = Inr (es, st')"
  shows "length (memorySegments st') = directSegments ds + card (set (literals ds))
       \<and> (\<forall>s \<in> set (literals ds). \<exists>seg.
             stringSegments st' s = Some seg \<and> seg \<in> set (memorySegments st')
             \<and> buffer seg = stringBuffer s
             \<and> length (buffer seg) = 4 + 2 * length s
             \<and> (length s < 2 ^ 32 \<longrightarrow> littleEndian (take 4 (buffer seg)) = length s)
             \<and> (\<forall>k < length s.
                   littleEndian [buffer seg ! (4 + 2 * k), buffer seg ! (5 + 2 * k)] = unat (s ! k))
             \<and> (\<forall>i < length ds. ds ! i = StringLiteral s \<longrightarrow>
                   es ! i = Some (offsetExpression opts (offset seg))))"
proof -
  from compileStaticData_run [OF assms interned_newCompiler]
  have o: "options st' = options (newCompiler opts)" and i: "interned st'"
    and d: "dom (stringSegments st') = dom (stringSegments (newCompiler opts)) \<union> set (literals ds)"
    and n: "length (memorySegments st') =
             length (memorySegments (newCompiler opts)) + directSegments ds
               + card (set (literals ds) - dom (stringSegments (newCompiler opts)))"
    and e: "\<forall>i < length ds. \<forall>s. ds ! i = StringLiteral s \<longrightarrow>
               (\<exists>seg. stringSegments st' s = Some seg
                      \<and> es ! i = Some (offsetExpression (options (newCompiler opts)) (offset seg)))"
    by simp_all
  have count: "length (memorySegments st') = directSegments ds + card (set (literals ds))"
    using n by (simp add: newCompiler_def)
  have each: "\<forall>s \<in> set (literals ds). \<exists>seg.
             stringSegments st' s = Some seg \<and> seg \<in> set (memorySegments st')
             \<and> buffer seg = stringBuffer s
             \<and> length (buffer seg) = 4 + 2 * length s
             \<and> (length s < 2 ^ 32 \<longrightarrow> littleEndian (take 4 (buffer seg)) = length s)
             \<and> (\<forall>k < length s.
                   littleEndian [buffer seg ! (4 + 2 * k), buffer seg ! (5 + 2 * k)] = unat (s ! k))
             \<and> (\<forall>i < length ds. ds ! i = StringLiteral s \<longrightarrow>
                   es ! i = Some (offsetExpression opts (offset seg)))"
  proof
    fix s assume "s \<in> set (literals ds)"
    then have "s \<in> dom (stringSegments st')" using d by simp
    then obtain seg where seg: "stringSegments st' s = Some seg" by blast
    have b: "buffer seg = stringBuffer s" and m: "seg \<in> set (memorySegments st')"
      using i seg by (simp_all add: interned_def)
    have occ: "\<forall>i < length ds. ds ! i = StringLiteral s \<longrightarrow>
                   es ! i = Some (offsetExpression opts (offset seg))"
    proof (intro allI impI)
      fix i assume "i < length ds" "ds ! i = StringLiteral s"
      then obtain seg' where "stringSegments st' s = Some seg'"
          "es ! i = Some (offsetExpression (options (newCompiler opts)) (offset seg'))"
        using e by blast
      then show "es ! i = Some (offsetExpression opts (offset seg))"
        using seg by (simp add: newCompiler_def)
    qed
    show "\<exists>seg.
             stringSegments st' s = Some seg \<and> seg \<in> set (memorySegments st')
             \<and> buffer seg = stringBuffer s
             \<and> length (buffer seg) = 4 + 2 * length s
             \<and> (length s < 2 ^ 32 \<longrightarrow> littleEndian (take 4 (buffer seg)) = length s)
             \<and> (\<forall>k < length s.
                   littleEndian [buffer seg ! (4 + 2 * k), buffer seg ! (5 + 2 * k)] = unat (s ! k))
             \<and> (\<forall>i < length ds. ds ! i = StringLiteral s \<longrightarrow>
                   es ! i = Some (offsetExpression opts (offset seg)))"
      using seg m b occ littleEndian_prefix [of s] stringBuffer_units [of _ s]
      by (intro exI [of _ seg]) (simp add: length_stringBuffer)
  qed
  show ?thesis
    by (rule conjI [OF count each])
qed

lemma hello_twice:
  "\<exists>st'. compileStaticData None [StringLiteral hello, StringLiteral hello] (newCompiler wasm32Options)
           = Inr ([Some (createI32 4), Some (createI32 4)], st')
         \<and> memorySegments st' =
             [\<lparr>buffer = [5, 0, 0, 0, 0x68, 0, 0x65, 0, 0x6c, 0, 0x6c, 0, 0x6f, 0], offset = 4\<rparr>]"
  by (simp add: compileStaticString_def addMemorySegment_def stringBuffer_def hello_def
      i64_align_def i64_add_def i64_new_def i64_low_def i64_is_i32_def Let_def
      newCompiler_def wasm32Options_def isWasm64_def byteSize_def usizeType_def Type_defs)

theorem string_literals_interned_witness:
  "\<exists>es st'. compileStaticData None [StringLiteral hello, StringLiteral hello] (newCompiler wasm32Options)
              = Inr (es, st')
     \<and> (length (memorySegments st')
           = directSegments [StringLiteral hello, StringLiteral hello]
             + card (set (literals [StringLiteral hello, StringLiteral hello]))
       \<and> (\<forall>s \<in> set (literals [StringLiteral hello, StringLiteral hello]). \<exists>seg.
             stringSegments st' s = Some seg \<and> seg \<in> set (memorySegments st')
             \<and> buffer seg = stringBuffer s
             \<and> length (buffer seg) = 4 + 2 * length s
             \<and> (length s < 2 ^ 32 \<longrightarrow> littleEndian (take 4 (buffer seg)) = length s)
             \<and> (\<forall>k < length s.
                   littleEndian [buffer seg ! (4 + 2 * k), buffer seg ! (5 + 2 * k)] = unat (s ! k))
             \<and> (\<forall>i < length [StringLiteral hello, StringLiteral hello].
                   [StringLiteral hello, StringLiteral hello] ! i = StringLiteral s \<longrightarrow>
                   es ! i = Some (offsetExpression wasm32Options (offset seg)))))"
proof -
  from hello_twice obtain st' where
    run: "compileStaticData None [StringLiteral hello, StringLiteral hello] (newCompiler wasm32Options)
            = Inr ([Some (createI32 4), Some (createI32 4)], st')"
    by blast
  note c = string_literals_interned [OF run]
  show ?thesis
    by (rule exI [of _ "[Some (createI32 4), Some (createI32 4)]"], rule exI [of _ st'],
        rule conjI [OF run c])
qed

subsection \<open>Globals: inlined constants and assignment\<close>

lemma compileGlobal_K:
  "compileGlobal programK constantK (newCompiler wasm32Options) =
     Inr (True, compiledK,
          addGlobal ''K'' NativeI32 False (createI32 200)
            ((newCompiler wasm32Options)\<lparr>currentType := Type_u8\<rparr>))"
  by (simp add: compileGlobal_def resolveGlobalType_def evaluateGlobalInitializer_def
      emitGlobal_def constantK_def compiledK_def programK_def Let_def
      is_element_def set_element_def Type_defs toNativeType_def i64_new_def insert_commute)

lemma K_not_builtin: "\<not> is_element constantK BUILTIN"
  by (simp add: constantK_def is_element_def)

lemma read_K_retained:
  "map_sum id fst (compileIdentifierExpression programK (ResolvedGlobal constantK) Type_i16 True ''K''
                     (newCompiler wasm32Options)) = Inr (createI32 200)"
  by (simp add: compileIdentifierExpression_def K_not_builtin compileGlobal_K)
     (simp add: compileInlineConstant_def compiledK_def constantK_def is_element_def Let_def
        Type_defs is_type_def computeSmallIntegerMask_def shr_u_def i64_low_def
        mask_eq_exp_minus_1)

text \<open>
  Claim C6. A read of a global marked \<^verbatim>\<open>INLINED\<close> lowers to a literal constant and never to a
  get-global (\<open>inlined_global_read_is_literal\<close> below), and with its type retained the
  literal is the cached constant normalized to the declared type. Read in a wider integer
  context the literal is not always that: the \<open>u8\<close> constant 200 of \<^verbatim>\<open>const K: u8 = 200\<close>,
  read where an \<open>i16\<close> is expected, lowers to the literal -56, the shift of the element's
  type applied under the signed case of the contextual kind, where the declared type gives
  200, as does the conversion of a \<open>u8\<close> that is not inlined (\<open>convert_u8_to_i16\<close>).
\<close>

theorem inlined_u8_read_in_i16_context:
  "map_sum id fst (compileIdentifierExpression programK (ResolvedGlobal constantK) Type_i16 False ''K''
                     (newCompiler wasm32Options)) = Inr (createI32 (- 56))"
  by (simp add: compileIdentifierExpression_def K_not_builtin compileGlobal_K)
     (simp add: compileInlineConstant_def compiledK_def constantK_def is_element_def Let_def
        Type_defs is_type_def computeSmallIntegerShift_def shl_def shr_def i64_low_def)

lemma convert_u8_to_i16:
  "snd (convertExpression isAssignableTo (createGetGlobal ''K'' NativeI32) Type_u8 Type_i16 IMPLICIT
          ''K'' Type_u8) = Inr (createGetGlobal ''K'' NativeI32, Type_i16)"
  by (simp add: convertExpression_def Let_def Type_defs is_type_def)

lemma compileInlineConstant_isConst:
  "compileInlineConstant element contextualType retainType st = Inr (e, st') \<Longrightarrow> isConst e"
  by (auto simp: compileInlineConstant_def Let_def split: if_splits)

lemma resolveGlobalType_keeps:
  assumes "resolveGlobalType program g st = Inr r"
  shows "case r of
           Inl (compiled, g', st') \<Rightarrow> elementFlags g' = elementFlags g \<and> internalName g' = internalName g
         | Inr (g', e, st') \<Rightarrow> elementFlags g' = elementFlags g \<and> internalName g' = internalName g"
  using assms
  by (auto simp: resolveGlobalType_def Let_def split: if_splits option.splits sum.splits)

lemma cacheConstantValue_keeps:
  "cacheConstantValue g e = Inr g' \<Longrightarrow>
     elementFlags g' = elementFlags g \<and> internalName g' = internalName g \<and> type g' = type g"
  by (cases "(g, e)" rule: cacheConstantValue.cases) auto

lemma emitGlobal_keeps:
  assumes "emitGlobal g e i st = Inr (compiled, g', st')"
  shows "compiled \<and> elementFlags g \<subseteq> elementFlags g' \<and> internalName g' = internalName g
         \<and> type g' = type g"
  using assms
  by (auto simp: emitGlobal_def Let_def set_element_def
      split: if_splits sum.splits dest: cacheConstantValue_keeps)

lemma compileGlobal_keeps:
  assumes "compileGlobal program g st = Inr (compiled, g', st')"
  shows "elementFlags g \<subseteq> elementFlags g' \<and> internalName g' = internalName g"
proof (cases "is_element g COMPILED \<or> is_element g BUILTIN")
  case True
  then show ?thesis using assms by (auto simp: compileGlobal_def)
next
  case False
  let ?g1 = "set_element COMPILED g"
  have g1: "elementFlags g \<subseteq> elementFlags ?g1" "internalName ?g1 = internalName g"
    by (auto simp: set_element_def)
  from assms False obtain r where r: "resolveGlobalType program ?g1 st = Inr r"
    by (auto simp: compileGlobal_def split: sum.splits)
  note k = resolveGlobalType_keeps [OF r]
  show ?thesis
  proof (cases r)
    case (Inl u)
    then show ?thesis
      using assms False r k g1 by (auto simp: compileGlobal_def)
  next
    case (Inr v)
    obtain g2 e0 st2 where v: "v = (g2, e0, st2)" by (cases v)
    have g2: "elementFlags g2 = elementFlags ?g1" "internalName g2 = internalName ?g1"
      using k Inr v by simp_all
    show ?thesis
    proof (cases "is_element g2 DECLARED")
      case True
      then show ?thesis
        using assms False r Inr v g1 g2
        by (auto simp: compileGlobal_def set_element_def split: if_splits)
    next
      case nd: False
      from assms False r Inr v nd obtain e i st3 where
        ev: "evaluateGlobalInitializer program g2 e0 st2 = Inr (e, i, st3)"
        and em: "emitGlobal g2 e i st3 = Inr (compiled, g', st')"
        by (auto simp: compileGlobal_def split: sum.splits)
      from emitGlobal_keeps [OF em] show ?thesis
        using g1 g2 by auto
    qed
  qed
qed

lemma inlined_global_read_is_literal:
  assumes "is_element g INLINED" and "\<not> is_element g BUILTIN"
    and "compileIdentifierExpression program (ResolvedGlobal g) contextualType retain rg st
           = Inr (e, r, st')"
  shows "isConst e \<or> e = createUnreachable"
proof -
  from assms(2,3) obtain c g' st1 where cg: "compileGlobal program g st = Inr (c, g', st1)"
    by (auto simp: compileIdentifierExpression_def split: sum.splits)
  have "is_element g' INLINED"
    using compileGlobal_keeps [OF cg] assms(1) by (auto simp: is_element_def)
  then show ?thesis
    using assms(2,3) cg
    by (auto simp: compileIdentifierExpression_def split: if_splits sum.splits
        dest: compileInlineConstant_isConst)
qed

lemma compileGlobal_U:
  "compileGlobal programK constantU (newCompiler wasm32Options) =
     Inr (False, set_element COMPILED constantU, newCompiler wasm32Options)"
  by (simp add: compileGlobal_def resolveGlobalType_def constantU_def constantK_def programK_def
      is_element_def set_element_def Type_defs)

lemma compileGlobal_compiled:
  "is_element g COMPILED \<Longrightarrow> compileGlobal program g st = Inr (True, g, st)"
  by (simp add: compileGlobal_def)

lemma constant_global_rejected:
  assumes "is_element g CONSTANT" and "compileGlobal program g st = Inr (True, g', st')"
    and "type g' \<noteq> Type_void"
  shows "compileAssignmentWithValue program (ResolvedGlobal g) v tee rg st =
           Inr (createUnreachable, ResolvedGlobal g',
                error Cannot_assign_to_0_because_it_is_a_constant_or_a_read_only_property rg
                  (st'\<lparr>currentType := (if tee then type g' else Type_void)\<rparr>))"
proof -
  have "is_element g' CONSTANT"
    using compileGlobal_keeps [OF assms(2)] assms(1) by (auto simp: is_element_def)
  then show ?thesis
    using assms(2,3) by (simp add: compileAssignmentWithValue_def Let_def)
qed

text \<open>
  Claim C10, as amended. An assignment to a local carrying the \<^verbatim>\<open>CONSTANT\<close> flag, or to a
  global carrying it that \<^verbatim>\<open>compileGlobal\<close> compiles (or has compiled) to a concrete type,
  reports "Cannot assign to ... because it is a constant or a read-only property" and
  returns an unreachable expression: no set-local, tee-local or set-global. Where
  \<^verbatim>\<open>compileGlobal\<close> fails for the global, the unreachable expression is returned behind
  that guard, with no diagnostic of the assignment.
\<close>

theorem constant_assignment_rejected:
  "(is_element l CONSTANT \<longrightarrow>
      compileAssignmentWithValue program (ResolvedLocal l) v tee rg st =
        Inr (createUnreachable, ResolvedLocal l,
             error Cannot_assign_to_0_because_it_is_a_constant_or_a_read_only_property rg
               (st\<lparr>currentType := (if tee then type l else Type_void)\<rparr>)))
   \<and> (is_element g CONSTANT \<and> compileGlobal program g st = Inr (True, g', st')
        \<and> type g' \<noteq> Type_void \<longrightarrow>
      compileAssignmentWithValue program (ResolvedGlobal g) v tee rg st =
        Inr (createUnreachable, ResolvedGlobal g',
             error Cannot_assign_to_0_because_it_is_a_constant_or_a_read_only_property rg
               (st'\<lparr>currentType := (if tee then type g' else Type_void)\<rparr>)))
   \<and> (compileGlobal program g st = Inr (False, g', st') \<longrightarrow>
      compileAssignmentWithValue program (ResolvedGlobal g) v tee rg st =
        Inr (createUnreachable, ResolvedGlobal g', st'))"
proof (intro conjI impI)
  assume "is_element l CONSTANT"
  then show "compileAssignmentWithValue program (ResolvedLocal l) v tee rg st =
        Inr (createUnreachable, ResolvedLocal l,
             error Cannot_assign_to_0_because_it_is_a_constant_or_a_read_only_property rg
               (st\<lparr>currentType := (if tee then type l else Type_void)\<rparr>))"
    by (simp add: compileAssignmentWithValue_def Let_def)
next
  assume "is_element g CONSTANT \<and> compileGlobal program g st = Inr (True, g', st')
            \<and> type g' \<noteq> Type_void"
  then show "compileAssignmentWithValue program (ResolvedGlobal g) v tee rg st =
        Inr (createUnreachable, ResolvedGlobal g',
             error Cannot_assign_to_0_because_it_is_a_constant_or_a_read_only_property rg
               (st'\<lparr>currentType := (if tee then type g' else Type_void)\<rparr>))"
    using constant_global_rejected by blast
next
  assume "compileGlobal program g st = Inr (False, g', st')"
  then show "compileAssignmentWithValue program (ResolvedGlobal g) v tee rg st =
        Inr (createUnreachable, ResolvedGlobal g', st')"
    by (simp add: compileAssignmentWithValue_def)
qed

theorem constant_assignment_rejected_witness:
  "is_element constantLocal CONSTANT
   \<and> compileAssignmentWithValue programK (ResolvedLocal constantLocal) (createI32 1) False ''x = 1''
        (newCompiler wasm32Options) =
       Inr (createUnreachable, ResolvedLocal constantLocal,
            error Cannot_assign_to_0_because_it_is_a_constant_or_a_read_only_property ''x = 1''
              ((newCompiler wasm32Options)\<lparr>currentType := Type_void\<rparr>))
   \<and> is_element compiledK CONSTANT
   \<and> compileGlobal programK compiledK (newCompiler wasm32Options)
       = Inr (True, compiledK, newCompiler wasm32Options)
   \<and> type compiledK \<noteq> Type_void
   \<and> compileAssignmentWithValue programK (ResolvedGlobal compiledK) (createI32 1) False ''K = 1''
        (newCompiler wasm32Options) =
       Inr (createUnreachable, ResolvedGlobal compiledK,
            error Cannot_assign_to_0_because_it_is_a_constant_or_a_read_only_property ''K = 1''
              ((newCompiler wasm32Options)\<lparr>currentType := Type_void\<rparr>))
   \<and> compileGlobal programK constantU (newCompiler wasm32Options)
       = Inr (False, set_element COMPILED constantU, newCompiler wasm32Options)
   \<and> compileAssignmentWithValue programK (ResolvedGlobal constantU) (createI32 1) False ''U = 1''
        (newCompiler wasm32Options) =
       Inr (createUnreachable, ResolvedGlobal (set_element COMPILED constantU),
            newCompiler wasm32Options)"
proof -
  have l: "is_element constantLocal CONSTANT"
    by (simp add: constantLocal_def is_element_def)
  have k: "is_element compiledK CONSTANT" "is_element compiledK COMPILED"
    and t: "type compiledK \<noteq> Type_void"
    by (simp_all add: compiledK_def is_element_def Type_defs)
  note c = compileGlobal_compiled [OF k(2), of programK "newCompiler wasm32Options"]
  note u = compileGlobal_U
  from constant_assignment_rejected [of constantLocal programK "createI32 1" False "''x = 1''"
      "newCompiler wasm32Options"] l
  have 1: "compileAssignmentWithValue programK (ResolvedLocal constantLocal) (createI32 1) False ''x = 1''
        (newCompiler wasm32Options) =
       Inr (createUnreachable, ResolvedLocal constantLocal,
            error Cannot_assign_to_0_because_it_is_a_constant_or_a_read_only_property ''x = 1''
              ((newCompiler wasm32Options)\<lparr>currentType := Type_void\<rparr>))"
    by simp
  from constant_assignment_rejected [of _ programK _ _ _ "newCompiler wasm32Options" compiledK
      compiledK "newCompiler wasm32Options"] k(1) c t
  have 2: "compileAssignmentWithValue programK (ResolvedGlobal compiledK) (createI32 1) False ''K = 1''
        (newCompiler wasm32Options) =
       Inr (createUnreachable, ResolvedGlobal compiledK,
            error Cannot_assign_to_0_because_it_is_a_constant_or_a_read_only_property ''K = 1''
              ((newCompiler wasm32Options)\<lparr>currentType := Type_void\<rparr>))"
    by simp
  from constant_assignment_rejected [of _ programK _ _ _ "newCompiler wasm32Options" constantU
      "set_element COMPILED constantU" "newCompiler wasm32Options"] u
  have 3: "compileAssignmentWithValue programK (ResolvedGlobal constantU) (createI32 1) False ''U = 1''
        (newCompiler wasm32Options) =
       Inr (createUnreachable, ResolvedGlobal (set_element COMPILED constantU),
            newCompiler wasm32Options)"
    by simp
  show ?thesis
    by (intro conjI l 1 k(1) c t 2 u 3)
qed

text \<open>
  Claim C10 as stated fails for a constant global that \<^verbatim>\<open>compileGlobal\<close> cannot compile:
  on the first visit the assignment returns the unreachable expression with no diagnostic of
  its own, and on a later visit the assertion on the type of the global fails.
\<close>

theorem constant_global_assignment_counterexample:
  "is_element constantU CONSTANT
   \<and> compileAssignmentWithValue programK (ResolvedGlobal constantU) (createI32 1) False ''U = 1''
        (newCompiler wasm32Options) =
       Inr (createUnreachable, ResolvedGlobal (set_element COMPILED constantU),
            newCompiler wasm32Options)
   \<and> diagnostics (newCompiler wasm32Options) = []
   \<and> is_element (set_element COMPILED constantU) CONSTANT
   \<and> compileAssignmentWithValue programK (ResolvedGlobal (set_element COMPILED constantU))
        (createI32 1) False ''U = 1'' (newCompiler wasm32Options) =
       Inl (AssertionError ''concrete type expected'')"
proof -
  have a: "is_element constantU CONSTANT" "is_element (set_element COMPILED constantU) CONSTANT"
    "is_element (set_element COMPILED constantU) COMPILED"
    "type (set_element COMPILED constantU) = Type_void"
    by (simp_all add: constantU_def constantK_def is_element_def set_element_def)
  have 1: "compileAssignmentWithValue programK (ResolvedGlobal constantU) (createI32 1) False ''U = 1''
        (newCompiler wasm32Options) =
       Inr (createUnreachable, ResolvedGlobal (set_element COMPILED constantU),
            newCompiler wasm32Options)"
    by (simp add: compileAssignmentWithValue_def compileGlobal_U)
  have 2: "compileAssignmentWithValue programK (ResolvedGlobal (set_element COMPILED constantU))
        (createI32 1) False ''U = 1'' (newCompiler wasm32Options) =
       Inl (AssertionError ''concrete type expected'')"
    by (simp add: compileAssignmentWithValue_def compileGlobal_compiled [OF a(3)] a(4))
  have 3: "diagnostics (newCompiler wasm32Options) = []"
    by (simp add: newCompiler_def)
  show ?thesis
    by (intro conjI a(1) 1 3 a(2) 2)
qed

lemma sameFrame_refl [simp]: "sameFrame f f"
  by (simp add: sameFrame_def)

lemma sameFrame_trans: "sameFrame f g \<Longrightarrow> sameFrame g h \<Longrightarrow> sameFrame f h"
  by (simp add: sameFrame_def)

lemma sameFrame_set [simp]: "sameFrame f (flow_set x g) = sameFrame f g"
  by (simp add: sameFrame_def flow_set_def)

lemma simple_statements_frame:
  "compileBreakStatement l (fn, st) = Inr (e, fn', st') \<Longrightarrow> sameFrame (flow fn) (flow fn')"
  "compileContinueStatement l (fn, st) = Inr (e, fn', st') \<Longrightarrow> sameFrame (flow fn) (flow fn')"
  "compileExpressionStatement program x (fn, st) = Inr (e, fn', st') \<Longrightarrow> sameFrame (flow fn) (flow fn')"
  "compileReturnStatement program v (fn, st) = Inr (e, fn', st') \<Longrightarrow> sameFrame (flow fn) (flow fn')"
  "compileThrowStatement (fn, st) = Inr (e, fn', st') \<Longrightarrow> sameFrame (flow fn) (flow fn')"
  "compileVoidStatement program x (fn, st) = Inr (e, fn', st') \<Longrightarrow> sameFrame (flow fn) (flow fn')"
  by (auto simp: compileBreakStatement_def compileContinueStatement_def
      compileExpressionStatement_def compileReturnStatement_def compileThrowStatement_def
      compileVoidStatement_def setFlow_def
      split: option.splits sum.splits if_splits)

lemma frame_label_facts [simp]:
  "sameFrame f (setLabels b c g) = (parent g = parent f \<and> b = breakLabel f \<and> c = continueLabel f)"
  "parent (enterBranchOrScope f) = Some f"
  "breakLabel (enterBranchOrScope f) = breakLabel f"
  "continueLabel (enterBranchOrScope f) = continueLabel f"
  "parent (setLabels b c g) = parent g"
  "breakLabel (setLabels b c g) = b"
  "continueLabel (setLabels b c g) = c"
  by (auto simp: sameFrame_def setLabels_def enterBranchOrScope_def)

lemma leave_frame:
  "sameFrame f g \<Longrightarrow> parent f = Some p \<Longrightarrow> leaveBranchOrScope g = Inr p"
  by (simp add: sameFrame_def leaveBranchOrScope_def)

lemma function_updates_flow [simp]:
  "flow (leaveBreakContext fn) = flow fn"
  "flow (snd (enterBreakContext fn)) = flow fn"
  "flow (snd (getTempLocal t fn)) = flow fn"
  "flow (freeTempLocal t i fn) = flow fn"
  "flow (setFlow x fn) = flow_set x (flow fn)"
  by (auto simp: leaveBreakContext_def enterBreakContext_def getTempLocal_def freeTempLocal_def
      setFlow_def split: option.splits)

lemma frame_preserved:
  "\<forall>e fn' st'. compileStatement program s x = Inr (e, fn', st') \<longrightarrow> sameFrame (flow (fst x)) (flow fn')"
  "\<forall>es fn' st'. compileStatements program ss y = Inr (es, fn', st') \<longrightarrow> sameFrame (flow (fst y)) (flow fn')"
  "\<forall>r fn' st'. switchCases program ctx n i cs blk ar z = Inr (r, fn', st')
      \<longrightarrow> sameFrame (flow (fst z)) (flow fn')"
proof (induct program s x and program ss y and program ctx n i cs blk ar z
    rule: compileStatement_compileStatements_switchCases.induct)
  case (1 program ss fn st)
  show ?case
  proof (intro allI impI)
    fix e fn' st'
    assume a: "compileStatement program (BLOCK ss) (fn, st) = Inr (e, fn', st')"
    then obtain stmts fn1 st1 where
      c: "compileStatements program ss (fn\<lparr>flow := enterBranchOrScope (flow fn)\<rparr>, st) = Inr (stmts, fn1, st1)"
      by (simp split: sum.splits prod.splits)
    from 1 c have f: "sameFrame (enterBranchOrScope (flow fn)) (flow fn1)"
      by simp
    have l: "leaveBranchOrScope (flow fn1) = Inr (flow fn)"
      by (rule leave_frame [OF f]) simp
    from a c l show "sameFrame (flow (fst (fn, st))) (flow fn')"
      by (auto simp: Let_def split: if_splits)
  qed
next
  case (2 program l s)
  then show ?case by (cases s) (auto dest: simple_statements_frame)
next
  case (3 program l s)
  then show ?case by (cases s) (auto dest: simple_statements_frame)
next
  case (4 program statement cond fn st)
  show ?case
  proof (intro allI impI)
    fix e fn' st'
    assume a: "compileStatement program (DO statement cond) (fn, st) = Inr (e, fn', st')"
    obtain c fn1 where en: "enterBreakContext fn = (c, fn1)" by (cases "enterBreakContext fn")
    have f1: "flow fn1 = flow fn" using function_updates_flow(2) [of fn] en by simp
    from a en obtain bodyExpr fn2 st2 where
      b: "compileStatement program statement
            (fn1\<lparr>flow := setLabels (Some (''break|'' @ c)) (Some (''continue|'' @ c)) (flow fn1)\<rparr>, st)
          = Inr (bodyExpr, fn2, st2)"
      by (simp add: Let_def split: sum.splits prod.splits)
    from 4 [OF en [symmetric] refl refl refl refl] b
    have f: "sameFrame (setLabels (Some (''break|'' @ c)) (Some (''continue|'' @ c)) (flow fn1)) (flow fn2)"
      by simp
    from a en b f f1 show "sameFrame (flow (fst (fn, st))) (flow fn')"
      by (auto simp: Let_def sameFrame_def split: sum.splits)
  qed
next
  case (5 program fn st)
  then show ?case by simp
next
  case (6 program e s)
  then show ?case by (cases s) (auto dest: simple_statements_frame)
next
  case (7 program initializer' cond incrementor statement fn st)
  show ?case
  proof (intro allI impI)
    fix e fn' st'
    assume a: "compileStatement program (FOR initializer' cond incrementor statement) (fn, st)
                 = Inr (e, fn', st')"
    obtain c fn0 where en: "enterBreakContext fn = (c, fn0)" by (cases "enterBreakContext fn")
    have f0: "flow fn0 = flow fn" using function_updates_flow(2) [of fn] en by simp
    let ?fn1 = "fn0\<lparr>flow := setLabels (Some (''break|'' @ c)) (Some (''continue|'' @ c))
                                 (enterBranchOrScope (flow fn0))\<rparr>"
    from a en obtain initExpr fn2 st2 where
      i: "(case initializer' of None \<Rightarrow> Inr (createNop, ?fn1, st)
           | Some i \<Rightarrow> compileStatement program i (?fn1, st)) = Inr (initExpr, fn2, st2)"
      by (simp add: Let_def cong: option.case_cong split: sum.splits prod.splits)
    have f2: "sameFrame (flow ?fn1) (flow fn2)"
    proof (cases initializer')
      case None
      then show ?thesis using i by auto
    next
      case (Some x)
      from 7(1) [OF en [symmetric] refl refl refl Some] i Some show ?thesis by simp
    qed
    from a en i obtain condition st3 where
      co: "(case cond of None \<Rightarrow> Inr (createI32 1, st2)
            | Some c \<Rightarrow> lowerExpression program c Type_i32 IMPLICIT True st2) = Inr (condition, st3)"
      by (simp add: Let_def cong: option.case_cong split: sum.splits prod.splits)
    from a en i co obtain incrExpr st4 where
      inc: "(case incrementor of None \<Rightarrow> Inr (createNop, st3)
             | Some c \<Rightarrow> lowerExpression program c Type_void IMPLICIT True st3) = Inr (incrExpr, st4)"
      by (simp add: Let_def cong: option.case_cong split: sum.splits prod.splits)
    from a en i co inc obtain bodyExpr fn5 st5 where
      b: "compileStatement program statement (fn2, st4) = Inr (bodyExpr, fn5, st5)"
      by (simp add: Let_def cong: option.case_cong split: sum.splits prod.splits)
    from 7(2) [OF en [symmetric] refl refl refl i refl refl co refl inc refl] b
    have f5: "sameFrame (flow fn2) (flow fn5)" by simp
    have "sameFrame (flow ?fn1) (flow fn5)" by (rule sameFrame_trans [OF f2 f5])
    then have l: "leaveBranchOrScope (flow fn5) = Inr (flow fn0)"
      by (rule leave_frame) simp
    from a en i co inc b l f0 show "sameFrame (flow (fst (fn, st))) (flow fn')"
      by (auto simp: Let_def cong: option.case_cong split: if_splits)
  qed
next
  case (8 program cond ifTrue ifFalse fn st)
  show ?case
  proof (intro allI impI)
    fix e fn' st'
    assume a: "compileStatement program (IF cond ifTrue ifFalse) (fn, st) = Inr (e, fn', st')"
    then obtain condExpr st1 where
      lo: "lowerExpression program cond Type_i32 NONE True st = Inr (condExpr, st1)"
      by (simp split: sum.splits prod.splits)
    from a lo obtain condition where mk: "makeIsTrueish condExpr (currentType st1) = Inr condition"
      by (simp split: sum.splits)
    from a lo mk obtain ifTrueExpr fn2 st2 where
      t: "compileStatement program ifTrue (fn\<lparr>flow := enterBranchOrScope (flow fn)\<rparr>, st1)
            = Inr (ifTrueExpr, fn2, st2)"
      by (simp split: sum.splits prod.splits)
    from 8(1) [OF lo refl mk] t have f2: "sameFrame (enterBranchOrScope (flow fn)) (flow fn2)"
      by simp
    have l2: "leaveBranchOrScope (flow fn2) = Inr (flow fn)"
      by (rule leave_frame [OF f2]) simp
    show "sameFrame (flow (fst (fn, st))) (flow fn')"
    proof (cases ifFalse)
      case None
      with a lo mk t l2 show ?thesis by (auto simp: Let_def split: if_splits)
    next
      case (Some f)
      with a lo mk t l2 obtain ifFalseExpr fn4 st4 where
        ff: "compileStatement program f
               ((fn2\<lparr>flow := flow fn\<rparr>)\<lparr>flow := enterBranchOrScope (flow (fn2\<lparr>flow := flow fn\<rparr>))\<rparr>, st2)
             = Inr (ifFalseExpr, fn4, st4)"
        by (simp add: Let_def split: sum.splits prod.splits)
      from 8(2) [OF lo refl mk t refl refl refl l2 refl Some] ff
      have f4: "sameFrame (enterBranchOrScope (flow fn)) (flow fn4)" by simp
      have l4: "leaveBranchOrScope (flow fn4) = Inr (flow fn)"
        by (rule leave_frame [OF f4]) simp
      from a lo mk t l2 Some ff l4 show ?thesis by (auto simp: Let_def split: if_splits)
    qed
  qed
next
  case (9 program v s)
  then show ?case by (cases s) (auto dest: simple_statements_frame)
next
  case (10 program cond cs fn st)
  show ?case
  proof (intro allI impI)
    fix e fn' st'
    assume a: "compileStatement program (SWITCH cond cs) (fn, st) = Inr (e, fn', st')"
    obtain c fn1 where en: "enterBreakContext fn = (c, fn1)" by (cases "enterBreakContext fn")
    obtain t fn2 where gt: "getTempLocal Type_u32 fn1 = (t, fn2)" by (cases "getTempLocal Type_u32 fn1")
    have f2: "flow fn2 = flow fn"
      using function_updates_flow(2) [of fn] function_updates_flow(3) [of Type_u32 fn1] en gt by simp
    from a en gt obtain condExpr st1 where
      lo: "lowerExpression program cond Type_u32 IMPLICIT True st = Inr (condExpr, st1)"
      by (simp split: sum.splits prod.splits)
    from a en gt lo obtain caseBreaks defaultIndex st2 where
      sb: "switchBreaks program c t cs 0 st1 = Inr (caseBreaks, defaultIndex, st2)"
      by (simp split: sum.splits prod.splits)
    from a en gt lo sb obtain r fn4 st4 where
      sc: "switchCases program c (length cs) 0 cs
             (createBlock (Some (''case0|'' @ c))
                (createSetLocal t condExpr # caseBreaks @
                 [createBreak ((case defaultIndex of None \<Rightarrow> ''break''
                                | Some d \<Rightarrow> ''case'' @ decimal d) @ ''|'' @ c) None])
                (Some NativeNone))
             True (freeTempLocal Type_u32 t fn2, st2) = Inr (r, fn4, st4)"
      by (simp add: Let_def split: sum.splits prod.splits)
    from 10 [OF en [symmetric] gt [symmetric] lo refl sb refl refl refl refl refl] sc
    have "sameFrame (flow fn2) (flow fn4)" by simp
    with a en gt lo sb sc f2 show "sameFrame (flow (fst (fn, st))) (flow fn')"
      by (auto simp: Let_def split: if_splits prod.splits)
  qed
next
  case (11 program e s)
  then show ?case by (cases s) (auto dest: simple_statements_frame)
next
  case (12 program s)
  then show ?case by simp
next
  case (13 program v fn st)
  then show ?case by (auto split: option.splits)
next
  case (14 program e s)
  then show ?case by (cases s) (auto dest: simple_statements_frame)
next
  case (15 program cond statement fn st)
  show ?case
  proof (intro allI impI)
    fix e fn' st'
    assume a: "compileStatement program (WHILE cond statement) (fn, st) = Inr (e, fn', st')"
    then obtain condExpr st1 where
      lo: "lowerExpression program cond Type_i32 NONE True st = Inr (condExpr, st1)"
      by (simp split: sum.splits prod.splits)
    from a lo obtain condition where mk: "makeIsTrueish condExpr (currentType st1) = Inr condition"
      by (simp split: sum.splits)
    obtain c fn0 where en: "enterBreakContext fn = (c, fn0)" by (cases "enterBreakContext fn")
    have f0: "flow fn0 = flow fn" using function_updates_flow(2) [of fn] en by simp
    let ?fn1 = "fn0\<lparr>flow := setLabels (Some (''break|'' @ c)) (Some (''continue|'' @ c))
                                 (enterBranchOrScope (flow fn0))\<rparr>"
    from a lo mk en obtain bodyExpr fn2 st2 where
      b: "compileStatement program statement (?fn1, st1) = Inr (bodyExpr, fn2, st2)"
      by (simp add: Let_def split: sum.splits prod.splits)
    from 15 [OF lo refl mk en [symmetric] refl refl refl] b
    have "sameFrame (flow ?fn1) (flow fn2)" by simp
    then have l: "leaveBranchOrScope (flow fn2) = Inr (flow fn0)"
      by (rule leave_frame) simp
    from a lo mk en b l f0 show "sameFrame (flow (fst (fn, st))) (flow fn')"
      by (auto simp: Let_def)
  qed
next
  case (16 program fn st)
  then show ?case by (auto split: if_splits)
next
  case (17 program s)
  then show ?case by simp
next
  case (18 program fn st)
  then show ?case by simp
next
  case (19 program statement ss fn st)
  then show ?case
    by (auto split: sum.splits intro: sameFrame_trans)
next
  case (20 program ctx numCases i currentBlock alwaysReturns fn st)
  then show ?case by simp
next
  case (21 program ctx numCases i l ss cs currentBlock alwaysReturns fn st)
  show ?case
  proof (intro allI impI)
    fix r fn' st'
    assume a: "switchCases program ctx numCases i (SwitchCase l ss # cs) currentBlock alwaysReturns (fn, st)
                 = Inr (r, fn', st')"
    let ?fn1 = "fn\<lparr>flow := setLabels (Some (''break|'' @ ctx)) (continueLabel (flow fn))
                               (enterBranchOrScope (flow fn))\<rparr>"
    from a obtain stmts fn2 st2 where
      c: "compileStatements program ss (?fn1, st) = Inr (stmts, fn2, st2)"
      by (simp add: Let_def split: sum.splits prod.splits)
    from 21(1) [OF refl refl refl refl] c have "sameFrame (flow ?fn1) (flow fn2)" by simp
    then have l: "leaveBranchOrScope (flow fn2) = Inr (flow fn)"
      by (rule leave_frame) simp
    from a c l 21(2) [OF refl refl refl refl c refl refl refl l]
    show "sameFrame (flow (fst (fn, st))) (flow fn')"
      by (cases r) (auto simp: Let_def cong: if_cong)
  qed
qed

lemma sameElement_refl [simp]: "sameElement fn fn"
  by (simp add: sameElement_def)

lemma sameElement_trans: "sameElement f g \<Longrightarrow> sameElement g h \<Longrightarrow> sameElement f h"
  by (simp add: sameElement_def)

lemma sameElement_updates [simp]:
  "sameElement fn (fn'\<lparr>flow := f\<rparr>) = sameElement fn fn'"
  "sameElement (fn\<lparr>flow := f\<rparr>) fn' = sameElement fn fn'"
  "sameElement fn (leaveBreakContext fn') = sameElement fn fn'"
  "sameElement fn (freeTempLocal t i fn') = sameElement fn fn'"
  "sameElement (freeTempLocal t i fn) fn' = sameElement fn fn'"
  "sameElement fn (setFlow x fn') = sameElement fn fn'"
  "sameElement (snd (enterBreakContext fn)) fn' = sameElement fn fn'"
  "sameElement (snd (getTempLocal t fn)) fn' = sameElement fn fn'"
  by (auto simp: sameElement_def leaveBreakContext_def freeTempLocal_def setFlow_def
      enterBreakContext_def getTempLocal_def split: option.splits)

lemma simple_statements_element:
  "compileBreakStatement l (fn, st) = Inr (e, fn', st') \<Longrightarrow> sameElement fn fn'"
  "compileContinueStatement l (fn, st) = Inr (e, fn', st') \<Longrightarrow> sameElement fn fn'"
  "compileExpressionStatement program x (fn, st) = Inr (e, fn', st') \<Longrightarrow> sameElement fn fn'"
  "compileReturnStatement program v (fn, st) = Inr (e, fn', st') \<Longrightarrow> sameElement fn fn'"
  "compileThrowStatement (fn, st) = Inr (e, fn', st') \<Longrightarrow> sameElement fn fn'"
  "compileVoidStatement program x (fn, st) = Inr (e, fn', st') \<Longrightarrow> sameElement fn fn'"
  by (auto simp: compileBreakStatement_def compileContinueStatement_def
      compileExpressionStatement_def compileReturnStatement_def compileThrowStatement_def
      compileVoidStatement_def
      split: option.splits sum.splits if_splits)

lemma element_preserved:
  "\<forall>e fn' st'. compileStatement program s x = Inr (e, fn', st') \<longrightarrow> sameElement (fst x) fn'"
  "\<forall>es fn' st'. compileStatements program ss y = Inr (es, fn', st') \<longrightarrow> sameElement (fst y) fn'"
  "\<forall>r fn' st'. switchCases program ctx n i cs blk ar z = Inr (r, fn', st')
      \<longrightarrow> sameElement (fst z) fn'"
proof (induct program s x and program ss y and program ctx n i cs blk ar z
    rule: compileStatement_compileStatements_switchCases.induct)
  case (1 program ss fn st)
  show ?case
  proof (intro allI impI)
    fix e fn' st'
    assume a: "compileStatement program (BLOCK ss) (fn, st) = Inr (e, fn', st')"
    then obtain stmts fn1 st1 where
      c: "compileStatements program ss (fn\<lparr>flow := enterBranchOrScope (flow fn)\<rparr>, st) = Inr (stmts, fn1, st1)"
      by (simp split: sum.splits prod.splits)
    from 1 c have f: "sameElement fn fn1" by simp
    from a c f show "sameElement (fst (fn, st)) fn'"
      by (auto simp: Let_def split: sum.splits if_splits)
  qed
next
  case (2 program l s)
  then show ?case by (cases s) (auto dest: simple_statements_element)
next
  case (3 program l s)
  then show ?case by (cases s) (auto dest: simple_statements_element)
next
  case (4 program statement cond fn st)
  show ?case
  proof (intro allI impI)
    fix e fn' st'
    assume a: "compileStatement program (DO statement cond) (fn, st) = Inr (e, fn', st')"
    obtain c fn1 where en: "enterBreakContext fn = (c, fn1)" by (cases "enterBreakContext fn")
    have e1: "\<And>g. sameElement fn1 g = sameElement fn g"
      using sameElement_updates(7) [of fn] en by simp
    from a en obtain bodyExpr fn2 st2 where
      b: "compileStatement program statement
            (fn1\<lparr>flow := setLabels (Some (''break|'' @ c)) (Some (''continue|'' @ c)) (flow fn1)\<rparr>, st)
          = Inr (bodyExpr, fn2, st2)"
      by (simp add: Let_def split: sum.splits prod.splits)
    from 4 [OF en [symmetric] refl refl refl refl] b e1 have f: "sameElement fn fn2" by simp
    from a en b f show "sameElement (fst (fn, st)) fn'"
      by (auto simp: Let_def split: sum.splits)
  qed
next
  case (5 program fn st)
  then show ?case by simp
next
  case (6 program e s)
  then show ?case by (cases s) (auto dest: simple_statements_element)
next
  case (7 program initializer' cond incrementor statement fn st)
  show ?case
  proof (intro allI impI)
    fix e fn' st'
    assume a: "compileStatement program (FOR initializer' cond incrementor statement) (fn, st)
                 = Inr (e, fn', st')"
    obtain c fn0 where en: "enterBreakContext fn = (c, fn0)" by (cases "enterBreakContext fn")
    have e0: "\<And>g. sameElement fn0 g = sameElement fn g"
      using sameElement_updates(7) [of fn] en by simp
    let ?fn1 = "fn0\<lparr>flow := setLabels (Some (''break|'' @ c)) (Some (''continue|'' @ c))
                                 (enterBranchOrScope (flow fn0))\<rparr>"
    from a en obtain initExpr fn2 st2 where
      i: "(case initializer' of None \<Rightarrow> Inr (createNop, ?fn1, st)
           | Some i \<Rightarrow> compileStatement program i (?fn1, st)) = Inr (initExpr, fn2, st2)"
      by (simp add: Let_def cong: option.case_cong split: sum.splits prod.splits)
    have f2: "sameElement fn fn2"
    proof (cases initializer')
      case None
      then show ?thesis using i e0 [of fn0] by auto
    next
      case (Some x)
      from 7(1) [OF en [symmetric] refl refl refl Some] i Some e0 show ?thesis by simp
    qed
    from a en i obtain condition st3 where
      co: "(case cond of None \<Rightarrow> Inr (createI32 1, st2)
            | Some c \<Rightarrow> lowerExpression program c Type_i32 IMPLICIT True st2) = Inr (condition, st3)"
      by (simp add: Let_def cong: option.case_cong split: sum.splits prod.splits)
    from a en i co obtain incrExpr st4 where
      inc: "(case incrementor of None \<Rightarrow> Inr (createNop, st3)
             | Some c \<Rightarrow> lowerExpression program c Type_void IMPLICIT True st3) = Inr (incrExpr, st4)"
      by (simp add: Let_def cong: option.case_cong split: sum.splits prod.splits)
    from a en i co inc obtain bodyExpr fn5 st5 where
      b: "compileStatement program statement (fn2, st4) = Inr (bodyExpr, fn5, st5)"
      by (simp add: Let_def cong: option.case_cong split: sum.splits prod.splits)
    from 7(2) [OF en [symmetric] refl refl refl i refl refl co refl inc refl] b
    have f5: "sameElement fn2 fn5" by simp
    have f: "sameElement fn fn5" by (rule sameElement_trans [OF f2 f5])
    from a en i co inc b f show "sameElement (fst (fn, st)) fn'"
      by (auto simp: Let_def cong: option.case_cong split: sum.splits if_splits)
  qed
next
  case (8 program cond ifTrue ifFalse fn st)
  show ?case
  proof (intro allI impI)
    fix e fn' st'
    assume a: "compileStatement program (IF cond ifTrue ifFalse) (fn, st) = Inr (e, fn', st')"
    then obtain condExpr st1 where
      lo: "lowerExpression program cond Type_i32 NONE True st = Inr (condExpr, st1)"
      by (simp split: sum.splits prod.splits)
    from a lo obtain condition where mk: "makeIsTrueish condExpr (currentType st1) = Inr condition"
      by (simp split: sum.splits)
    from a lo mk obtain ifTrueExpr fn2 st2 where
      t: "compileStatement program ifTrue (fn\<lparr>flow := enterBranchOrScope (flow fn)\<rparr>, st1)
            = Inr (ifTrueExpr, fn2, st2)"
      by (simp split: sum.splits prod.splits)
    from 8(1) [OF lo refl mk] t have f2: "sameElement fn fn2" by simp
    from a lo mk t obtain p where l2: "leaveBranchOrScope (flow fn2) = Inr p"
      by (simp add: Let_def split: sum.splits)
    show "sameElement (fst (fn, st)) fn'"
    proof (cases ifFalse)
      case None
      with a lo mk t l2 f2 show ?thesis by (auto simp: Let_def split: if_splits)
    next
      case (Some f)
      with a lo mk t l2 obtain ifFalseExpr fn4 st4 where
        ff: "compileStatement program f
               ((fn2\<lparr>flow := p\<rparr>)\<lparr>flow := enterBranchOrScope (flow (fn2\<lparr>flow := p\<rparr>))\<rparr>, st2)
             = Inr (ifFalseExpr, fn4, st4)"
        by (simp add: Let_def split: sum.splits prod.splits)
      from 8(2) [OF lo refl mk t refl refl refl l2 refl Some] ff
      have f4: "sameElement fn2 fn4" by simp
      have "sameElement fn fn4" by (rule sameElement_trans [OF f2 f4])
      with a lo mk t l2 Some ff show ?thesis
        by (auto simp: Let_def split: sum.splits if_splits)
    qed
  qed
next
  case (9 program v s)
  then show ?case by (cases s) (auto dest: simple_statements_element)
next
  case (10 program cond cs fn st)
  show ?case
  proof (intro allI impI)
    fix e fn' st'
    assume a: "compileStatement program (SWITCH cond cs) (fn, st) = Inr (e, fn', st')"
    obtain c fn1 where en: "enterBreakContext fn = (c, fn1)" by (cases "enterBreakContext fn")
    obtain t fn2 where gt: "getTempLocal Type_u32 fn1 = (t, fn2)" by (cases "getTempLocal Type_u32 fn1")
    have e2: "\<And>g. sameElement fn2 g = sameElement fn g"
      using sameElement_updates(7) [of fn] sameElement_updates(8) [of Type_u32 fn1] en gt by simp
    from a en gt obtain condExpr st1 where
      lo: "lowerExpression program cond Type_u32 IMPLICIT True st = Inr (condExpr, st1)"
      by (simp split: sum.splits prod.splits)
    from a en gt lo obtain caseBreaks defaultIndex st2 where
      sb: "switchBreaks program c t cs 0 st1 = Inr (caseBreaks, defaultIndex, st2)"
      by (simp split: sum.splits prod.splits)
    from a en gt lo sb obtain r fn4 st4 where
      sc: "switchCases program c (length cs) 0 cs
             (createBlock (Some (''case0|'' @ c))
                (createSetLocal t condExpr # caseBreaks @
                 [createBreak ((case defaultIndex of None \<Rightarrow> ''break''
                                | Some d \<Rightarrow> ''case'' @ decimal d) @ ''|'' @ c) None])
                (Some NativeNone))
             True (freeTempLocal Type_u32 t fn2, st2) = Inr (r, fn4, st4)"
      by (simp add: Let_def split: sum.splits prod.splits)
    from 10 [OF en [symmetric] gt [symmetric] lo refl sb refl refl refl refl refl] sc e2
    have "sameElement fn fn4" by simp
    with a en gt lo sb sc show "sameElement (fst (fn, st)) fn'"
      by (auto simp: Let_def split: if_splits prod.splits)
  qed
next
  case (11 program e s)
  then show ?case by (cases s) (auto dest: simple_statements_element)
next
  case (12 program s)
  then show ?case by simp
next
  case (13 program v fn st)
  then show ?case by (auto split: option.splits)
next
  case (14 program e s)
  then show ?case by (cases s) (auto dest: simple_statements_element)
next
  case (15 program cond statement fn st)
  show ?case
  proof (intro allI impI)
    fix e fn' st'
    assume a: "compileStatement program (WHILE cond statement) (fn, st) = Inr (e, fn', st')"
    then obtain condExpr st1 where
      lo: "lowerExpression program cond Type_i32 NONE True st = Inr (condExpr, st1)"
      by (simp split: sum.splits prod.splits)
    from a lo obtain condition where mk: "makeIsTrueish condExpr (currentType st1) = Inr condition"
      by (simp split: sum.splits)
    obtain c fn0 where en: "enterBreakContext fn = (c, fn0)" by (cases "enterBreakContext fn")
    have e0: "\<And>g. sameElement fn0 g = sameElement fn g"
      using sameElement_updates(7) [of fn] en by simp
    let ?fn1 = "fn0\<lparr>flow := setLabels (Some (''break|'' @ c)) (Some (''continue|'' @ c))
                                 (enterBranchOrScope (flow fn0))\<rparr>"
    from a lo mk en obtain bodyExpr fn2 st2 where
      b: "compileStatement program statement (?fn1, st1) = Inr (bodyExpr, fn2, st2)"
      by (simp add: Let_def split: sum.splits prod.splits)
    from 15 [OF lo refl mk en [symmetric] refl refl refl] b e0
    have "sameElement fn fn2" by simp
    with a lo mk en b show "sameElement (fst (fn, st)) fn'"
      by (auto simp: Let_def split: sum.splits)
  qed
next
  case (16 program fn st)
  then show ?case by (auto split: if_splits)
next
  case (17 program s)
  then show ?case by simp
next
  case (18 program fn st)
  then show ?case by simp
next
  case (19 program statement ss fn st)
  then show ?case
    by (auto split: sum.splits intro: sameElement_trans)
next
  case (20 program ctx numCases i currentBlock alwaysReturns fn st)
  then show ?case by simp
next
  case (21 program ctx numCases i l ss cs currentBlock alwaysReturns fn st)
  show ?case
  proof (intro allI impI)
    fix r fn' st'
    assume a: "switchCases program ctx numCases i (SwitchCase l ss # cs) currentBlock alwaysReturns (fn, st)
                 = Inr (r, fn', st')"
    let ?fn1 = "fn\<lparr>flow := setLabels (Some (''break|'' @ ctx)) (continueLabel (flow fn))
                               (enterBranchOrScope (flow fn))\<rparr>"
    from a obtain stmts fn2 st2 where
      c: "compileStatements program ss (?fn1, st) = Inr (stmts, fn2, st2)"
      by (simp add: Let_def split: sum.splits prod.splits)
    from 21(1) [OF refl refl refl refl] c have f2: "sameElement fn fn2" by simp
    from a c obtain p where l: "leaveBranchOrScope (flow fn2) = Inr p"
      by (simp add: Let_def split: sum.splits)
    from a c l 21(2) [OF refl refl refl refl c refl refl refl l] f2
    show "sameElement (fst (fn, st)) fn'"
      by (cases r) (auto simp: Let_def sameElement_def cong: if_cong)
  qed
qed

lemma element_flag_set [simp]:
  "is_element (set_element f e) g = (g = f \<or> is_element e g)"
  "signature (set_element f fn) = signature fn"
  "prototype (set_element f fn) = prototype fn"
  "internalName (set_element f fn) = internalName fn"
  "flow (set_element f fn) = flow fn"
  by (auto simp: is_element_def set_element_def)

lemma compileStatement_element:
  "compileStatement program s (fn, st) = Inr (e, fn', st') \<Longrightarrow> sameElement fn fn'"
  using element_preserved(1) [of program s "(fn, st)"] by simp

lemma compileStatement_frame:
  "compileStatement program s (fn, st) = Inr (e, fn', st') \<Longrightarrow> sameFrame (flow fn) (flow fn')"
  using frame_preserved(1) [of program s "(fn, st)"] by simp

text \<open>
  Claim C3. A function that is compiled with a body (it is not yet \<^verbatim>\<open>COMPILED\<close> and not a
  builtin), whose declared return type is not \<open>void\<close> and whose body lowers, is finalized on
  the flow the body leaves behind. If that flow does not prove that all paths return, then
  \<^verbatim>\<open>compileFunction\<close> still returns \<open>true\<close>: it reports the error "A function whose declared
  type is not 'void' must return a value" at the range of the declared return type, as the last
  diagnostic, and it adds the function to the module under its internal name, with the
  lowered body.
\<close>

theorem missing_return_reported:
  assumes "\<not> is_element instance COMPILED"
    and "\<not> is_element instance BUILTIN"
    and "functionBody (prototype instance) = Some b"
    and "returnType (signature instance) \<noteq> Type_void"
    and "returnTypeRange (prototype instance) = Some r"
    and "compileStatement program b
           (set_element COMPILED instance,
            if is_element instance DECLARED
            then error An_implementation_cannot_be_declared_in_ambient_contexts
                   (declaredName (prototype instance)) st
            else st) = Inr (stmt, instance', st2)"
    and "\<not> finalize (flow instance')"
  shows "\<exists>st'. compileFunction program instance st = Inr (True, instance', st')
           \<and> diagnostics st' = diagnostics st2 @
                 [report ERROR A_function_whose_declared_type_is_not_void_must_return_a_value r]
           \<and> moduleFunctions (module st') = moduleFunctions (module st2) @
                 [\<lparr>name = internalName instance,
                   params = fst (ensureFunctionType (signature instance)),
                   result = snd (ensureFunctionType (signature instance)),
                   locals = map toNativeType (additionalLocals instance'),
                   body = stmt\<rparr>]"
proof -
  from assms(6) have "sameElement (set_element COMPILED instance) instance'"
    by (rule compileStatement_element)
  then have same: "signature instance' = signature instance"
    "internalName instance' = internalName instance"
    by (simp_all add: sameElement_def)
  show ?thesis
    using assms same
    by (simp add: compileFunction_def Let_def addFunction_def addFunctionExport_def error_def
        cong: if_cong split del: if_split) simp
qed

theorem missing_return_reported_witness:
  "\<exists>instance' st'.
      compileFunction exampleLowering (exampleFunction ''f'' [] 0 [] (BLOCK []))
        (newCompiler wasm32Options) = Inr (True, instance', st')
    \<and> diagnostics st' =
        [report ERROR A_function_whose_declared_type_is_not_void_must_return_a_value ''i32'']
    \<and> map name (moduleFunctions (module st')) = [''f'']"
proof -
  let ?f = "exampleFunction ''f'' [] 0 [] (BLOCK [])"
  have c: "compileStatement exampleLowering (BLOCK [])
             (set_element COMPILED ?f,
              if is_element ?f DECLARED
              then error An_implementation_cannot_be_declared_in_ambient_contexts
                     (declaredName (prototype ?f)) (newCompiler wasm32Options)
              else newCompiler wasm32Options)
           = Inr (createBlock None [] (Some NativeNone), set_element COMPILED ?f,
                  newCompiler wasm32Options)"
    by (simp add: exampleFunction_def is_element_def set_element_def enterBranchOrScope_def
        leaveBranchOrScope_def flow_is_def Let_def)
  have nf: "\<not> finalize (flow (set_element COMPILED ?f))"
    by (simp add: exampleFunction_def finalize_def flow_is_def)
  have p: "\<not> is_element ?f COMPILED" "\<not> is_element ?f BUILTIN"
    "functionBody (prototype ?f) = Some (BLOCK [])"
    "returnType (signature ?f) \<noteq> Type_void"
    "returnTypeRange (prototype ?f) = Some ''i32''"
    by (simp_all add: exampleFunction_def is_element_def Type_i32_def Type_void_def)
  from missing_return_reported [OF p c nf] obtain st' where
    r: "compileFunction exampleLowering ?f (newCompiler wasm32Options)
          = Inr (True, set_element COMPILED ?f, st')"
      "diagnostics st' = diagnostics (newCompiler wasm32Options) @
         [report ERROR A_function_whose_declared_type_is_not_void_must_return_a_value ''i32'']"
      "moduleFunctions (module st') = moduleFunctions (module (newCompiler wasm32Options)) @
         [\<lparr>name = internalName ?f,
           params = fst (ensureFunctionType (signature ?f)),
           result = snd (ensureFunctionType (signature ?f)),
           locals = map toNativeType (additionalLocals (set_element COMPILED ?f)),
           body = createBlock None [] (Some NativeNone)\<rparr>]"
    by blast
  show ?thesis
    by (rule exI [of _ "set_element COMPILED ?f"], rule exI [of _ st'])
      (simp add: r, simp add: newCompiler_def exampleFunction_def)
qed

lemma compileStatements_frame:
  "compileStatements program ss (fn, st) = Inr (es, fn', st') \<Longrightarrow> sameFrame (flow fn) (flow fn')"
  using frame_preserved(2) [of program ss "(fn, st)"] by simp

lemma compileStatements_append:
  "compileStatements program ss (fn, st) = Inr (es, fn1, st1) \<Longrightarrow>
   compileStatement program s (fn1, st1) = Inr (e, fn2, st2) \<Longrightarrow>
   compileStatements program (ss @ [s]) (fn, st) = Inr (es @ [e], fn2, st2)"
proof (induction ss arbitrary: fn st es)
  case Nil
  then show ?case by simp
next
  case (Cons x xs)
  from Cons.prems(1) obtain y fn0 st0 ys where
    x: "compileStatement program x (fn, st) = Inr (y, fn0, st0)"
    and xs: "compileStatements program xs (fn0, st0) = Inr (ys, fn1, st1)"
    and es: "es = y # ys"
    by (auto split: sum.splits)
  from Cons.IH [OF xs Cons.prems(2)] x es show ?case by simp
qed

lemma flow_flag_facts [simp]:
  "flow_is (flow_set x f) y = (y = x \<or> flow_is f y)"
  "parent (flow_set x f) = parent f"
  "breakLabel (flow_set x f) = breakLabel f"
  "continueLabel (flow_set x f) = continueLabel f"
  by (auto simp: flow_is_def flow_set_def)

lemma for_without_condition_lowered:
  assumes en: "enterBreakContext fn = (c, fn0)"
    and init: "(case initializer' of
                  None \<Rightarrow>
                    Inr (createNop,
                         fn0\<lparr>flow := setLabels (Some (''break|'' @ c)) (Some (''continue|'' @ c))
                                          (enterBranchOrScope (flow fn0))\<rparr>, st)
                | Some i \<Rightarrow>
                    compileStatement program i
                      (fn0\<lparr>flow := setLabels (Some (''break|'' @ c)) (Some (''continue|'' @ c))
                                       (enterBranchOrScope (flow fn0))\<rparr>, st))
               = Inr (initExpr, fn2, st2)"
    and inc: "(case incrementor of
                 None \<Rightarrow> Inr (createNop, st2)
               | Some e \<Rightarrow> lowerExpression program e Type_void IMPLICIT True st2)
              = Inr (incrExpr, st4)"
    and body: "compileStatement program statement (fn2, st4) = Inr (bodyExpr, fn5, st5)"
  shows "compileStatement program (FOR initializer' None incrementor statement) (fn, st) =
           (if flow_is (flow fn5) RETURNS
            then Inr (createBlock None
                        [createBlock (Some (''break|'' @ c))
                           [initExpr,
                            createLoop (''continue|'' @ c)
                              (createBlock None
                                 [createIf (createI32 1)
                                    (createBlock None
                                       [bodyExpr, incrExpr, createBreak (''continue|'' @ c) None]
                                       (Some NativeNone))
                                    None]
                                 (Some NativeNone))]
                           (Some NativeNone),
                         createUnreachable]
                        None,
                      setFlow RETURNS (leaveBreakContext (fn5\<lparr>flow := flow fn\<rparr>)), st5)
            else Inr (createBlock (Some (''break|'' @ c))
                        [initExpr,
                         createLoop (''continue|'' @ c)
                           (createBlock None
                              [createIf (createI32 1)
                                 (createBlock None
                                    [bodyExpr, incrExpr, createBreak (''continue|'' @ c) None]
                                    (Some NativeNone))
                                 None]
                              (Some NativeNone))]
                        (Some NativeNone),
                      leaveBreakContext (fn5\<lparr>flow := flow fn\<rparr>), st5))"
proof -
  let ?fn1 = "fn0\<lparr>flow := setLabels (Some (''break|'' @ c)) (Some (''continue|'' @ c))
                               (enterBranchOrScope (flow fn0))\<rparr>"
  have f0: "flow fn0 = flow fn" using function_updates_flow(2) [of fn] en by simp
  have f2: "sameFrame (flow ?fn1) (flow fn2)"
  proof (cases initializer')
    case None
    with init show ?thesis by auto
  next
    case (Some i)
    with init show ?thesis by (auto dest: compileStatement_frame)
  qed
  have f5: "sameFrame (flow fn2) (flow fn5)" using body by (rule compileStatement_frame)
  have "sameFrame (flow ?fn1) (flow fn5)" by (rule sameFrame_trans [OF f2 f5])
  then have l: "leaveBranchOrScope (flow fn5) = Inr (flow fn)"
    using f0 by (simp add: leave_frame)
  from en init inc body l show ?thesis
    by (simp add: Let_def cong: option.case_cong)
qed

lemma function_ending_in_return:
  assumes "\<not> is_element instance COMPILED"
    and "\<not> is_element instance BUILTIN"
    and "functionBody (prototype instance) = Some (BLOCK (ss @ [s]))"
    and pre: "compileStatements program ss
           ((set_element COMPILED instance)\<lparr>flow := enterBranchOrScope (flow instance)\<rparr>,
            if is_element instance DECLARED
            then error An_implementation_cannot_be_declared_in_ambient_contexts
                   (declaredName (prototype instance)) st0
            else st0) = Inr (es, fn, st)"
    and last: "compileStatement program s (fn, st) = Inr (e, fn', st')"
    and ret: "flow_is (flow fn') RETURNS"
  shows "\<exists>instance' st''. compileFunction program instance st0 = Inr (True, instance', st'')
           \<and> diagnostics st'' = diagnostics st'"
proof -
  let ?i = "set_element COMPILED instance"
  let ?st1 = "if is_element instance DECLARED
              then error An_implementation_cannot_be_declared_in_ambient_contexts
                     (declaredName (prototype instance)) st0
              else st0"
  have all: "compileStatements program (ss @ [s]) (?i\<lparr>flow := enterBranchOrScope (flow ?i)\<rparr>, ?st1)
               = Inr (es @ [e], fn', st')"
    using compileStatements_append [OF pre last] by simp
  have "sameFrame (flow (?i\<lparr>flow := enterBranchOrScope (flow ?i)\<rparr>)) (flow fn')"
    using all by (rule compileStatements_frame)
  then have l: "leaveBranchOrScope (flow fn') = Inr (flow instance)"
    by (simp add: leave_frame)
  have b: "compileStatement program (BLOCK (ss @ [s])) (?i, ?st1) =
             Inr (createBlock None (es @ [e]) (Some NativeNone),
                  setFlow RETURNS (fn'\<lparr>flow := flow instance\<rparr>), st')"
    using all l ret by (simp add: Let_def)
  have fin: "finalize (flow (setFlow RETURNS (fn'\<lparr>flow := flow instance\<rparr>)))"
    by (simp add: finalize_def)
  show ?thesis
    using assms(1-3) b fin
    by (simp add: compileFunction_def Let_def addFunction_def addFunctionExport_def
        cong: if_cong split del: if_split) simp
qed

text \<open>
  Claim C8. A \<^verbatim>\<open>for\<close> statement without a condition, whose initializer, incrementor and
  body lower, is lowered with the constant \<open>i32 1\<close> as the condition of its loop, whether
  its body returns or not. If the flow left by the body has \<^verbatim>\<open>RETURNS\<close>, then the statement is
  lowered to a block that holds the loop block and a trailing unreachable, and the flow the
  statement was compiled in is the same flow afterwards with \<^verbatim>\<open>RETURNS\<close> set; so for a
  function of any return type whose body is a block that ends in such a loop,
  \<^verbatim>\<open>compileFunction\<close> succeeds and reports nothing once the body is lowered: no "must return
  a value" diagnostic. Otherwise the statement is lowered to the loop block alone and the
  flow is left as it was.
\<close>

theorem for_without_condition_always_returns:
  assumes "enterBreakContext fn = (c, fn0)"
    and "(case initializer' of
            None \<Rightarrow>
              Inr (createNop,
                   fn0\<lparr>flow := setLabels (Some (''break|'' @ c)) (Some (''continue|'' @ c))
                                    (enterBranchOrScope (flow fn0))\<rparr>, st)
          | Some i \<Rightarrow>
              compileStatement program i
                (fn0\<lparr>flow := setLabels (Some (''break|'' @ c)) (Some (''continue|'' @ c))
                                 (enterBranchOrScope (flow fn0))\<rparr>, st))
         = Inr (initExpr, fn2, st2)"
    and "(case incrementor of
            None \<Rightarrow> Inr (createNop, st2)
          | Some e \<Rightarrow> lowerExpression program e Type_void IMPLICIT True st2)
         = Inr (incrExpr, st4)"
    and "compileStatement program statement (fn2, st4) = Inr (bodyExpr, fn5, st5)"
  shows "\<exists>fn'.
           compileStatement program (FOR initializer' None incrementor statement) (fn, st) =
             Inr (if flow_is (flow fn5) RETURNS
                  then createBlock None
                         [createBlock (Some (''break|'' @ c))
                  [initExpr,
                   createLoop (''continue|'' @ c)
                     (createBlock None
                        [createIf (createI32 1)
                           (createBlock None
                              [bodyExpr, incrExpr, createBreak (''continue|'' @ c) None]
                              (Some NativeNone))
                           None]
                        (Some NativeNone))]
                  (Some NativeNone),
                          createUnreachable]
                         None
                  else createBlock (Some (''break|'' @ c))
                  [initExpr,
                   createLoop (''continue|'' @ c)
                     (createBlock None
                        [createIf (createI32 1)
                           (createBlock None
                              [bodyExpr, incrExpr, createBreak (''continue|'' @ c) None]
                              (Some NativeNone))
                           None]
                        (Some NativeNone))]
                  (Some NativeNone),
                  fn', st5)
         \<and> flow fn' = (if flow_is (flow fn5) RETURNS then flow_set RETURNS (flow fn) else flow fn)
         \<and> (flow_is (flow fn5) RETURNS \<longrightarrow>
               flow_is (flow fn') RETURNS
             \<and> (\<forall>instance ss st0 es.
                   \<not> is_element instance COMPILED \<and> \<not> is_element instance BUILTIN
                   \<and> functionBody (prototype instance)
                        = Some (BLOCK (ss @ [FOR initializer' None incrementor statement]))
                   \<and> compileStatements program ss
                        ((set_element COMPILED instance)\<lparr>flow := enterBranchOrScope (flow instance)\<rparr>,
                         if is_element instance DECLARED
                         then error An_implementation_cannot_be_declared_in_ambient_contexts
                                (declaredName (prototype instance)) st0
                         else st0) = Inr (es, fn, st)
                   \<longrightarrow> (\<exists>instance' st'.
                          compileFunction program instance st0 = Inr (True, instance', st')
                        \<and> diagnostics st' = diagnostics st5)))"
proof (cases "flow_is (flow fn5) RETURNS")
  case True
  let ?fn' = "setFlow RETURNS (leaveBreakContext (fn5\<lparr>flow := flow fn\<rparr>))"
  have r: "compileStatement program (FOR initializer' None incrementor statement) (fn, st) =
             Inr (createBlock None
                    [createBlock (Some (''break|'' @ c))
                  [initExpr,
                   createLoop (''continue|'' @ c)
                     (createBlock None
                        [createIf (createI32 1)
                           (createBlock None
                              [bodyExpr, incrExpr, createBreak (''continue|'' @ c) None]
                              (Some NativeNone))
                           None]
                        (Some NativeNone))]
                  (Some NativeNone),
                     createUnreachable]
                    None,
                  ?fn', st5)"
    using for_without_condition_lowered [OF assms] True by simp
  have g: "flow_is (flow ?fn') RETURNS" by simp
  show ?thesis
  proof (rule exI [of _ ?fn'], intro conjI allI impI)
    show "flow ?fn' = (if flow_is (flow fn5) RETURNS then flow_set RETURNS (flow fn) else flow fn)"
      using True by simp
    show "flow_is (flow ?fn') RETURNS" by (rule g)
  next
    fix inst ss st0 es
    assume h: "\<not> is_element inst COMPILED \<and> \<not> is_element inst BUILTIN
               \<and> functionBody (prototype inst)
                    = Some (BLOCK (ss @ [FOR initializer' None incrementor statement]))
               \<and> compileStatements program ss
                    ((set_element COMPILED inst)\<lparr>flow := enterBranchOrScope (flow inst)\<rparr>,
                     if is_element inst DECLARED
                     then error An_implementation_cannot_be_declared_in_ambient_contexts
                            (declaredName (prototype inst)) st0
                     else st0) = Inr (es, fn, st)"
    from h have h1: "\<not> is_element inst COMPILED" by (rule conjunct1)
    from h have h2: "\<not> is_element inst BUILTIN" by (rule conjunct2 [THEN conjunct1])
    from h have h3: "functionBody (prototype inst)
                    = Some (BLOCK (ss @ [FOR initializer' None incrementor statement]))"
      by (rule conjunct2 [THEN conjunct2, THEN conjunct1])
    note h4 = h [THEN conjunct2, THEN conjunct2, THEN conjunct2]
    show "\<exists>instance' st'. compileFunction program inst st0 = Inr (True, instance', st')
            \<and> diagnostics st' = diagnostics st5"
      by (rule function_ending_in_return [OF h1 h2 h3 h4 r g])
  qed (simp only: r True if_True)
next
  case False
  let ?fn' = "leaveBreakContext (fn5\<lparr>flow := flow fn\<rparr>)"
  have r: "compileStatement program (FOR initializer' None incrementor statement) (fn, st) =
             Inr (createBlock (Some (''break|'' @ c))
                  [initExpr,
                   createLoop (''continue|'' @ c)
                     (createBlock None
                        [createIf (createI32 1)
                           (createBlock None
                              [bodyExpr, incrExpr, createBreak (''continue|'' @ c) None]
                              (Some NativeNone))
                           None]
                        (Some NativeNone))]
                  (Some NativeNone),
                  ?fn', st5)"
    using for_without_condition_lowered [OF assms] False by simp
  show ?thesis
  proof (rule exI [of _ ?fn'], intro conjI)
    show "flow ?fn' = (if flow_is (flow fn5) RETURNS then flow_set RETURNS (flow fn) else flow fn)"
      using False by simp
  qed (simp_all only: r False if_False simp_thms)
qed

lemma example_return_block:
  "\<exists>fn'. compileStatement exampleLowering (BLOCK [RETURN (Some (Expression n))]) (fn, st) =
           Inr (createBlock None [createReturn (Some (createI32 (of_nat n)))] (Some NativeNone),
                fn', st\<lparr>currentType := Type_i32\<rparr>)
         \<and> flow_is (flow fn') RETURNS"
  by (simp add: compileReturnStatement_def lowerExpression_def exampleLowering_def
      leaveBranchOrScope_def enterBranchOrScope_def Let_def flow_is_def flow_set_def setFlow_def)

theorem for_without_condition_always_returns_witness:
  "\<exists>e fn' instance' st' fn''.
      compileStatement exampleLowering (FOR None None None (BLOCK [RETURN (Some (Expression 1))]))
        ((set_element COMPILED
            (exampleFunction ''loop'' [] 0 []
               (BLOCK [FOR None None None (BLOCK [RETURN (Some (Expression 1))])])))
           \<lparr>flow := enterBranchOrScope (Flow None {} None None)\<rparr>,
         newCompiler wasm32Options)
        = Inr (createBlock None [e, createUnreachable] None, fn',
               (newCompiler wasm32Options)\<lparr>currentType := Type_i32\<rparr>)
    \<and> flow_is (flow fn') RETURNS
    \<and> compileFunction exampleLowering
        (exampleFunction ''loop'' [] 0 []
           (BLOCK [FOR None None None (BLOCK [RETURN (Some (Expression 1))])]))
        (newCompiler wasm32Options) = Inr (True, instance', st')
    \<and> diagnostics st' = []
    \<and> compileStatement exampleLowering (FOR None None None EMPTY)
        (exampleFunction ''spin'' [] 0 [] (FOR None None None EMPTY), newCompiler wasm32Options)
        = Inr (createBlock (Some ''break|0'')
                 [createNop,
                  createLoop ''continue|0''
                    (createBlock None
                       [createIf (createI32 1)
                          (createBlock None
                             [createNop, createNop, createBreak ''continue|0'' None]
                             (Some NativeNone))
                          None]
                       (Some NativeNone))]
                 (Some NativeNone),
               fn'', newCompiler wasm32Options)
    \<and> flow fn'' = Flow None {} None None"
proof -
  let ?loop = "FOR None None None (BLOCK [RETURN (Some (Expression 1))])"
  let ?f = "exampleFunction ''loop'' [] 0 [] (BLOCK [?loop])"
  let ?st = "newCompiler wasm32Options"
  let ?fn = "(set_element COMPILED ?f)\<lparr>flow := enterBranchOrScope (Flow None {} None None)\<rparr>"
  obtain c fn0 where en: "enterBreakContext ?fn = (c, fn0)" by (cases "enterBreakContext ?fn")
  let ?fn1 = "fn0\<lparr>flow := setLabels (Some (''break|'' @ c)) (Some (''continue|'' @ c))
                               (enterBranchOrScope (flow fn0))\<rparr>"
  have init: "(case None of
                 None \<Rightarrow> Inr (createNop, ?fn1, ?st)
               | Some i \<Rightarrow> compileStatement exampleLowering i (?fn1, ?st))
              = Inr (createNop, ?fn1, ?st)"
    by simp
  have inc: "(case None of
                None \<Rightarrow> Inr (createNop, ?st)
              | Some e \<Rightarrow> lowerExpression exampleLowering e Type_void IMPLICIT True ?st)
             = Inr (createNop, ?st)"
    by simp
  obtain fn5 where
    body: "compileStatement exampleLowering (BLOCK [RETURN (Some (Expression 1))]) (?fn1, ?st) =
             Inr (createBlock None [createReturn (Some (createI32 (of_nat 1)))] (Some NativeNone),
                  fn5, ?st\<lparr>currentType := Type_i32\<rparr>)"
    and ret: "flow_is (flow fn5) RETURNS"
    using example_return_block [of 1 ?fn1 ?st] by blast
  from for_without_condition_always_returns [OF en init inc body]
  obtain fn' where
    r: "compileStatement exampleLowering ?loop (?fn, ?st) =
          Inr (if flow_is (flow fn5) RETURNS
               then createBlock None
                      [createBlock (Some (''break|'' @ c))
                         [createNop,
                          createLoop (''continue|'' @ c)
                            (createBlock None
                               [createIf (createI32 1)
                                  (createBlock None
                                     [createBlock None [createReturn (Some (createI32 (of_nat 1)))]
                                        (Some NativeNone),
                                      createNop, createBreak (''continue|'' @ c) None]
                                     (Some NativeNone))
                                  None]
                               (Some NativeNone))]
                         (Some NativeNone),
                       createUnreachable]
                      None
               else createBlock (Some (''break|'' @ c))
                      [createNop,
                       createLoop (''continue|'' @ c)
                         (createBlock None
                            [createIf (createI32 1)
                               (createBlock None
                                  [createBlock None [createReturn (Some (createI32 (of_nat 1)))]
                                     (Some NativeNone),
                                   createNop, createBreak (''continue|'' @ c) None]
                                  (Some NativeNone))
                               None]
                            (Some NativeNone))]
                      (Some NativeNone),
               fn', ?st\<lparr>currentType := Type_i32\<rparr>)"
    and "flow fn' = (if flow_is (flow fn5) RETURNS then flow_set RETURNS (flow ?fn) else flow ?fn)"
    and fl0: "flow_is (flow fn5) RETURNS \<longrightarrow>
               flow_is (flow fn') RETURNS
             \<and> (\<forall>instance ss st0 es.
               \<not> is_element instance COMPILED \<and> \<not> is_element instance BUILTIN
               \<and> functionBody (prototype instance) = Some (BLOCK (ss @ [?loop]))
               \<and> compileStatements exampleLowering ss
                    ((set_element COMPILED instance)\<lparr>flow := enterBranchOrScope (flow instance)\<rparr>,
                     if is_element instance DECLARED
                     then error An_implementation_cannot_be_declared_in_ambient_contexts
                            (declaredName (prototype instance)) st0
                     else st0) = Inr (es, ?fn, ?st)
               \<longrightarrow> (\<exists>instance' st'.
                      compileFunction exampleLowering instance st0 = Inr (True, instance', st')
                    \<and> diagnostics st' = diagnostics (?st\<lparr>currentType := Type_i32\<rparr>)))"
    by (elim exE conjE)
  from fl0 ret have g: "flow_is (flow fn') RETURNS" by (rule mp [THEN conjunct1])
  from fl0 ret have
    fl: "\<forall>instance ss st0 es.
               \<not> is_element instance COMPILED \<and> \<not> is_element instance BUILTIN
               \<and> functionBody (prototype instance) = Some (BLOCK (ss @ [?loop]))
               \<and> compileStatements exampleLowering ss
                    ((set_element COMPILED instance)\<lparr>flow := enterBranchOrScope (flow instance)\<rparr>,
                     if is_element instance DECLARED
                     then error An_implementation_cannot_be_declared_in_ambient_contexts
                            (declaredName (prototype instance)) st0
                     else st0) = Inr (es, ?fn, ?st)
               \<longrightarrow> (\<exists>instance' st'.
                      compileFunction exampleLowering instance st0 = Inr (True, instance', st')
                    \<and> diagnostics st' = diagnostics (?st\<lparr>currentType := Type_i32\<rparr>))"
    by (rule mp [THEN conjunct2])
  have "\<not> is_element ?f COMPILED \<and> \<not> is_element ?f BUILTIN
        \<and> functionBody (prototype ?f) = Some (BLOCK ([] @ [?loop]))
        \<and> compileStatements exampleLowering []
             ((set_element COMPILED ?f)\<lparr>flow := enterBranchOrScope (flow ?f)\<rparr>,
              if is_element ?f DECLARED
              then error An_implementation_cannot_be_declared_in_ambient_contexts
                     (declaredName (prototype ?f)) ?st
              else ?st) = Inr ([], ?fn, ?st)"
    by (simp add: exampleFunction_def is_element_def set_element_def)
  with fl [THEN spec, THEN spec, THEN spec, THEN spec, of ?f "[]" ?st "[]"]
  obtain instance' st' where
    cf: "compileFunction exampleLowering ?f ?st = Inr (True, instance', st')"
    and d: "diagnostics st' = diagnostics (?st\<lparr>currentType := Type_i32\<rparr>)"
    by blast
  have d0: "diagnostics st' = []" using d by (simp add: newCompiler_def)
  let ?g = "exampleFunction ''spin'' [] 0 [] (FOR None None None EMPTY)"
  let ?ga = "?g\<lparr>nextBreakId := Suc 0, breakStack := [0]\<rparr>"
  let ?gb = "?ga\<lparr>flow := setLabels (Some (''break|'' @ ''0'')) (Some (''continue|'' @ ''0''))
                               (enterBranchOrScope (flow ?ga))\<rparr>"
  have en2: "enterBreakContext ?g = (''0'', ?ga)"
    by (simp add: enterBreakContext_def decimal.simps) (simp add: exampleFunction_def)
  have init2: "(case None of
                 None \<Rightarrow> Inr (createNop, ?gb, ?st)
               | Some i \<Rightarrow> compileStatement exampleLowering i (?gb, ?st))
              = Inr (createNop, ?gb, ?st)"
    by simp
  have body2: "compileStatement exampleLowering EMPTY (?gb, ?st) = Inr (createNop, ?gb, ?st)"
    by simp
  have nr: "\<not> flow_is (flow ?gb) RETURNS"
    by (simp add: flow_is_def setLabels_def enterBranchOrScope_def)
  from for_without_condition_always_returns [OF en2 init2 inc body2]
  obtain fn'' where
    r2: "compileStatement exampleLowering (FOR None None None EMPTY) (?g, ?st) =
          Inr (if flow_is (flow ?gb) RETURNS
               then createBlock None
                      [createBlock (Some (''break|'' @ ''0''))
                         [createNop,
                          createLoop (''continue|'' @ ''0'')
                            (createBlock None
                               [createIf (createI32 1)
                                  (createBlock None
                                     [createNop, createNop, createBreak (''continue|'' @ ''0'') None]
                                     (Some NativeNone))
                                  None]
                               (Some NativeNone))]
                         (Some NativeNone),
                       createUnreachable]
                      None
               else createBlock (Some (''break|'' @ ''0''))
                      [createNop,
                       createLoop (''continue|'' @ ''0'')
                         (createBlock None
                            [createIf (createI32 1)
                               (createBlock None
                                  [createNop, createNop, createBreak (''continue|'' @ ''0'') None]
                                  (Some NativeNone))
                               None]
                            (Some NativeNone))]
                      (Some NativeNone),
               fn'', ?st)"
    and f2: "flow fn'' = (if flow_is (flow ?gb) RETURNS then flow_set RETURNS (flow ?g) else flow ?g)"
    by (elim exE conjE)
  have r2': "compileStatement exampleLowering (FOR None None None EMPTY) (?g, ?st) =
          Inr (createBlock (Some ''break|0'')
                 [createNop,
                  createLoop ''continue|0''
                    (createBlock None
                       [createIf (createI32 1)
                          (createBlock None
                             [createNop, createNop, createBreak ''continue|0'' None]
                             (Some NativeNone))
                          None]
                       (Some NativeNone))]
                 (Some NativeNone),
               fn'', ?st)"
    using r2 nr by (simp only: if_False append_Cons append_Nil)
  have f2': "flow fn'' = Flow None {} None None"
    using f2 nr by (simp add: exampleFunction_def)
  have r': "compileStatement exampleLowering ?loop (?fn, ?st) =
          Inr (createBlock None
                 [createBlock (Some (''break|'' @ c))
                    [createNop,
                     createLoop (''continue|'' @ c)
                       (createBlock None
                          [createIf (createI32 1)
                             (createBlock None
                                [createBlock None [createReturn (Some (createI32 (of_nat 1)))]
                                   (Some NativeNone),
                                 createNop, createBreak (''continue|'' @ c) None]
                                (Some NativeNone))
                             None]
                          (Some NativeNone))]
                    (Some NativeNone),
                  createUnreachable]
                 None,
               fn', ?st\<lparr>currentType := Type_i32\<rparr>)"
    using r ret by (simp only: if_True)
  show ?thesis
    apply (rule exI, rule exI [of _ fn'], rule exI [of _ instance'], rule exI [of _ st'],
        rule exI [of _ fn''])
    apply (intro conjI)
         apply (rule r')
        apply (rule g)
       apply (rule cf)
      apply (rule d0)
     apply (rule r2')
    apply (rule f2')
    done
qed

lemma switchCases_alwaysReturns:
  "switchCases program ctx n i cs blk ar (fn, st) = Inr ((b, ar'), fn', st') \<Longrightarrow>
   ar' = (ar \<and> list_all (\<lambda>(fallsThrough, returns). fallsThrough \<or> returns)
                  (caseBodies program ctx n i cs (fn, st)))"
proof (induction cs arbitrary: i blk ar fn st)
  case Nil
  then show ?case by simp
next
  case (Cons x xs)
  obtain l ss where x: "x = SwitchCase l ss" by (cases x)
  let ?fn1 = "fn\<lparr>flow := setLabels (Some (''break|'' @ ctx)) (continueLabel (flow fn))
                             (enterBranchOrScope (flow fn))\<rparr>"
  from Cons.prems x obtain stmts fn2 st2 where
    c: "compileStatements program ss (?fn1, st) = Inr (stmts, fn2, st2)"
    by (simp add: Let_def split: sum.splits prod.splits)
  from Cons.prems x c obtain p where l: "leaveBranchOrScope (flow fn2) = Inr p"
    by (simp add: Let_def split: sum.splits)
  let ?ar = "if \<not> (i \<noteq> n - 1 \<or> flow_is (flow fn2) RETURNS) then False else ar"
  from Cons.prems x c l obtain blk' where
    r: "switchCases program ctx n (Suc i) xs blk' ?ar (fn2\<lparr>flow := p\<rparr>, st2) = Inr ((b, ar'), fn', st')"
    by (simp add: Let_def)
  from Cons.IH [OF r] x c l show ?case by auto
qed

lemma switchBreaks_default:
  "switchBreaks program c t cs i st = Inr (bs, d, st') \<Longrightarrow> (d \<noteq> None) = hasDefault cs"
proof (induction cs arbitrary: i st bs d st')
  case Nil
  then show ?case by (simp add: hasDefault_def)
next
  case (Cons x xs)
  obtain l ss where x: "x = SwitchCase l ss" by (cases x)
  show ?case
  proof (cases l)
    case None
    with Cons.prems x show ?thesis
      by (auto simp: hasDefault_def split: sum.splits option.splits)
  next
    case (Some e)
    with Cons.prems x obtain st1 bs' st2 where
      "switchBreaks program c t xs (Suc i) st1 = Inr (bs', d, st2)"
      by (auto split: sum.splits)
    from Cons.IH [OF this] x Some show ?thesis by (simp add: hasDefault_def)
  qed
qed

text \<open>
  Claim C9. A \<^verbatim>\<open>switch\<close> statement that has a default case (a case without a label), whose
  condition, labels and case bodies lower, and of which every case body either falls through
  or returns (\<open>everyCaseFallsThroughOrReturns\<close>), is lowered to the nested case blocks, and
  the flow the statement was compiled in is the same frame afterwards, with \<^verbatim>\<open>RETURNS\<close>
  set.
\<close>

theorem switch_with_default_returns:
  assumes en: "enterBreakContext fn = (c, fn1)"
    and gt: "getTempLocal Type_u32 fn1 = (t, fn2)"
    and lo: "lowerExpression program cond Type_u32 IMPLICIT True st = Inr (condExpr, st1)"
    and sb: "switchBreaks program c t cs 0 st1 = Inr (caseBreaks, defaultIndex, st2)"
    and sc: "switchCases program c (length cs) 0 cs
               (createBlock (Some (''case0|'' @ c))
                  (createSetLocal t condExpr # caseBreaks @
                   [createBreak ((case defaultIndex of
                                    Some d \<Rightarrow> ''case'' @ decimal d
                                  | None \<Rightarrow> ''break'') @ ''|'' @ c) None])
                  (Some NativeNone))
               True (freeTempLocal Type_u32 t fn2, st2) = Inr ((block, alwaysReturns), fn4, st4)"
    and dflt: "hasDefault cs"
    and every: "everyCaseFallsThroughOrReturns program c cs (freeTempLocal Type_u32 t fn2, st2)"
  shows "\<exists>fn'. compileStatement program (SWITCH cond cs) (fn, st) = Inr (block, fn', st4)
           \<and> sameFrame (flow fn) (flow fn')
           \<and> flow_is (flow fn') RETURNS"
proof -
  have ar: "alwaysReturns"
    using switchCases_alwaysReturns [OF sc] every
    by (simp add: everyCaseFallsThroughOrReturns_def)
  have d: "defaultIndex \<noteq> None" using switchBreaks_default [OF sb] dflt by simp
  have r: "compileStatement program (SWITCH cond cs) (fn, st)
             = Inr (block, setFlow RETURNS (leaveBreakContext fn4), st4)"
    using en gt lo sb sc ar d by (simp add: Let_def cong: option.case_cong)
  have "sameFrame (flow fn) (flow (setFlow RETURNS (leaveBreakContext fn4)))"
    using r by (rule compileStatement_frame)
  with r show ?thesis by simp
qed

lemma example_return_statements:
  "compileStatements exampleLowering [RETURN (Some (Expression n))] (fn, st) =
     Inr ([createReturn (Some (createI32 (of_nat n)))], setFlow RETURNS fn,
          st\<lparr>currentType := Type_i32\<rparr>)"
  by (simp add: compileReturnStatement_def lowerExpression_def exampleLowering_def)

theorem switch_with_default_returns_witness:
  "\<exists>block fn' st'.
      hasDefault exampleCases
    \<and> compileStatement exampleLowering (SWITCH (Expression 7) exampleCases)
        (exampleFunction ''pick'' [] 0 [] (BLOCK [SWITCH (Expression 7) exampleCases]),
         newCompiler wasm32Options) = Inr (block, fn', st')
    \<and> flow_is (flow fn') RETURNS"
proof -
  let ?fn = "exampleFunction ''pick'' [] 0 [] (BLOCK [SWITCH (Expression 7) exampleCases])"
  let ?st = "newCompiler wasm32Options"
  let ?st2 = "?st\<lparr>currentType := Type_i32\<rparr>"
  obtain c fn1 where en: "enterBreakContext ?fn = (c, fn1)" by (cases "enterBreakContext ?fn")
  obtain t fn2 where gt: "getTempLocal Type_u32 fn1 = (t, fn2)"
    by (cases "getTempLocal Type_u32 fn1")
  let ?fn3 = "freeTempLocal Type_u32 t fn2"
  let ?breaks = "[createBreak (''case'' @ decimal 0 @ ''|'' @ c)
                    (Some (createBinary EqI32 (createGetLocal t NativeI32) (createI32 (of_nat 1))))]"
  have lo: "lowerExpression exampleLowering (Expression 7) Type_u32 IMPLICIT True ?st
              = Inr (createI32 (of_nat 7), ?st2)"
    by (simp add: lowerExpression_def exampleLowering_def)
  have sb: "switchBreaks exampleLowering c t exampleCases 0 ?st2 = Inr (?breaks, Some 1, ?st2)"
    by (simp add: exampleCases_def lowerExpression_def exampleLowering_def)
  have "\<exists>r fn4 st4.
          switchCases exampleLowering c (length exampleCases) 0 exampleCases
            (createBlock (Some (''case0|'' @ c))
               (createSetLocal t (createI32 (of_nat 7)) # ?breaks @
                [createBreak ((case Some 1 of
                                 Some d \<Rightarrow> ''case'' @ decimal d
                               | None \<Rightarrow> ''break'') @ ''|'' @ c) None])
               (Some NativeNone))
            True (?fn3, ?st2) = Inr (r, fn4, st4)"
    by (simp add: exampleCases_def example_return_statements Let_def leaveBranchOrScope_def
        enterBranchOrScope_def setLabels_def setFlow_def del: compileStatements.simps)
      blast
  then obtain block alwaysReturns fn4 st4 where
    sc: "switchCases exampleLowering c (length exampleCases) 0 exampleCases
            (createBlock (Some (''case0|'' @ c))
               (createSetLocal t (createI32 (of_nat 7)) # ?breaks @
                [createBreak ((case Some 1 of
                                 Some d \<Rightarrow> ''case'' @ decimal d
                               | None \<Rightarrow> ''break'') @ ''|'' @ c) None])
               (Some NativeNone))
            True (?fn3, ?st2) = Inr ((block, alwaysReturns), fn4, st4)"
    by (metis prod.collapse)
  have dflt: "hasDefault exampleCases"
    by (simp add: hasDefault_def exampleCases_def)
  have every: "everyCaseFallsThroughOrReturns exampleLowering c exampleCases (?fn3, ?st2)"
    by (simp add: everyCaseFallsThroughOrReturns_def exampleCases_def example_return_statements
        leaveBranchOrScope_def enterBranchOrScope_def setLabels_def setFlow_def
        del: compileStatements.simps)
  from switch_with_default_returns [OF en gt lo sb sc dflt every] dflt
  show ?thesis by blast
qed








lemma asFunction_fields [simp]:
  "internalName (asFunction t) = internalName t"
  "signature (asFunction t) = signature t"
  "is_element (asFunction t) x = is_element t x"
  by (simp_all add: asFunction_def is_element_def)




end
